theory Spec2Isabelle
  imports Complex_Main "HOL-Library.AList"
begin

section \<open>The role-playing engine of rpg2.py\<close>

text \<open>
  A shallow embedding of the turn-based engine of \<^verbatim>\<open>src/rpg2.py\<close>: its entities, the
  combat arithmetic, the day cycle, movement on the grid, equipment and the persistence
  format, each function translated from the Python function of the same name.

  Conventions of the embedding.
  \<^item> Python's unbounded \<^verbatim>\<open>int\<close> is \<open>int\<close>. A Python \<^verbatim>\<open>float\<close> is a \<open>rat\<close>: the
    arithmetic of the source is done exactly, so the rounding of IEEE doubles and the
    \<^verbatim>\<open>OverflowError\<close> of converting an integer beyond the double range are outside the
    model. \<^verbatim>\<open>int(x)\<close> of a float truncates towards zero (\<open>py_int\<close>).
  \<^item> A dataclass is a record; a field whose name another record or a constant of the
    library already uses carries a prefix or a prime (\<^verbatim>\<open>Stats.exp\<close> is \<open>exp'\<close>,
    \<^verbatim>\<open>Stats.int_\<close> is \<open>int'\<close>, \<^verbatim>\<open>Stats.def_\<close> is \<open>def'\<close>, \<^verbatim>\<open>Item.name\<close> is
    \<open>item_name\<close>).
  \<^item> A \<^verbatim>\<open>dict\<close> is an association list in insertion order, read with \<open>map_of\<close> and
    written with \<open>AList.update\<close> (an existing key keeps its place, a new key goes last,
    as in Python).
  \<^item> An exception is the left summand of \<open>py_error + 'a\<close>.
  \<^item> The random generator is the sequence of the numbers in \<open>[0, 1)\<close> it is going to
    return; every call of the source that draws from it consumes one number.
  \<^item> Letters outside ASCII in the string literals of the source are written without
    their accent (\<^verbatim>\<open>Pocion\<close>); the code only compares such names with each other.
\<close>

subsection \<open>Enumerations\<close>

datatype ClassType = WARRIOR | MAGE | ROGUE

datatype ActionType = ATTACK | SKILL | ITEM | DEFEND | FLEE

datatype StatusType = POISON | BURN | STUN | REGEN

datatype TileType = TOWN | FOREST | CAVE | RUINS | LAKE

datatype State = MAIN_MENU | EXPLORATION | COMBAT | SHOP | INVENTORY | CHARACTER
  | QUESTS | SAVELOAD | GAME_OVER

subsection \<open>Python values and exceptions\<close>

text \<open>
  The documents that \<^verbatim>\<open>to_dict\<close> builds and \<^verbatim>\<open>from_dict\<close> reads: \<^verbatim>\<open>None\<close>, booleans,
  integers, floats, strings, lists and dictionaries with string keys.
\<close>

datatype pyval = PNone | PBool bool | PInt int | PFloat rat | PStr string
  | PList "pyval list" | PDict "(string \<times> pyval) list"

text \<open>
  \<open>IllTyped\<close> is not an exception of Python: it marks a document whose value at a field
  is not of the field's declared type where Python would store it unchecked; the typed
  records of the model cannot hold it.
\<close>

datatype py_error = KeyError string | TypeError | ValueError | AttributeError string
  | IndexError | AssertionError | OSError | UnicodeDecodeError | RecursionError | IllTyped

definition py_int :: "rat \<Rightarrow> int" where
  "py_int x = (if 0 \<le> x then \<lfloor>x\<rfloor> else \<lceil>x\<rceil>)"

subsection \<open>Integers as text\<close>

text \<open>
  \<^verbatim>\<open>str(i)\<close> (and \<^verbatim>\<open>f"{i}"\<close>) of an integer: its decimal digits, with a minus sign for a
  negative one. \<^verbatim>\<open>int(s)\<close> of a string: an optional sign and decimal digits; Python also
  accepts blanks around the number and underscores between digits, which the model
  rejects with \<^verbatim>\<open>ValueError\<close> (no such text is written by the program).
  \<^verbatim>\<open>s.split(",")\<close> cuts at every comma.
\<close>

definition digit_char :: "nat \<Rightarrow> char" where
  "digit_char d = char_of (48 + d)"

fun digits_of :: "nat \<Rightarrow> string" where
  "digits_of n =
     (if n < 10 then [digit_char n] else digits_of (n div 10) @ [digit_char (n mod 10)])"

declare digits_of.simps [simp del]

definition str_of_int :: "int \<Rightarrow> string" where
  "str_of_int i = (if i < 0 then CHR ''-'' # digits_of (nat (- i)) else digits_of (nat i))"

definition is_digit :: "char \<Rightarrow> bool" where
  "is_digit c \<longleftrightarrow> 48 \<le> (of_char c :: nat) \<and> (of_char c :: nat) \<le> 57"

definition digit_value :: "char \<Rightarrow> nat" where
  "digit_value c = of_char c - 48"

definition nat_of_digits :: "string \<Rightarrow> nat" where
  "nat_of_digits ds = foldl (\<lambda>acc c. 10 * acc + digit_value c) 0 ds"

definition int_of_str :: "string \<Rightarrow> int option" where
  "int_of_str s =
     (case s of
        [] \<Rightarrow> None
      | c # ds \<Rightarrow>
          if c = CHR ''-'' then
            (if ds \<noteq> [] \<and> list_all is_digit ds then Some (- int (nat_of_digits ds)) else None)
          else if c = CHR ''+'' then
            (if ds \<noteq> [] \<and> list_all is_digit ds then Some (int (nat_of_digits ds)) else None)
          else if list_all is_digit s then Some (int (nat_of_digits s)) else None)"

fun split_on :: "char \<Rightarrow> string \<Rightarrow> string list" where
  "split_on c [] = [[]]"
| "split_on c (x # xs) =
     (if x = c then [] # split_on c xs
      else (case split_on c xs of [] \<Rightarrow> [[x]] | part # parts \<Rightarrow> (x # part) # parts))"

subsection \<open>The random generator\<close>

type_synonym rng = "nat \<Rightarrow> rat"

definition rng_random :: "rng \<Rightarrow> rat \<times> rng" where
  "rng_random r = (r 0, \<lambda>n. r (Suc n))"

text \<open>\<^verbatim>\<open>Random.uniform(a, b)\<close> is \<^verbatim>\<open>a + (b - a) * self.random()\<close>.\<close>

definition rng_uniform :: "rat \<Rightarrow> rat \<Rightarrow> rng \<Rightarrow> rat \<times> rng" where
  "rng_uniform a b r = (case rng_random r of (u, r') \<Rightarrow> (a + (b - a) * u, r'))"

definition roll_chance :: "rng \<Rightarrow> rat \<Rightarrow> bool \<times> rng" where
  "roll_chance r chance = (case rng_random r of (u, r') \<Rightarrow> (u < chance, r'))"

text \<open>
  \<^verbatim>\<open>Random.choice(xs)\<close> and \<^verbatim>\<open>Random.randint(a, b)\<close> consume one number \<open>u\<close> as well and
  return the element at index \<open>\<lfloor>u * len(xs)\<rfloor>\<close>, respectively \<open>a + \<lfloor>u * (b - a + 1)\<rfloor>\<close>. The
  source calls \<^verbatim>\<open>choice\<close> on lists it has just tested to be non-empty (\<^verbatim>\<open>choice\<close> of an
  empty list raises \<^verbatim>\<open>IndexError\<close>); the index is taken modulo the length, which changes
  nothing for \<open>u\<close> in \<open>[0, 1)\<close>.
\<close>

definition rng_choice :: "'a list \<Rightarrow> rng \<Rightarrow> 'a \<times> rng" where
  "rng_choice xs r =
     (case rng_random r of (u, r') \<Rightarrow>
        (xs ! (nat \<lfloor>u * of_nat (length xs)\<rfloor> mod length xs), r'))"

definition rng_randint :: "int \<Rightarrow> int \<Rightarrow> rng \<Rightarrow> int \<times> rng" where
  "rng_randint a b r =
     (case rng_random r of (u, r') \<Rightarrow> (a + \<lfloor>u * of_int (b - a + 1)\<rfloor>, r'))"

subsection \<open>Entities\<close>

record Stats =
  lvl :: int
  exp' :: int
  hp :: int
  hp_max :: int
  mp :: int
  mp_max :: int
  str :: int
  int' :: int
  agi :: int
  def' :: int
  gold :: int

record StatusEffect =
  status :: StatusType
  potency :: int
  duration :: int

record Skill =
  skill_name :: string
  skill_description :: string
  mp_cost :: int
  base_power :: int
  scaling :: string
  skill_status :: "(StatusType \<times> int \<times> int) option"

record Item =
  item_name :: string
  item_description :: string
  effect :: "(string \<times> pyval) list"
  price :: int
  consumable :: bool

record Equipment =
  eq_name :: string
  eq_description :: string
  slot :: string
  stat_bonuses :: "(string \<times> int) list"
  eq_price :: int

record Quest =
  quest_name :: string
  quest_description :: string
  objective_type :: string
  target :: string
  required :: int
  reward_exp :: int
  reward_gold :: int
  reward_item :: "Item option"
  progress :: int
  completed :: bool

record Location =
  loc_position :: "int \<times> int"
  tile_type :: TileType
  loc_discovered :: bool
  zone :: string
  loc_description :: string
  danger :: rat
  features :: "string list"

record Enemy =
  enemy_name :: string
  enemy_stats :: Stats
  enemy_skills :: "Skill list"
  drops :: "Item list"
  enemy_status_effects :: "StatusEffect list"

record Player =
  name :: string
  class_type :: ClassType
  stats :: Stats
  skills :: "Skill list"
  inventory :: "Item list"
  equipment :: "(string \<times> Equipment) list"
  status_effects :: "StatusEffect list"
  quests :: "Quest list"
  position :: "int \<times> int"

record Zone =
  zone_name :: string
  zone_tile_type :: TileType
  zone_danger :: rat
  zone_description :: string
  zone_features :: "string list"

text \<open>
  An entry of \<^verbatim>\<open>QUEST_BOARD_TEMPLATES\<close>; \<open>t_item\<close> is the item its \<^verbatim>\<open>"item"\<close> factory
  builds. An entry of the shop's stock is a piece of equipment or an item.
\<close>

record QuestTemplate =
  t_name :: string
  t_description :: string
  t_target :: string
  t_required :: int
  t_exp :: int
  t_gold :: int
  t_item :: Item

datatype stock = StockEquipment Equipment | StockItem Item

record GameState =
  gs_state :: State
  gs_player :: "Player option"
  gs_game_map :: "((int \<times> int) \<times> Location) list"
  gs_discovered :: "(int \<times> int) list"
  gs_day :: int
  gs_turn_count :: int
  gs_quest_board :: "Quest list"
  gs_shop_stock :: "stock list"

text \<open>
  The file at \<^verbatim>\<open>CONFIG.save_path\<close>, by what \<^verbatim>\<open>load_game\<close> meets when it reads it:
  \<^item> \<open>NoFile\<close>: \<^verbatim>\<open>save_path.exists()\<close> is false;
  \<^item> \<open>Unopenable\<close>: the path exists but \<^verbatim>\<open>save_path.open("r", encoding="utf-8")\<close> raises
    \<^verbatim>\<open>OSError\<close> (a directory, or a file the process may not read);
  \<^item> \<open>NotUtf8\<close>: the file opens, but its bytes are not valid UTF-8, so that the read
    inside \<^verbatim>\<open>json.load\<close> raises \<^verbatim>\<open>UnicodeDecodeError\<close>;
  \<^item> \<open>TooDeep\<close>: the text nests arrays or objects beyond the recursion limit and
    \<^verbatim>\<open>json.load\<close> raises \<^verbatim>\<open>RecursionError\<close>;
  \<^item> \<open>NotJson\<close>: the text is decoded and \<^verbatim>\<open>json.load\<close> rejects it with
    \<^verbatim>\<open>JSONDecodeError\<close> (the empty file is one);
  \<^item> \<open>Document d\<close>: the file holds the JSON text of the document \<open>d\<close> (\<^verbatim>\<open>json.dump\<close> and
    \<^verbatim>\<open>json.load\<close> are inverse on the documents the program writes).

  The JSON library and the file system are not part of the repository; what they
  return for the file is the input of the model.
\<close>

datatype save_file = NoFile | Unopenable | NotUtf8 | TooDeep | NotJson | Document pyval

text \<open>
  The fields of \<^verbatim>\<open>Game\<close> that the engine reads and writes, followed by its
  environment: the save file, the lines still to be read from standard input (after
  the last one \<^verbatim>\<open>input\<close> raises \<^verbatim>\<open>EOFError\<close> and \<^verbatim>\<open>safe_input\<close> returns \<^verbatim>\<open>None\<close>), and
  the messages printed to report a rejected command or a failed operation. The rest
  of the output (maps, menus, narration, \<^verbatim>\<open>last_tip\<close>) is presentation and is not
  modelled.
\<close>

record Game =
  testing :: bool
  rng :: rng
  state :: State
  player :: "Player option"
  game_map :: "((int \<times> int) \<times> Location) list"
  discovered :: "(int \<times> int) list"
  start_position :: "int \<times> int"
  current_enemy :: "Enemy option"
  player_guard_active :: bool
  day :: int
  turn_count :: int
  quest_board :: "Quest list"
  shop_stock :: "stock list"
  save_file :: save_file
  stdin :: "string list"
  reports :: "string list"

subsection \<open>Clamping and the mutators of health and mana\<close>

definition clamp :: "int \<Rightarrow> int \<Rightarrow> int \<Rightarrow> int" where
  "clamp v minimum maximum = max minimum (min maximum v)"

definition apply_damage :: "int \<Rightarrow> Player \<Rightarrow> Player" where
  "apply_damage amount p =
     p\<lparr>stats := (stats p)\<lparr>hp := clamp (hp (stats p) - amount) 0 (hp_max (stats p))\<rparr>\<rparr>"

definition heal :: "int \<Rightarrow> Player \<Rightarrow> Player" where
  "heal amount p =
     p\<lparr>stats := (stats p)\<lparr>hp := clamp (hp (stats p) + amount) 0 (hp_max (stats p))\<rparr>\<rparr>"

definition restore_mp :: "int \<Rightarrow> Player \<Rightarrow> Player" where
  "restore_mp amount p =
     p\<lparr>stats := (stats p)\<lparr>mp := clamp (mp (stats p) + amount) 0 (mp_max (stats p))\<rparr>\<rparr>"

text \<open>
  A sequence of such mutations, and the list of the states the player goes through
  (one after every operation).
\<close>

datatype mutation = Damage int | Heal int | RestoreMp int

fun mutate :: "Player \<Rightarrow> mutation \<Rightarrow> Player" where
  "mutate p (Damage n) = apply_damage n p"
| "mutate p (Heal n) = heal n p"
| "mutate p (RestoreMp n) = restore_mp n p"

fun mutation_trace :: "Player \<Rightarrow> mutation list \<Rightarrow> Player list" where
  "mutation_trace p [] = []"
| "mutation_trace p (m # ms) = mutate p m # mutation_trace (mutate p m) ms"

definition stats_ok :: "Stats \<Rightarrow> bool" where
  "stats_ok s \<longleftrightarrow> 0 \<le> hp s \<and> hp s \<le> hp_max s \<and> 0 \<le> mp s \<and> mp s \<le> mp_max s"

subsection \<open>The damage formula\<close>

definition calc_damage :: "Stats \<Rightarrow> Stats \<Rightarrow> Skill option \<Rightarrow> rng \<Rightarrow> int \<times> rng" where
  "calc_damage attacker defender skill r0 =
     (let power = (case skill of Some sk \<Rightarrow> base_power sk | None \<Rightarrow> max 5 (str attacker));
          scaling_value = (case skill of
              Some sk \<Rightarrow> if scaling sk = ''str'' then str attacker else int' attacker
            | None \<Rightarrow> str attacker);
          base = power + py_int (of_int scaling_value * (6 / 10))
      in case rng_uniform (85 / 100) 1 r0 of (variance, r1) \<Rightarrow>
        let damage0 = py_int (of_int base * variance);
            mitigation = py_int (of_int (def' defender) * (45 / 100));
            damage1 = max 1 (damage0 - mitigation);
            crit_chance = min (1 / 2) (of_int (agi attacker) / 150)
        in case roll_chance r1 crit_chance of (crit, r2) \<Rightarrow>
          let damage2 = (if crit then py_int (of_int damage1 * (3 / 2)) else damage1);
              block_chance = min (3 / 10) (of_int (def' defender) / 200)
          in case roll_chance r2 block_chance of (block, r3) \<Rightarrow>
            (if block then max 1 (py_int (of_int damage2 * (1 / 2))) else damage2, r3))"

subsection \<open>Equipment\<close>

text \<open>
  \<^verbatim>\<open>Stats.apply_delta\<close> reads and writes the fields by name (\<^verbatim>\<open>getattr\<close>, \<^verbatim>\<open>setattr\<close>).
  The dataclass has the eleven integer fields below; any other key makes \<^verbatim>\<open>getattr\<close>
  raise \<^verbatim>\<open>AttributeError\<close> (a key that names a method of the class makes the addition
  raise \<^verbatim>\<open>TypeError\<close> instead: an error as well).
\<close>

definition stat_keys :: "string list" where
  "stat_keys = [''lvl'', ''exp'', ''hp'', ''hp_max'', ''mp'', ''mp_max'', ''str'', ''int_'',
     ''agi'', ''def_'', ''gold'']"

definition getattr :: "Stats \<Rightarrow> string \<Rightarrow> int option" where
  "getattr s key =
     (if key = ''lvl'' then Some (lvl s)
      else if key = ''exp'' then Some (exp' s)
      else if key = ''hp'' then Some (hp s)
      else if key = ''hp_max'' then Some (hp_max s)
      else if key = ''mp'' then Some (mp s)
      else if key = ''mp_max'' then Some (mp_max s)
      else if key = ''str'' then Some (str s)
      else if key = ''int_'' then Some (int' s)
      else if key = ''agi'' then Some (agi s)
      else if key = ''def_'' then Some (def' s)
      else if key = ''gold'' then Some (gold s)
      else None)"

definition setattr :: "Stats \<Rightarrow> string \<Rightarrow> int \<Rightarrow> Stats" where
  "setattr s key v =
     (if key = ''lvl'' then s\<lparr>lvl := v\<rparr>
      else if key = ''exp'' then s\<lparr>exp' := v\<rparr>
      else if key = ''hp'' then s\<lparr>hp := v\<rparr>
      else if key = ''hp_max'' then s\<lparr>hp_max := v\<rparr>
      else if key = ''mp'' then s\<lparr>mp := v\<rparr>
      else if key = ''mp_max'' then s\<lparr>mp_max := v\<rparr>
      else if key = ''str'' then s\<lparr>str := v\<rparr>
      else if key = ''int_'' then s\<lparr>int' := v\<rparr>
      else if key = ''agi'' then s\<lparr>agi := v\<rparr>
      else if key = ''def_'' then s\<lparr>def' := v\<rparr>
      else if key = ''gold'' then s\<lparr>gold := v\<rparr>
      else s)"

fun add_deltas :: "(string \<times> int) list \<Rightarrow> Stats \<Rightarrow> py_error + Stats" where
  "add_deltas [] s = Inr s"
| "add_deltas ((key, delta) # deltas) s =
     (case getattr s key of
        None \<Rightarrow> Inl (AttributeError key)
      | Some current \<Rightarrow> add_deltas deltas (setattr s key (current + delta)))"

definition clamp_hp_mp :: "Stats \<Rightarrow> Stats" where
  "clamp_hp_mp s =
     (let s1 = s\<lparr>hp := clamp (hp s) 0 (hp_max s)\<rparr>
      in s1\<lparr>mp := clamp (mp s1) 0 (mp_max s1)\<rparr>)"

definition apply_delta :: "(string \<times> int) list \<Rightarrow> Stats \<Rightarrow> py_error + Stats" where
  "apply_delta deltas s = map_sum id clamp_hp_mp (add_deltas deltas s)"

definition negated :: "(string \<times> int) list \<Rightarrow> (string \<times> int) list" where
  "negated bonuses = map (\<lambda>(key, v). (key, - v)) bonuses"

definition equip :: "Equipment \<Rightarrow> Player \<Rightarrow> py_error + Player \<times> Equipment option" where
  "equip e p =
     (let previous = map_of (equipment p) (slot e) in
      case (case previous of
              Some prev \<Rightarrow> apply_delta (negated (stat_bonuses prev)) (stats p)
            | None \<Rightarrow> Inr (stats p)) of
        Inl err \<Rightarrow> Inl err
      | Inr s1 \<Rightarrow>
          (case apply_delta (stat_bonuses e) s1 of
             Inl err \<Rightarrow> Inl err
           | Inr s2 \<Rightarrow>
               Inr (p\<lparr>equipment := AList.update (slot e) e (equipment p), stats := s2\<rparr>,
                    previous)))"

definition unequip :: "string \<Rightarrow> Player \<Rightarrow> py_error + Player \<times> Equipment option" where
  "unequip sl p =
     (case map_of (equipment p) sl of
        None \<Rightarrow> Inr (p, None)
      | Some e \<Rightarrow>
          (case apply_delta (negated (stat_bonuses e)) (stats p) of
             Inl err \<Rightarrow> Inl err
           | Inr s1 \<Rightarrow> Inr (p\<lparr>equipment := AList.delete sl (equipment p), stats := s1\<rparr>, Some e)))"

text \<open>
  The vocabulary of the statements about equipment: the total bonus a list of
  \<open>(key, delta)\<close> pairs gives to one key, the statistics with all bonuses of a list
  added and nothing clamped, sequences of equip and unequip operations, the bonuses of
  everything a player has equipped, and the statistics with current health and mana
  left out of the comparison.
\<close>

definition bonus :: "string \<Rightarrow> (string \<times> int) list \<Rightarrow> int" where
  "bonus key bonuses = sum_list (map snd (filter (\<lambda>kv. fst kv = key) bonuses))"

definition shifted :: "(string \<times> int) list \<Rightarrow> Stats \<Rightarrow> Stats" where
  "shifted b s = \<lparr>lvl = lvl s + bonus ''lvl'' b, exp' = exp' s + bonus ''exp'' b,
     hp = hp s + bonus ''hp'' b, hp_max = hp_max s + bonus ''hp_max'' b,
     mp = mp s + bonus ''mp'' b, mp_max = mp_max s + bonus ''mp_max'' b,
     str = str s + bonus ''str'' b, int' = int' s + bonus ''int_'' b,
     agi = agi s + bonus ''agi'' b, def' = def' s + bonus ''def_'' b,
     gold = gold s + bonus ''gold'' b\<rparr>"

datatype equip_op = Equip Equipment | Unequip string

fun run_equip_ops :: "Player \<Rightarrow> equip_op list \<Rightarrow> py_error + Player" where
  "run_equip_ops p [] = Inr p"
| "run_equip_ops p (Equip e # ops) =
     (case equip e p of Inl err \<Rightarrow> Inl err | Inr (p', _) \<Rightarrow> run_equip_ops p' ops)"
| "run_equip_ops p (Unequip sl # ops) =
     (case unequip sl p of Inl err \<Rightarrow> Inl err | Inr (p', _) \<Rightarrow> run_equip_ops p' ops)"

definition equipped_bonuses :: "(string \<times> Equipment) list \<Rightarrow> (string \<times> int) list" where
  "equipped_bonuses eqs = concat (map (\<lambda>se. stat_bonuses (snd se)) eqs)"

definition unclamped :: "Stats \<Rightarrow> Stats" where
  "unclamped s = s\<lparr>hp := 0, mp := 0\<rparr>"

definition valid_bonus_keys :: "Equipment \<Rightarrow> bool" where
  "valid_bonus_keys e \<longleftrightarrow> set (map fst (stat_bonuses e)) \<subseteq> set stat_keys"

fun op_valid :: "equip_op \<Rightarrow> bool" where
  "op_valid (Equip e) = valid_bonus_keys e"
| "op_valid (Unequip sl) = True"

definition equip_inv :: "Stats \<Rightarrow> Player \<Rightarrow> bool" where
  "equip_inv s0 p \<longleftrightarrow>
     distinct (map fst (equipment p)) \<and>
     list_all (\<lambda>se. valid_bonus_keys (snd se)) (equipment p) \<and>
     unclamped (stats p) = unclamped (shifted (equipped_bonuses (equipment p)) s0)"

subsection \<open>The tables of the game\<close>

text \<open>
  \<^verbatim>\<open>ZONE_BLUEPRINTS\<close>, the enemies, the shop's catalogue, \<^verbatim>\<open>QUEST_BOARD_TEMPLATES\<close>,
  \<^verbatim>\<open>BASE_STATS\<close> and \<^verbatim>\<open>CLASS_SKILLS\<close>, as the source lists them.
\<close>

definition ZONE_BLUEPRINTS :: "((int \<times> string) \<times> Zone) list" where
  "ZONE_BLUEPRINTS = [
     ((0, ''C''), \<lparr>zone_name = ''Plaza de Eteria'', zone_tile_type = TOWN, zone_danger
       = 0, zone_description = ''El corazon comercial del reino, siempre bullicioso.'',
       zone_features = [''Posada'', ''Mercado'', ''Gremio de aventureros'']\<rparr>),
     ((1, ''C''), \<lparr>zone_name = ''Barrio Artesano'', zone_tile_type = TOWN, zone_danger
       = 0, zone_description = ''Calles estrechas llenas de talleres y vecinos amables.'',
       zone_features = [''Forja'', ''Biblioteca'', ''Tablon de misiones'']\<rparr>),
     ((2, ''N''), \<lparr>zone_name = ''Bosque Brumoso'', zone_tile_type = FOREST, zone_danger
       = 2 / 5, zone_description = ''Arboles retorcidos cubiertos por una niebla perpetua.'',
       zone_features = [''Hierbas curativas'', ''Riachuelos ocultos'']\<rparr>),
     ((2, ''S''), \<lparr>zone_name = ''Ruinas Antiguas'', zone_tile_type = RUINS, zone_danger
       = 9 / 20, zone_description =
       ''Restos de una civilizacion olvidada plagados de trampas.'', zone_features =
       [''Obeliscos'', ''Criptas selladas'']\<rparr>),
     ((2, ''E''), \<lparr>zone_name = ''Caverna Ambar'', zone_tile_type = CAVE, zone_danger =
       1 / 2, zone_description = ''Minerales brillantes iluminan los pasajes sinuosos.'',
       zone_features = [''Vetas de mana'', ''Minerales raros'']\<rparr>),
     ((2, ''W''), \<lparr>zone_name = ''Lago Sereno'', zone_tile_type = LAKE, zone_danger = 1
       / 4, zone_description = ''Aguas tranquilas donde descansan espiritus acuaticos.'',
       zone_features = [''Pesca'', ''Isletas cubiertas de flores'']\<rparr>),
     ((2, ''NE''), \<lparr>zone_name = ''Laderas Ventosas'', zone_tile_type = FOREST,
       zone_danger = 19 / 50, zone_description =
       ''Colinas arboladas batidas por corrientes de aire constante.'', zone_features =
       [''Miradores'', ''Senderos secretos'']\<rparr>),
     ((2, ''NW''), \<lparr>zone_name = ''Sendero del Roble'', zone_tile_type = FOREST,
       zone_danger = 33 / 100, zone_description =
       ''Robles milenarios crean un dosel casi impenetrable.'', zone_features =
       [''Setas raras'', ''Refugios naturales'']\<rparr>),
     ((2, ''SE''), \<lparr>zone_name = ''Catacumbas Menores'', zone_tile_type = RUINS,
       zone_danger = 12 / 25, zone_description =
       ''Pasadizos estrechos comunicados con las ruinas mayores.'', zone_features =
       [''Altares hundidos'', ''Reliquias olvidadas'']\<rparr>),
     ((2, ''SW''), \<lparr>zone_name = ''Manantial Termal'', zone_tile_type = LAKE,
       zone_danger = 3 / 10, zone_description =
       ''Corrientes calidas emergen de grietas cristalinas.'', zone_features =
       [''Banos minerales'', ''Vapor relajante'']\<rparr>),
     ((3, ''N''), \<lparr>zone_name = ''Bosque Umbrio'', zone_tile_type = FOREST, zone_danger
       = 1 / 2, zone_description = ''Sombras densas ocultan bestias agiles y territoriales.'',
       zone_features = [''Cuevas de lobos'', ''Raices luminosas'']\<rparr>),
     ((3, ''S''), \<lparr>zone_name = ''Cementerio Real'', zone_tile_type = RUINS, zone_danger
       = 11 / 20, zone_description = ''Mausoleos derruidos donde vagan espiritus inquietos.'',
       zone_features = [''Mausoleos'', ''Estatuas derruidas'']\<rparr>),
     ((3, ''E''), \<lparr>zone_name = ''Galerias del Eco'', zone_tile_type = CAVE, zone_danger
       = 3 / 5, zone_description =
       ''Tuneles que resuenan con rugidos de criaturas subterraneas.'', zone_features =
       [''Cristales resonantes'', ''Corrientes subterraneas'']\<rparr>),
     ((3, ''W''), \<lparr>zone_name = ''Pantano Plateado'', zone_tile_type = LAKE, zone_danger
       = 2 / 5, zone_description =
       ''Cienagas cubiertas por una niebla plateada que confunde el paso.'', zone_features =
       [''Nenufares'', ''Esencias alquimicas'']\<rparr>),
     ((3, ''NE''), \<lparr>zone_name = ''Arboleda del Silbido'', zone_tile_type = FOREST,
       zone_danger = 9 / 20, zone_description =
       ''Bosquecillo donde el viento canta entre las hojas.'', zone_features =
       [''Piedras cantoras'', ''Nidos elevados'']\<rparr>),
     ((3, ''NW''), \<lparr>zone_name = ''Pico del Cuervo'', zone_tile_type = CAVE, zone_danger
       = 29 / 50, zone_description = ''Acantilados abruptos custodiados por goblins vigias.'',
       zone_features = [''Nidos de cuervos'', ''Miradores naturales'']\<rparr>),
     ((3, ''SE''), \<lparr>zone_name = ''Cripta Olvidada'', zone_tile_type = RUINS,
       zone_danger = 3 / 5, zone_description =
       ''Catacumbas profundas donde resuenan canticos apagados.'', zone_features =
       [''Runas marchitas'', ''Sarcofagos'']\<rparr>),
     ((3, ''SW''), \<lparr>zone_name = ''Isla de los Suspiros'', zone_tile_type = LAKE,
       zone_danger = 21 / 50, zone_description =
       ''Pequenas islas conectadas por pasarelas de madera.'', zone_features =
       [''Recoleccion de perlas'', ''Viento calmante'']\<rparr>),
     ((4, ''N''), \<lparr>zone_name = ''Muro de Espinas'', zone_tile_type = FOREST,
       zone_danger = 3 / 5, zone_description =
       ''Un cinturon de vegetacion agresiva que protege el norte.'', zone_features =
       [''Zarzales'', ''Bestias guardianas'']\<rparr>),
     ((4, ''S''), \<lparr>zone_name = ''Santuario Perdido'', zone_tile_type = RUINS,
       zone_danger = 13 / 20, zone_description =
       ''Templo hundido dedicado a una deidad olvidada.'', zone_features =
       [''Altares brillantes'', ''Guardianes espectrales'']\<rparr>),
     ((4, ''E''), \<lparr>zone_name = ''Fosa de Obsidiana'', zone_tile_type = CAVE,
       zone_danger = 17 / 25, zone_description =
       ''Pozos profundos llenos de cristales oscuros.'', zone_features = [''Gemas afiladas'',
       ''Vapores toxicos'']\<rparr>),
     ((4, ''W''), \<lparr>zone_name = ''Delta Turquesa'', zone_tile_type = LAKE, zone_danger =
       9 / 20, zone_description = ''Aguas rapidas que desembocan en el mar interior.'',
       zone_features = [''Pesca dificil'', ''Corrientes impredecibles'']\<rparr>),
     ((4, ''NE''), \<lparr>zone_name = ''Atalaya del Relampago'', zone_tile_type = CAVE,
       zone_danger = 7 / 10, zone_description =
       ''Ruinas verticales donde se concentran tormentas magicas.'', zone_features =
       [''Pararrayos'', ''Runas chisporroteantes'']\<rparr>),
     ((4, ''NW''), \<lparr>zone_name = ''Bosque del Alba'', zone_tile_type = FOREST,
       zone_danger = 11 / 20, zone_description =
       ''La luz del amanecer se filtra creando destellos dorados.'', zone_features =
       [''Flores etereas'', ''Circulos de hadas'']\<rparr>),
     ((4, ''SE''), \<lparr>zone_name = ''Nexo del Caos'', zone_tile_type = RUINS, zone_danger
       = 7 / 10, zone_description = ''Portal inestable sellado por antiguos guardianes.'',
       zone_features = [''Sellos arcanos'', ''Energia erratica'']\<rparr>),
     ((4, ''SW''), \<lparr>zone_name = ''Marjal Dorado'', zone_tile_type = LAKE, zone_danger =
       1 / 2, zone_description = ''Turberas brillantes donde afloran minerales dorados.'',
       zone_features = [''Limo dorado'', ''Vapores calidos'']\<rparr>)]"

definition enemy_slime :: Enemy where
  "enemy_slime = \<lparr>enemy_name = ''Slime'',
     enemy_stats = \<lparr>lvl = 1, exp' = 0, hp = 30, hp_max = 30, mp = 10, mp_max = 10, str
       = 6, int' = 4, agi = 5, def' = 3, gold = 5\<rparr>,
     enemy_skills = [
       \<lparr>skill_name = ''Golpe viscoso'', skill_description = ''Un golpe pegajoso.'',
         mp_cost = 0, base_power = 8, scaling = ''str'', skill_status = None\<rparr>],
     drops = [
       \<lparr>item_name = ''Gel'', item_description = ''Un trozo de gel.'', effect =
         [(''sell'', PInt 3)], price = 3, consumable = True\<rparr>],
     enemy_status_effects = []\<rparr>"

definition enemy_goblin :: Enemy where
  "enemy_goblin = \<lparr>enemy_name = ''Goblin'',
     enemy_stats = \<lparr>lvl = 2, exp' = 0, hp = 45, hp_max = 45, mp = 10, mp_max = 10, str
       = 9, int' = 5, agi = 7, def' = 4, gold = 8\<rparr>,
     enemy_skills = [
       \<lparr>skill_name = ''Tajo'', skill_description = ''Ataque veloz'', mp_cost = 0,
         base_power = 10, scaling = ''str'', skill_status = None\<rparr>],
     drops = [
       \<lparr>item_name = ''Daga Rota'', item_description = ''Vieja pero util'', effect =
         [(''sell'', PInt 5)], price = 5, consumable = True\<rparr>],
     enemy_status_effects = []\<rparr>"

definition enemy_wolf :: Enemy where
  "enemy_wolf = \<lparr>enemy_name = ''Lobo sombrio'',
     enemy_stats = \<lparr>lvl = 2, exp' = 0, hp = 38, hp_max = 38, mp = 12, mp_max = 12, str
       = 9, int' = 4, agi = 10, def' = 4, gold = 9\<rparr>,
     enemy_skills = [
       \<lparr>skill_name = ''Mordisco'', skill_description = ''Ataque rapido que desgarra.'',
         mp_cost = 0, base_power = 11, scaling = ''str'', skill_status = None\<rparr>,
       \<lparr>skill_name = ''Aullido'', skill_description =
         ''Intimida y aturde momentaneamente.'', mp_cost = 3, base_power = 0, scaling =
         ''str'', skill_status = Some (STUN, 0, 1)\<rparr>],
     drops = [
       \<lparr>item_name = ''Pocion'', item_description = ''Recupera salud.'', effect =
         [(''heal_percent'', PInt 35)], price = 10, consumable = True\<rparr>,
       \<lparr>item_name = ''Colmillo de lobo'', item_description = ''Material afilado.'',
         effect = [(''sell'', PInt 6)], price = 6, consumable = False\<rparr>],
     enemy_status_effects = []\<rparr>"

definition enemy_bandit :: Enemy where
  "enemy_bandit = \<lparr>enemy_name = ''Bandido'',
     enemy_stats = \<lparr>lvl = 3, exp' = 0, hp = 42, hp_max = 42, mp = 16, mp_max = 16, str
       = 11, int' = 6, agi = 9, def' = 5, gold = 14\<rparr>,
     enemy_skills = [
       \<lparr>skill_name = ''Punalada sucia'', skill_description = ''Ataque con veneno.'',
         mp_cost = 4, base_power = 14, scaling = ''str'', skill_status = Some (POISON, 3,
         2)\<rparr>,
       \<lparr>skill_name = ''Disparo preciso'', skill_description = ''Ataque a distancia.'',
         mp_cost = 3, base_power = 16, scaling = ''str'', skill_status = None\<rparr>],
     drops = [
       \<lparr>item_name = ''Bomba'', item_description = ''Explosivo improvisado.'', effect =
         [(''damage'', PInt 28)], price = 22, consumable = True\<rparr>,
       \<lparr>item_name = ''Bolsa de monedas'', item_description = ''Pequeno botin.'', effect
         = [(''sell'', PInt 12)], price = 12, consumable = False\<rparr>],
     enemy_status_effects = []\<rparr>"

definition enemy_skeleton :: Enemy where
  "enemy_skeleton = \<lparr>enemy_name = ''Esqueleto'',
     enemy_stats = \<lparr>lvl = 3, exp' = 0, hp = 48, hp_max = 48, mp = 14, mp_max = 14, str
       = 10, int' = 7, agi = 6, def' = 6, gold = 16\<rparr>,
     enemy_skills = [
       \<lparr>skill_name = ''Lanza osea'', skill_description = ''Proyectil de hueso.'',
         mp_cost = 0, base_power = 13, scaling = ''str'', skill_status = None\<rparr>,
       \<lparr>skill_name = ''Grito sepulcral'', skill_description =
         ''Aterroriza con energia oscura.'', mp_cost = 4, base_power = 0, scaling = ''int'',
         skill_status = Some (STUN, 0, 1)\<rparr>],
     drops = [
       \<lparr>item_name = ''Eter'', item_description = ''Recupera magia.'', effect =
         [(''mp_percent'', PInt 35)], price = 14, consumable = True\<rparr>,
       \<lparr>item_name = ''Hueso runico'', item_description = ''Relicario extrano.'', effect
         = [(''sell'', PInt 15)], price = 15, consumable = False\<rparr>],
     enemy_status_effects = []\<rparr>"

definition enemy_salamander :: Enemy where
  "enemy_salamander = \<lparr>enemy_name = ''Salamandra'',
     enemy_stats = \<lparr>lvl = 3, exp' = 0, hp = 44, hp_max = 44, mp = 18, mp_max = 18, str
       = 9, int' = 11, agi = 7, def' = 5, gold = 18\<rparr>,
     enemy_skills = [
       \<lparr>skill_name = ''Zarpazo'', skill_description = ''Golpe ardiente.'', mp_cost = 0,
         base_power = 12, scaling = ''str'', skill_status = None\<rparr>,
       \<lparr>skill_name = ''Aliento igneo'', skill_description = ''Llama abrasadora.'',
         mp_cost = 5, base_power = 18, scaling = ''int'', skill_status = Some (BURN, 4,
         2)\<rparr>],
     drops = [
       \<lparr>item_name = ''Escama calida'', item_description =
         ''Escama que irradia calor.'', effect = [(''sell'', PInt 10)], price = 10, consumable
         = False\<rparr>,
       \<lparr>item_name = ''Pocion'', item_description = ''Repara heridas.'', effect =
         [(''heal_percent'', PInt 40)], price = 12, consumable = True\<rparr>],
     enemy_status_effects = []\<rparr>"

definition enemy_spirit :: Enemy where
  "enemy_spirit = \<lparr>enemy_name = ''Espiritu del lago'',
     enemy_stats = \<lparr>lvl = 3, exp' = 0, hp = 40, hp_max = 40, mp = 20, mp_max = 20, str
       = 7, int' = 12, agi = 8, def' = 4, gold = 15\<rparr>,
     enemy_skills = [
       \<lparr>skill_name = ''Oleada'', skill_description = ''Corriente de agua cortante.'',
         mp_cost = 4, base_power = 16, scaling = ''int'', skill_status = None\<rparr>,
       \<lparr>skill_name = ''Bruma sanadora'', skill_description =
         ''Restablece parte de su energia.'', mp_cost = 5, base_power = 0, scaling = ''int'',
         skill_status = Some (REGEN, 5, 3)\<rparr>],
     drops = [
       \<lparr>item_name = ''Agua bendita'', item_description = ''Elimina toxinas.'', effect =
         [(''cure'', PStr ''POISON'')], price = 18, consumable = True\<rparr>,
       \<lparr>item_name = ''Perla luminosa'', item_description = ''Resplandece al tacto.'',
         effect = [(''sell'', PInt 14)], price = 14, consumable = False\<rparr>],
     enemy_status_effects = []\<rparr>"

definition enemy_cave_boss :: Enemy where
  "enemy_cave_boss = \<lparr>enemy_name = ''Tirano de la Cueva'',
     enemy_stats = \<lparr>lvl = 4, exp' = 0, hp = 85, hp_max = 85, mp = 22, mp_max = 22, str
       = 14, int' = 10, agi = 8, def' = 8, gold = 35\<rparr>,
     enemy_skills = [
       \<lparr>skill_name = ''Embate sismico'', skill_description =
         ''Sacude el suelo con gran fuerza.'', mp_cost = 0, base_power = 20, scaling =
         ''str'', skill_status = None\<rparr>,
       \<lparr>skill_name = ''Rugido petrificador'', skill_description =
         ''Aturde con un estruendo.'', mp_cost = 6, base_power = 0, scaling = ''int'',
         skill_status = Some (STUN, 0, 1)\<rparr>,
       \<lparr>skill_name = ''Llama interna'', skill_description = ''Invoca una erupcion.'',
         mp_cost = 8, base_power = 24, scaling = ''int'', skill_status = Some (BURN, 5,
         2)\<rparr>],
     drops = [
       \<lparr>item_name = ''Gema resonante'', item_description =
         ''Cristal cargado de energia.'', effect = [(''sell'', PInt 40)], price = 40,
         consumable = False\<rparr>,
       \<lparr>item_name = ''Pocion'', item_description =
         ''Recupera gran cantidad de salud.'', effect = [(''heal_percent'', PInt 50)], price =
         20, consumable = True\<rparr>],
     enemy_status_effects = []\<rparr>"

definition shop_base_stock :: "stock list" where
  "shop_base_stock = [
     StockEquipment \<lparr>eq_name = ''Baston Robusto'', eq_description =
       ''Aumenta el poder magico'', slot = ''weapon'', stat_bonuses = [(''int_'', 3)],
       eq_price = 20\<rparr>,
     StockEquipment \<lparr>eq_name = ''Espada de Bronce'', eq_description =
       ''Espada equilibrada para guerreros'', slot = ''weapon'', stat_bonuses = [(''str'',
       3)], eq_price = 22\<rparr>,
     StockEquipment \<lparr>eq_name = ''Daga Filoazul'', eq_description =
       ''Ligera y precisa'', slot = ''weapon'', stat_bonuses = [(''agi'', 2), (''str'', 1)],
       eq_price = 21\<rparr>,
     StockEquipment \<lparr>eq_name = ''Chaqueta de Cuero'', eq_description =
       ''Armadura ligera resistente'', slot = ''armor'', stat_bonuses = [(''def_'', 3)],
       eq_price = 18\<rparr>,
     StockEquipment \<lparr>eq_name = ''Amuleto de Mana'', eq_description =
       ''Aumenta tu reserva de magia'', slot = ''accessory'', stat_bonuses = [(''mp_max'',
       6)], eq_price = 26\<rparr>]"

definition shop_consumables :: "stock list" where
  "shop_consumables = [
     StockItem \<lparr>item_name = ''Pocion'', item_description =
       ''Recupera una parte de tu salud.'', effect = [(''heal_percent'', PInt 40)], price =
       10, consumable = True\<rparr>,
     StockItem \<lparr>item_name = ''Eter'', item_description =
       ''Recupera parte de tu mana.'', effect = [(''mp_percent'', PInt 40)], price = 12,
       consumable = True\<rparr>,
     StockItem \<lparr>item_name = ''Antidoto'', item_description = ''Cura veneno.'', effect =
       [(''cure'', PStr ''POISON'')], price = 9, consumable = True\<rparr>,
     StockItem \<lparr>item_name = ''Bomba'', item_description = ''Inflige dano explosivo.'',
       effect = [(''damage'', PInt 30)], price = 18, consumable = True\<rparr>]"

definition shop_rotation :: "stock list" where
  "shop_rotation = [
     StockEquipment \<lparr>eq_name = ''Cota de Escamas'', eq_description =
       ''Proteccion media para aventureros.'', slot = ''armor'', stat_bonuses = [(''def_'',
       5)], eq_price = 34\<rparr>,
     StockEquipment \<lparr>eq_name = ''Anillo Veloz'', eq_description =
       ''Incrementa la agilidad.'', slot = ''accessory'', stat_bonuses = [(''agi'', 2)],
       eq_price = 28\<rparr>,
     StockItem \<lparr>item_name = ''Panacea'', item_description = ''Remedio universal.'',
       effect = [(''cure'', PStr ''BURN'')], price = 14, consumable = True\<rparr>]"

definition QUEST_BOARD_TEMPLATES :: "QuestTemplate list" where
  "QUEST_BOARD_TEMPLATES = [
     \<lparr>t_name = ''Control de Slimes'', t_description =
       ''Manten la pradera limpia eliminando slimes cerca de la ciudad.'', t_target =
       ''Slime'', t_required = 3, t_exp = 50, t_gold = 30, t_item = \<lparr>item_name =
       ''Pocion'', item_description = ''Un extra del gremio.'', effect = [(''heal_percent'',
       PInt 45)], price = 0, consumable = True\<rparr>\<rparr>,
     \<lparr>t_name = ''Caza de lobos'', t_description =
       ''Los lobos estan atacando caravanas al norte.'', t_target = ''Lobo sombrio'',
       t_required = 3, t_exp = 70, t_gold = 45, t_item = \<lparr>item_name =
       ''Capa del cazador'', item_description = ''Mantiene el cuerpo caliente.'', effect =
       [(''sell'', PInt 20)], price = 0, consumable = False\<rparr>\<rparr>,
     \<lparr>t_name = ''Patrulla de bandidos'', t_description =
       ''Los caminos al oeste necesitan vigilancia constante.'', t_target = ''Bandido'',
       t_required = 3, t_exp = 80, t_gold = 55, t_item = \<lparr>item_name = ''Bomba'',
       item_description = ''Explosivo reglamentario.'', effect = [(''damage'', PInt 35)],
       price = 0, consumable = True\<rparr>\<rparr>,
     \<lparr>t_name = ''Purga de esqueletos'', t_description =
       ''Las catacumbas emiten energia oscura.'', t_target = ''Esqueleto'', t_required = 4,
       t_exp = 90, t_gold = 60, t_item = \<lparr>item_name = ''Eter'', item_description =
       ''Suministro arcano.'', effect = [(''mp_percent'', PInt 50)], price = 0, consumable =
       True\<rparr>\<rparr>,
     \<lparr>t_name = ''Calmar espiritus'', t_description =
       ''Los pescadores escuchan lamentos en el lago nocturno.'', t_target =
       ''Espiritu del lago'', t_required = 2, t_exp = 85, t_gold = 58, t_item =
       \<lparr>item_name = ''Agua bendita'', item_description = ''Ahuyenta maldiciones.'',
       effect = [(''cure'', PStr ''POISON'')], price = 0, consumable = True\<rparr>\<rparr>,
     \<lparr>t_name = ''Dominar salamandras'', t_description =
       ''Recupera el control de los respiraderos volcanicos de la cueva.'', t_target =
       ''Salamandra'', t_required = 3, t_exp = 95, t_gold = 70, t_item = \<lparr>item_name =
       ''Escama calida'', item_description = ''Material raro.'', effect = [(''sell'', PInt
       25)], price = 0, consumable = False\<rparr>\<rparr>,
     \<lparr>t_name = ''Derrotar al tirano'', t_description =
       ''Acaba con el Tirano de la Cueva para abrir la ruta al este.'', t_target =
       ''Tirano de la Cueva'', t_required = 1, t_exp = 120, t_gold = 120, t_item =
       \<lparr>item_name = ''Gema resonante'', item_description = ''Recuerdo del tirano.'',
       effect = [(''sell'', PInt 60)], price = 0, consumable = False\<rparr>\<rparr>]"

fun BASE_STATS :: "ClassType \<Rightarrow> Stats" where
  "BASE_STATS WARRIOR =
     \<lparr>lvl = 1, exp' = 0, hp = 50, hp_max = 50, mp = 15, mp_max = 15, str = 10, int' =
       5, agi = 7, def' = 8, gold = 30\<rparr>"
| "BASE_STATS MAGE =
     \<lparr>lvl = 1, exp' = 0, hp = 40, hp_max = 40, mp = 25, mp_max = 25, str = 5, int' =
       12, agi = 6, def' = 6, gold = 30\<rparr>"
| "BASE_STATS ROGUE =
     \<lparr>lvl = 1, exp' = 0, hp = 45, hp_max = 45, mp = 18, mp_max = 18, str = 8, int' = 6,
       agi = 10, def' = 7, gold = 30\<rparr>"

fun CLASS_SKILLS :: "ClassType \<Rightarrow> (int \<times> Skill) list" where
  "CLASS_SKILLS WARRIOR = [
     (1, \<lparr>skill_name = ''Golpe Pesado'', skill_description =
       ''Ataque basico del guerrero'', mp_cost = 0, base_power = 10, scaling = ''str'',
       skill_status = None\<rparr>),
     (3, \<lparr>skill_name = ''Cuchillada'', skill_description = ''Ataque giratorio'',
       mp_cost = 5, base_power = 18, scaling = ''str'', skill_status = None\<rparr>),
     (5, \<lparr>skill_name = ''Grito de guerra'', skill_description = ''Aumenta defensa'',
       mp_cost = 6, base_power = 12, scaling = ''str'', skill_status = Some (REGEN, 5,
       3)\<rparr>),
     (7, \<lparr>skill_name = ''Rompeescudos'', skill_description = ''Ignora defensa'',
       mp_cost = 8, base_power = 22, scaling = ''str'', skill_status = None\<rparr>),
     (9, \<lparr>skill_name = ''Embate'', skill_description = ''Golpe demoledor'', mp_cost =
       10, base_power = 28, scaling = ''str'', skill_status = None\<rparr>),
     (11, \<lparr>skill_name = ''Guardia de hierro'', skill_description =
       ''Defensa absoluta'', mp_cost = 12, base_power = 0, scaling = ''str'', skill_status =
       Some (REGEN, 8, 3)\<rparr>)]"
| "CLASS_SKILLS MAGE = [
     (1, \<lparr>skill_name = ''Piro'', skill_description = ''Chispa ardiente'', mp_cost = 3,
       base_power = 12, scaling = ''int'', skill_status = Some (BURN, 3, 2)\<rparr>),
     (1, \<lparr>skill_name = ''Hielo'', skill_description = ''Proyectil congelante'', mp_cost
       = 3, base_power = 11, scaling = ''int'', skill_status = None\<rparr>),
     (1, \<lparr>skill_name = ''Escudo Arcano'', skill_description = ''Reduce dano'', mp_cost
       = 4, base_power = 0, scaling = ''int'', skill_status = Some (REGEN, 4, 3)\<rparr>),
     (3, \<lparr>skill_name = ''Electro'', skill_description = ''Descarga electrica'', mp_cost
       = 5, base_power = 18, scaling = ''int'', skill_status = Some (STUN, 0, 1)\<rparr>),
     (5, \<lparr>skill_name = ''Llama Viva'', skill_description = ''Gran llamarada'', mp_cost
       = 8, base_power = 25, scaling = ''int'', skill_status = Some (BURN, 5, 3)\<rparr>),
     (7, \<lparr>skill_name = ''Tormenta'', skill_description = ''Multiples rayos'', mp_cost =
       10, base_power = 32, scaling = ''int'', skill_status = None\<rparr>)]"
| "CLASS_SKILLS ROGUE = [
     (1, \<lparr>skill_name = ''Punalada'', skill_description = ''Ataque rapido'', mp_cost =
       0, base_power = 10, scaling = ''str'', skill_status = None\<rparr>),
     (1, \<lparr>skill_name = ''Disparo'', skill_description = ''Ataque a distancia'', mp_cost
       = 2, base_power = 12, scaling = ''str'', skill_status = None\<rparr>),
     (1, \<lparr>skill_name = ''Humo'', skill_description = ''Reduce acierto'', mp_cost = 4,
       base_power = 0, scaling = ''str'', skill_status = Some (REGEN, 3, 2)\<rparr>),
     (3, \<lparr>skill_name = ''Hemorragia'', skill_description = ''Dano en el tiempo'',
       mp_cost = 5, base_power = 16, scaling = ''str'', skill_status = Some (POISON, 3,
       3)\<rparr>),
     (5, \<lparr>skill_name = ''Finta'', skill_description = ''Aumenta evasion'', mp_cost = 6,
       base_power = 0, scaling = ''str'', skill_status = Some (REGEN, 4, 2)\<rparr>),
     (7, \<lparr>skill_name = ''Asalto'', skill_description = ''Combo veloz'', mp_cost = 9,
       base_power = 24, scaling = ''str'', skill_status = None\<rparr>)]"

subsection \<open>The world: map, day cycle, shop and quest board\<close>

text \<open>\<^verbatim>\<open>CONFIG.map_size\<close>.\<close>

definition map_size :: int where
  "map_size = 9"

definition direction_for_delta :: "int \<Rightarrow> int \<Rightarrow> string" where
  "direction_for_delta dx dy =
     (if dx = 0 \<and> dy = 0 then ''C''
      else
        (let parts = (if dy < 0 then ''N'' else if dy > 0 then ''S'' else [])
                   @ (if dx > 0 then ''E'' else if dx < 0 then ''W'' else [])
         in if parts \<noteq> [] then parts else ''C''))"

definition fallback_type :: "string \<Rightarrow> TileType" where
  "fallback_type direction =
     (if direction = ''N'' then FOREST
      else if direction = ''S'' then RUINS
      else if direction = ''E'' then CAVE
      else if direction = ''W'' then LAKE
      else if direction = ''NE'' then FOREST
      else if direction = ''NW'' then FOREST
      else if direction = ''SE'' then RUINS
      else if direction = ''SW'' then LAKE
      else FOREST)"

definition base_name :: "string \<Rightarrow> string" where
  "base_name direction =
     (if direction = ''N'' then ''Frontera Norte''
      else if direction = ''S'' then ''Dominio Sur''
      else if direction = ''E'' then ''Galerias Orientales''
      else if direction = ''W'' then ''Costa Occidental''
      else if direction = ''NE'' then ''Colina Boreal''
      else if direction = ''NW'' then ''Acantilado Boreal''
      else if direction = ''SE'' then ''Depresion Meridional''
      else if direction = ''SW'' then ''Delta Meridional''
      else ''Tierras Fronterizas'')"

definition zone_for_position :: "int \<Rightarrow> int \<Rightarrow> int \<Rightarrow> Zone" where
  "zone_for_position x y center =
     (let dx = x - center;
          dy = y - center;
          ring = max \<bar>dx\<bar> \<bar>dy\<bar>;
          direction = (if ring \<le> 1 then ''C'' else direction_for_delta dx dy)
      in case map_of ZONE_BLUEPRINTS (ring, direction) of
           Some z \<Rightarrow> z
         | None \<Rightarrow>
             \<lparr>zone_name = base_name direction, zone_tile_type = fallback_type direction,
              zone_danger = 35 / 100 + 5 / 100 * of_int ring,
              zone_description =
                ''Territorio sin cartografiar repleto de oportunidades y peligros.'',
              zone_features = [''Exploracion incierta'']\<rparr>)"

text \<open>
  \<^verbatim>\<open>repr\<close> of a position, for the \<^verbatim>\<open>KeyError\<close> of a cell that the map does not have, and
  the statement \<^verbatim>\<open>self.game_map[pos].discovered = True\<close>.
\<close>

definition repr_pos :: "int \<times> int \<Rightarrow> string" where
  "repr_pos pos = ''('' @ str_of_int (fst pos) @ '', '' @ str_of_int (snd pos) @ '')''"

definition mark_discovered ::
  "int \<times> int \<Rightarrow> ((int \<times> int) \<times> Location) list \<Rightarrow> py_error + ((int \<times> int) \<times> Location) list"
where
  "mark_discovered pos m =
     (case map_of m pos of
        None \<Rightarrow> Inl (KeyError (repr_pos pos))
      | Some l \<Rightarrow> Inr (AList.update pos (l\<lparr>loc_discovered := True\<rparr>) m))"

text \<open>
  \<^verbatim>\<open>_init_map\<close>: the cells in the order of the two loops (\<open>y\<close> outside), the body of the
  loops, and the start position added at the end if the loops did not discover it.
\<close>

definition grid_cells :: "int \<Rightarrow> (int \<times> int) list" where
  "grid_cells sz = concat (map (\<lambda>y. map (\<lambda>x. (x, y)) [0..sz - 1]) [0..sz - 1])"

definition init_cell :: "int \<Rightarrow> int \<times> int \<Rightarrow> Game \<Rightarrow> Game" where
  "init_cell center cell g =
     (let z = zone_for_position (fst cell) (snd cell) center;
          disc = (zone_tile_type z = TOWN);
          location = \<lparr>loc_position = cell, tile_type = zone_tile_type z,
            loc_discovered = disc, zone = zone_name z, loc_description = zone_description z,
            danger = zone_danger z, features = zone_features z\<rparr>
      in g\<lparr>game_map := AList.update cell location (game_map g),
           discovered := (if disc then discovered g @ [cell] else discovered g)\<rparr>)"

definition init_map :: "Game \<Rightarrow> py_error + Game" where
  "init_map g =
     (let sz = map_size;
          center = sz div 2;
          g1 = fold (init_cell center) (grid_cells sz) g
      in if start_position g1 \<notin> set (discovered g1) then
           (case mark_discovered (start_position g1) (game_map g1) of
              Inl err \<Rightarrow> Inl err
            | Inr m \<Rightarrow>
                Inr (g1\<lparr>discovered := discovered g1 @ [start_position g1], game_map := m\<rparr>))
         else Inr g1)"

text \<open>
  \<^verbatim>\<open>refresh_quest_board\<close>: templates are drawn without replacement until the board has
  its 3 offers (4 from day 6 on) or no template is left.
\<close>

definition quest_of_template :: "int \<Rightarrow> QuestTemplate \<Rightarrow> Quest" where
  "quest_of_template d t =
     \<lparr>quest_name = t_name t, quest_description = t_description t, objective_type = ''kill'',
      target = t_target t, required = t_required t + min 2 (d div 5),
      reward_exp = t_exp t + d * 6, reward_gold = t_gold t + d * 4,
      reward_item = Some (t_item t), progress = 0, completed = False\<rparr>"

lemma rng_choice_in_set: "xs \<noteq> [] \<Longrightarrow> fst (rng_choice xs r) \<in> set xs"
  by (simp add: rng_choice_def split: prod.splits)

lemma choice_remove1_shorter:
  assumes "selection \<noteq> []" and "(t, r') = rng_choice selection r"
  shows "length (remove1 t selection) < length selection"
proof -
  from assms(2) have "t = fst (rng_choice selection r)"
    by (metis fst_conv)
  with assms(1) have "t \<in> set selection"
    by (simp add: rng_choice_in_set)
  then show ?thesis
    by (simp add: length_remove1) (cases selection; simp)
qed

function draw_quests ::
  "int \<Rightarrow> int \<Rightarrow> QuestTemplate list \<Rightarrow> Quest list \<Rightarrow> rng \<Rightarrow> Quest list \<times> rng"
where
  "draw_quests d slots selection board r =
     (if selection \<noteq> [] \<and> int (length board) < slots then
        (case rng_choice selection r of
           (template, r') \<Rightarrow>
             draw_quests d slots (remove1 template selection)
               (board @ [quest_of_template d template]) r')
      else (board, r))"
  by pat_completeness auto
termination
  by (relation "measure (\<lambda>(d, slots, selection, board, r). length selection)")
    (simp_all add: choice_remove1_shorter)

declare draw_quests.simps [simp del]

definition refresh_quest_board :: "Game \<Rightarrow> Game" where
  "refresh_quest_board g =
     (let slots = 3 + (if day g \<ge> 6 then 1 else 0)
      in case draw_quests (day g) slots QUEST_BOARD_TEMPLATES [] (rng g) of
           (board, r) \<Rightarrow> g\<lparr>quest_board := board, rng := r\<rparr>)"

text \<open>\<^verbatim>\<open>build_shop_stock\<close>; \<open>roll_rotation\<close> is its loop over the rotating pool.\<close>

fun roll_rotation :: "stock list \<Rightarrow> stock list \<Rightarrow> rng \<Rightarrow> stock list \<times> rng" where
  "roll_rotation [] st r = (st, r)"
| "roll_rotation (entry # rest) st r =
     (case roll_chance r (1 / 2) of
        (hit, r') \<Rightarrow> roll_rotation rest (if hit then st @ [entry] else st) r')"

definition build_shop_stock :: "Game \<Rightarrow> Game" where
  "build_shop_stock g =
     (let st = shop_base_stock @ shop_consumables
      in if testing g then g\<lparr>shop_stock := st @ take 1 shop_rotation\<rparr>
         else (case roll_rotation shop_rotation st (rng g) of
                 (st', r) \<Rightarrow> g\<lparr>shop_stock := st', rng := r\<rparr>))"

text \<open>
  \<^verbatim>\<open>Game.__init__\<close>, given the testing flag, the generator, and the environment of
  the process.
\<close>

definition new_game :: "bool \<Rightarrow> rng \<Rightarrow> save_file \<Rightarrow> string list \<Rightarrow> py_error + Game" where
  "new_game tst r file inp =
     (case init_map
        \<lparr>testing = tst, rng = r, state = MAIN_MENU, player = None, game_map = [],
         discovered = [], start_position = (map_size div 2, map_size div 2),
         current_enemy = None, player_guard_active = False, day = 1, turn_count = 0,
         quest_board = [], shop_stock = [], save_file = file, stdin = inp, reports = []\<rparr>
      of Inl err \<Rightarrow> Inl err
       | Inr g \<Rightarrow> Inr (build_shop_stock (refresh_quest_board g)))"

definition advance_time :: "int \<Rightarrow> Game \<Rightarrow> Game" where
  "advance_time steps g =
     (let g1 = g\<lparr>turn_count := turn_count g + steps\<rparr>
      in if turn_count g1 mod 6 = 0 then
           build_shop_stock (refresh_quest_board (g1\<lparr>day := day g1 + 1\<rparr>))
         else g1)"

definition move_player :: "string \<Rightarrow> Game \<Rightarrow> py_error + Game" where
  "move_player direction g =
     (case player g of
        None \<Rightarrow> Inl AssertionError
      | Some p \<Rightarrow>
          (let x0 = fst (position p);
               y0 = snd (position p);
               y = (if direction = ''n'' then clamp (y0 - 1) 0 (map_size - 1)
                    else if direction = ''s'' then clamp (y0 + 1) 0 (map_size - 1)
                    else y0);
               x = (if direction = ''n'' \<or> direction = ''s'' then x0
                    else if direction = ''e'' then clamp (x0 + 1) 0 (map_size - 1)
                    else if direction = ''o'' then clamp (x0 - 1) 0 (map_size - 1)
                    else x0);
               g1 = g\<lparr>player := Some (p\<lparr>position := (x, y)\<rparr>)\<rparr>
           in case (if (x, y) \<notin> set (discovered g1) then
                      (case mark_discovered (x, y) (game_map g1) of
                         Inl err \<Rightarrow> Inl err
                       | Inr m \<Rightarrow>
                           Inr (g1\<lparr>discovered := discovered g1 @ [(x, y)], game_map := m\<rparr>))
                    else Inr g1) of
                Inl err \<Rightarrow> Inl err
              | Inr g2 \<Rightarrow>
                  (case map_of (game_map g2) (x, y) of
                     None \<Rightarrow> Inl (KeyError (repr_pos (x, y)))
                   | Some l \<Rightarrow> Inr (advance_time 1 g2))))"

text \<open>
  A run of \<^verbatim>\<open>advance_time\<close> calls, one per entry of a list of step counts (a move or an
  exploration is 1 turn, a rest at the inn or a camp 2, refreshing the board 3).
\<close>

fun advance_all :: "int list \<Rightarrow> Game \<Rightarrow> Game" where
  "advance_all [] g = g"
| "advance_all (steps # rest) g = advance_all rest (advance_time steps g)"

text \<open>A position on the grid, and a map that has every cell of the grid.\<close>

definition on_grid :: "int \<times> int \<Rightarrow> bool" where
  "on_grid pos \<longleftrightarrow> 0 \<le> fst pos \<and> fst pos \<le> map_size - 1 \<and> 0 \<le> snd pos \<and> snd pos \<le> map_size - 1"

definition covers_grid :: "((int \<times> int) \<times> Location) list \<Rightarrow> bool" where
  "covers_grid m \<longleftrightarrow> set (grid_cells map_size) \<subseteq> fst ` set m"

subsection \<open>Documents: reading Python values\<close>

definition bind_r :: "py_error + 'a \<Rightarrow> ('a \<Rightarrow> py_error + 'b) \<Rightarrow> py_error + 'b" where
  "bind_r m f = (case m of Inl err \<Rightarrow> Inl err | Inr x \<Rightarrow> f x)"

text \<open>\<open>map_r f xs\<close> is the list comprehension \<^verbatim>\<open>[f(x) for x in xs]\<close>: it stops at the first exception.\<close>

fun map_r :: "('a \<Rightarrow> py_error + 'b) \<Rightarrow> 'a list \<Rightarrow> py_error + 'b list" where
  "map_r f [] = Inr []"
| "map_r f (x # xs) = bind_r (f x) (\<lambda>y. bind_r (map_r f xs) (\<lambda>ys. Inr (y # ys)))"

text \<open>
  \<^verbatim>\<open>d[k]\<close> for a string \<open>k\<close>, \<^verbatim>\<open>d.get(k, default)\<close>, \<^verbatim>\<open>d[i]\<close> for an index \<open>i\<close>,
  \<^verbatim>\<open>d.items()\<close> and the iteration \<^verbatim>\<open>for x in d\<close>, with the exception Python raises when
  the value is of another kind.
\<close>

definition subscript :: "pyval \<Rightarrow> string \<Rightarrow> py_error + pyval" where
  "subscript d k =
     (case d of
        PDict kvs \<Rightarrow> (case map_of kvs k of Some v \<Rightarrow> Inr v | None \<Rightarrow> Inl (KeyError k))
      | _ \<Rightarrow> Inl TypeError)"

definition py_get :: "pyval \<Rightarrow> string \<Rightarrow> pyval \<Rightarrow> py_error + pyval" where
  "py_get d k dflt =
     (case d of
        PDict kvs \<Rightarrow> (case map_of kvs k of Some v \<Rightarrow> Inr v | None \<Rightarrow> Inr dflt)
      | _ \<Rightarrow> Inl (AttributeError ''get''))"

definition py_index :: "pyval \<Rightarrow> nat \<Rightarrow> py_error + pyval" where
  "py_index d i =
     (case d of
        PList xs \<Rightarrow> if i < length xs then Inr (xs ! i) else Inl IndexError
      | PStr s \<Rightarrow> if i < length s then Inr (PStr [s ! i]) else Inl IndexError
      | PDict kvs \<Rightarrow> Inl (KeyError (str_of_int (int i)))
      | _ \<Rightarrow> Inl TypeError)"

definition py_items :: "pyval \<Rightarrow> py_error + (string \<times> pyval) list" where
  "py_items d = (case d of PDict kvs \<Rightarrow> Inr kvs | _ \<Rightarrow> Inl (AttributeError ''items''))"

definition py_iter :: "pyval \<Rightarrow> py_error + pyval list" where
  "py_iter d =
     (case d of
        PList xs \<Rightarrow> Inr xs
      | PDict kvs \<Rightarrow> Inr (map (\<lambda>kv. PStr (fst kv)) kvs)
      | PStr s \<Rightarrow> Inr (map (\<lambda>c. PStr [c]) s)
      | _ \<Rightarrow> Inl TypeError)"

text \<open>
  The conversions \<^verbatim>\<open>int(v)\<close>, \<^verbatim>\<open>float(v)\<close>, \<^verbatim>\<open>bool(v)\<close> (also the test \<^verbatim>\<open>if v\<close>) and
  \<^verbatim>\<open>str(v)\<close>. \<^verbatim>\<open>float\<close> of a string and \<^verbatim>\<open>str\<close> of a float, a list or a dictionary
  would need Python's float syntax and \<^verbatim>\<open>repr\<close>: the model stops there with \<open>IllTyped\<close>.
\<close>

definition to_int :: "pyval \<Rightarrow> py_error + int" where
  "to_int v =
     (case v of
        PInt n \<Rightarrow> Inr n
      | PBool b \<Rightarrow> Inr (if b then 1 else 0)
      | PFloat x \<Rightarrow> Inr (py_int x)
      | PStr s \<Rightarrow> (case int_of_str s of Some n \<Rightarrow> Inr n | None \<Rightarrow> Inl ValueError)
      | _ \<Rightarrow> Inl TypeError)"

definition to_float :: "pyval \<Rightarrow> py_error + rat" where
  "to_float v =
     (case v of
        PFloat x \<Rightarrow> Inr x
      | PInt n \<Rightarrow> Inr (of_int n)
      | PBool b \<Rightarrow> Inr (if b then 1 else 0)
      | PStr s \<Rightarrow> Inl IllTyped
      | _ \<Rightarrow> Inl TypeError)"

definition truthy :: "pyval \<Rightarrow> bool" where
  "truthy v =
     (case v of
        PNone \<Rightarrow> False
      | PBool b \<Rightarrow> b
      | PInt n \<Rightarrow> n \<noteq> 0
      | PFloat x \<Rightarrow> x \<noteq> 0
      | PStr s \<Rightarrow> s \<noteq> []
      | PList xs \<Rightarrow> xs \<noteq> []
      | PDict kvs \<Rightarrow> kvs \<noteq> [])"

definition to_str :: "pyval \<Rightarrow> py_error + string" where
  "to_str v =
     (case v of
        PStr s \<Rightarrow> Inr s
      | PInt n \<Rightarrow> Inr (str_of_int n)
      | PBool b \<Rightarrow> Inr (if b then ''True'' else ''False'')
      | PNone \<Rightarrow> Inr ''None''
      | _ \<Rightarrow> Inl IllTyped)"

text \<open>
  A value stored in a field without conversion: it has to be of the field's declared
  type to fit the record. \<^verbatim>\<open>dict(v)\<close> copies a dictionary (and raises \<^verbatim>\<open>TypeError\<close> for
  \<^verbatim>\<open>None\<close> and numbers; for a list or a string it depends on the elements).
\<close>

definition as_str :: "pyval \<Rightarrow> py_error + string" where
  "as_str v = (case v of PStr s \<Rightarrow> Inr s | _ \<Rightarrow> Inl IllTyped)"

definition as_int :: "pyval \<Rightarrow> py_error + int" where
  "as_int v = (case v of PInt n \<Rightarrow> Inr n | _ \<Rightarrow> Inl IllTyped)"

definition to_dict_copy :: "pyval \<Rightarrow> py_error + (string \<times> pyval) list" where
  "to_dict_copy v =
     (case v of
        PDict kvs \<Rightarrow> Inr kvs
      | PList xs \<Rightarrow> Inl IllTyped
      | PStr s \<Rightarrow> Inl IllTyped
      | _ \<Rightarrow> Inl TypeError)"

text \<open>
  Enumeration members by name (\<^verbatim>\<open>StatusType[name]\<close> and the like) and their names.
\<close>

fun StatusType_name :: "StatusType \<Rightarrow> string" where
  "StatusType_name POISON = ''POISON''"
| "StatusType_name BURN = ''BURN''"
| "StatusType_name STUN = ''STUN''"
| "StatusType_name REGEN = ''REGEN''"

fun ClassType_name :: "ClassType \<Rightarrow> string" where
  "ClassType_name WARRIOR = ''WARRIOR''"
| "ClassType_name MAGE = ''MAGE''"
| "ClassType_name ROGUE = ''ROGUE''"

fun TileType_name :: "TileType \<Rightarrow> string" where
  "TileType_name TOWN = ''TOWN''"
| "TileType_name FOREST = ''FOREST''"
| "TileType_name CAVE = ''CAVE''"
| "TileType_name RUINS = ''RUINS''"
| "TileType_name LAKE = ''LAKE''"

fun State_name :: "State \<Rightarrow> string" where
  "State_name MAIN_MENU = ''MAIN_MENU''"
| "State_name EXPLORATION = ''EXPLORATION''"
| "State_name COMBAT = ''COMBAT''"
| "State_name SHOP = ''SHOP''"
| "State_name INVENTORY = ''INVENTORY''"
| "State_name CHARACTER = ''CHARACTER''"
| "State_name QUESTS = ''QUESTS''"
| "State_name SAVELOAD = ''SAVELOAD''"
| "State_name GAME_OVER = ''GAME_OVER''"

definition member_by_name :: "('a \<Rightarrow> string) \<Rightarrow> 'a list \<Rightarrow> pyval \<Rightarrow> py_error + 'a" where
  "member_by_name name_of members v =
     (case v of
        PStr s \<Rightarrow> (case find (\<lambda>m. name_of m = s) members of
                     Some m \<Rightarrow> Inr m
                   | None \<Rightarrow> Inl (KeyError s))
      | PList xs \<Rightarrow> Inl TypeError
      | PDict kvs \<Rightarrow> Inl TypeError
      | _ \<Rightarrow> Inl (KeyError ''?''))"

definition StatusType_of :: "pyval \<Rightarrow> py_error + StatusType" where
  "StatusType_of = member_by_name StatusType_name [POISON, BURN, STUN, REGEN]"

definition ClassType_of :: "pyval \<Rightarrow> py_error + ClassType" where
  "ClassType_of = member_by_name ClassType_name [WARRIOR, MAGE, ROGUE]"

definition TileType_of :: "pyval \<Rightarrow> py_error + TileType" where
  "TileType_of = member_by_name TileType_name [TOWN, FOREST, CAVE, RUINS, LAKE]"

definition State_of :: "pyval \<Rightarrow> py_error + State" where
  "State_of = member_by_name State_name
     [MAIN_MENU, EXPLORATION, COMBAT, SHOP, INVENTORY, CHARACTER, QUESTS, SAVELOAD, GAME_OVER]"

subsection \<open>Persistence: \<^verbatim>\<open>to_dict\<close> and \<^verbatim>\<open>from_dict\<close>\<close>

definition StatusEffect_to_dict :: "StatusEffect \<Rightarrow> pyval" where
  "StatusEffect_to_dict e =
     PDict [(''status'', PStr (StatusType_name (status e))), (''potency'', PInt (potency e)),
            (''duration'', PInt (duration e))]"

definition StatusEffect_from_dict :: "pyval \<Rightarrow> py_error + StatusEffect" where
  "StatusEffect_from_dict data =
     bind_r (bind_r (subscript data ''status'') StatusType_of) (\<lambda>st.
     bind_r (bind_r (subscript data ''potency'') as_int) (\<lambda>po.
     bind_r (bind_r (subscript data ''duration'') as_int) (\<lambda>du.
     Inr \<lparr>status = st, potency = po, duration = du\<rparr>)))"

definition pos_to_list :: "int \<times> int \<Rightarrow> pyval" where
  "pos_to_list pos = PList [PInt (fst pos), PInt (snd pos)]"

text \<open>\<^verbatim>\<open>(int(v[0]), int(v[1]))\<close>.\<close>

definition pos_from_list :: "pyval \<Rightarrow> py_error + int \<times> int" where
  "pos_from_list v =
     bind_r (bind_r (py_index v 0) to_int) (\<lambda>x.
     bind_r (bind_r (py_index v 1) to_int) (\<lambda>y. Inr (x, y)))"

definition Skill_to_dict :: "Skill \<Rightarrow> pyval" where
  "Skill_to_dict s =
     PDict [(''name'', PStr (skill_name s)), (''description'', PStr (skill_description s)),
            (''mp_cost'', PInt (mp_cost s)), (''base_power'', PInt (base_power s)),
            (''scaling'', PStr (scaling s)),
            (''status'',
               (case skill_status s of
                  Some (st, po, du) \<Rightarrow>
                    PDict [(''type'', PStr (StatusType_name st)), (''potency'', PInt po),
                           (''duration'', PInt du)]
                | None \<Rightarrow> PNone))]"

definition Skill_from_dict :: "pyval \<Rightarrow> py_error + Skill" where
  "Skill_from_dict data =
     bind_r (py_get data ''status'' PNone) (\<lambda>status_info.
     bind_r (if truthy status_info then
               bind_r (bind_r (subscript status_info ''type'') StatusType_of) (\<lambda>st.
               bind_r (bind_r (subscript status_info ''potency'') to_int) (\<lambda>po.
               bind_r (bind_r (subscript status_info ''duration'') to_int) (\<lambda>du.
               Inr (Some (st, po, du)))))
             else Inr None) (\<lambda>status_tuple.
     bind_r (bind_r (subscript data ''name'') as_str) (\<lambda>nm.
     bind_r (bind_r (subscript data ''description'') as_str) (\<lambda>de.
     bind_r (bind_r (subscript data ''mp_cost'') to_int) (\<lambda>mc.
     bind_r (bind_r (subscript data ''base_power'') to_int) (\<lambda>bp.
     bind_r (bind_r (subscript data ''scaling'') to_str) (\<lambda>sc.
     Inr \<lparr>skill_name = nm, skill_description = de, mp_cost = mc, base_power = bp,
          scaling = sc, skill_status = status_tuple\<rparr>)))))))"

definition Item_to_dict :: "Item \<Rightarrow> pyval" where
  "Item_to_dict i =
     PDict [(''name'', PStr (item_name i)), (''description'', PStr (item_description i)),
            (''effect'', PDict (effect i)), (''price'', PInt (price i)),
            (''consumable'', PBool (consumable i))]"

definition Item_from_dict :: "pyval \<Rightarrow> py_error + Item" where
  "Item_from_dict data =
     bind_r (bind_r (subscript data ''name'') as_str) (\<lambda>nm.
     bind_r (bind_r (subscript data ''description'') as_str) (\<lambda>de.
     bind_r (bind_r (subscript data ''effect'') to_dict_copy) (\<lambda>ef.
     bind_r (bind_r (subscript data ''price'') to_int) (\<lambda>pr.
     bind_r (py_get data ''consumable'' (PBool True)) (\<lambda>co.
     Inr \<lparr>item_name = nm, item_description = de, effect = ef, price = pr,
          consumable = truthy co\<rparr>)))))"

definition Equipment_to_dict :: "Equipment \<Rightarrow> pyval" where
  "Equipment_to_dict e =
     PDict [(''name'', PStr (eq_name e)), (''description'', PStr (eq_description e)),
            (''slot'', PStr (slot e)),
            (''stat_bonuses'', PDict (map (\<lambda>kv. (fst kv, PInt (snd kv))) (stat_bonuses e))),
            (''price'', PInt (eq_price e))]"

definition Equipment_from_dict :: "pyval \<Rightarrow> py_error + Equipment" where
  "Equipment_from_dict data =
     bind_r (bind_r (subscript data ''name'') as_str) (\<lambda>nm.
     bind_r (bind_r (subscript data ''description'') as_str) (\<lambda>de.
     bind_r (bind_r (subscript data ''slot'') as_str) (\<lambda>sl.
     bind_r (bind_r (bind_r (subscript data ''stat_bonuses'') to_dict_copy)
               (map_r (\<lambda>kv. bind_r (as_int (snd kv)) (\<lambda>n. Inr (fst kv, n))))) (\<lambda>sb.
     bind_r (bind_r (subscript data ''price'') to_int) (\<lambda>pr.
     Inr \<lparr>eq_name = nm, eq_description = de, slot = sl, stat_bonuses = sb,
          eq_price = pr\<rparr>)))))"

definition Quest_to_dict :: "Quest \<Rightarrow> pyval" where
  "Quest_to_dict q =
     PDict [(''name'', PStr (quest_name q)), (''description'', PStr (quest_description q)),
            (''objective_type'', PStr (objective_type q)), (''target'', PStr (target q)),
            (''required'', PInt (required q)), (''reward_exp'', PInt (reward_exp q)),
            (''reward_gold'', PInt (reward_gold q)),
            (''reward_item'',
               (case reward_item q of Some i \<Rightarrow> Item_to_dict i | None \<Rightarrow> PNone)),
            (''progress'', PInt (progress q)), (''completed'', PBool (completed q))]"

definition Quest_from_dict :: "pyval \<Rightarrow> py_error + Quest" where
  "Quest_from_dict data =
     bind_r (py_get data ''reward_item'' PNone) (\<lambda>reward_item_data.
     bind_r (bind_r (subscript data ''name'') as_str) (\<lambda>nm.
     bind_r (bind_r (subscript data ''description'') as_str) (\<lambda>de.
     bind_r (bind_r (subscript data ''objective_type'') as_str) (\<lambda>ot.
     bind_r (bind_r (subscript data ''target'') as_str) (\<lambda>ta.
     bind_r (bind_r (subscript data ''required'') to_int) (\<lambda>rq.
     bind_r (bind_r (subscript data ''reward_exp'') to_int) (\<lambda>re.
     bind_r (bind_r (subscript data ''reward_gold'') to_int) (\<lambda>rg.
     bind_r (if truthy reward_item_data then
               bind_r (Item_from_dict reward_item_data) (\<lambda>i. Inr (Some i))
             else Inr None) (\<lambda>ri.
     bind_r (bind_r (py_get data ''progress'' (PInt 0)) to_int) (\<lambda>pg.
     bind_r (py_get data ''completed'' (PBool False)) (\<lambda>co.
     Inr \<lparr>quest_name = nm, quest_description = de, objective_type = ot, target = ta,
          required = rq, reward_exp = re, reward_gold = rg, reward_item = ri,
          progress = pg, completed = truthy co\<rparr>)))))))))))"

definition Location_to_dict :: "Location \<Rightarrow> pyval" where
  "Location_to_dict l =
     PDict [(''position'', pos_to_list (loc_position l)),
            (''tile_type'', PStr (TileType_name (tile_type l))),
            (''discovered'', PBool (loc_discovered l)), (''zone'', PStr (zone l)),
            (''description'', PStr (loc_description l)), (''danger'', PFloat (danger l)),
            (''features'', PList (map PStr (features l)))]"

definition Location_from_dict :: "pyval \<Rightarrow> py_error + Location" where
  "Location_from_dict data =
     bind_r (bind_r (bind_r (subscript data ''position'') (\<lambda>v. py_index v 0)) to_int) (\<lambda>x.
     bind_r (bind_r (bind_r (subscript data ''position'') (\<lambda>v. py_index v 1)) to_int) (\<lambda>y.
     bind_r (bind_r (subscript data ''tile_type'') TileType_of) (\<lambda>tt.
     bind_r (py_get data ''discovered'' (PBool False)) (\<lambda>di.
     bind_r (bind_r (py_get data ''zone'' (PStr [])) to_str) (\<lambda>zo.
     bind_r (bind_r (py_get data ''description'' (PStr [])) to_str) (\<lambda>de.
     bind_r (bind_r (py_get data ''danger'' (PFloat 0)) to_float) (\<lambda>da.
     bind_r (bind_r (bind_r (py_get data ''features'' (PList [])) py_iter) (map_r as_str))
       (\<lambda>fe.
     Inr \<lparr>loc_position = (x, y), tile_type = tt, loc_discovered = truthy di, zone = zo,
          loc_description = de, danger = da, features = fe\<rparr>))))))))"

text \<open>\<^verbatim>\<open>self.stats.__dict__\<close>: the fields of the dataclass by name, in their order.\<close>

definition Stats_to_dict :: "Stats \<Rightarrow> pyval" where
  "Stats_to_dict s =
     PDict [(''lvl'', PInt (lvl s)), (''exp'', PInt (exp' s)), (''hp'', PInt (hp s)),
            (''hp_max'', PInt (hp_max s)), (''mp'', PInt (mp s)), (''mp_max'', PInt (mp_max s)),
            (''str'', PInt (str s)), (''int_'', PInt (int' s)), (''agi'', PInt (agi s)),
            (''def_'', PInt (def' s)), (''gold'', PInt (gold s))]"

text \<open>
  \<^verbatim>\<open>k in d\<close>. \<^verbatim>\<open>Player.from_dict\<close> asks it of \<^verbatim>\<open>stats_data\<close> after it has read
  \<^verbatim>\<open>stats_data["lvl"]\<close>, which only a dictionary survives.
\<close>

definition has_key :: "pyval \<Rightarrow> string \<Rightarrow> py_error + bool" where
  "has_key d k = (case d of PDict kvs \<Rightarrow> Inr (map_of kvs k \<noteq> None) | _ \<Rightarrow> Inl TypeError)"

definition Stats_from_dict :: "pyval \<Rightarrow> py_error + Stats" where
  "Stats_from_dict stats_data =
     bind_r (bind_r (subscript stats_data ''lvl'') to_int) (\<lambda>v_lvl.
     bind_r (bind_r (subscript stats_data ''exp'') to_int) (\<lambda>v_exp.
     bind_r (bind_r (subscript stats_data ''hp'') to_int) (\<lambda>v_hp.
     bind_r (bind_r (subscript stats_data ''hp_max'') to_int) (\<lambda>v_hp_max.
     bind_r (bind_r (subscript stats_data ''mp'') to_int) (\<lambda>v_mp.
     bind_r (bind_r (subscript stats_data ''mp_max'') to_int) (\<lambda>v_mp_max.
     bind_r (bind_r (subscript stats_data ''str'') to_int) (\<lambda>v_str.
     bind_r (bind_r (bind_r (has_key stats_data ''int_'') (\<lambda>b.
               subscript stats_data (if b then ''int_'' else ''int''))) to_int) (\<lambda>v_int.
     bind_r (bind_r (subscript stats_data ''agi'') to_int) (\<lambda>v_agi.
     bind_r (bind_r (bind_r (has_key stats_data ''def_'') (\<lambda>b.
               subscript stats_data (if b then ''def_'' else ''def''))) to_int) (\<lambda>v_def.
     bind_r (bind_r (subscript stats_data ''gold'') to_int) (\<lambda>v_gold.
     Inr \<lparr>lvl = v_lvl, exp' = v_exp, hp = v_hp, hp_max = v_hp_max, mp = v_mp,
          mp_max = v_mp_max, str = v_str, int' = v_int, agi = v_agi, def' = v_def,
          gold = v_gold\<rparr>)))))))))))"

definition Player_to_dict :: "Player \<Rightarrow> pyval" where
  "Player_to_dict p =
     PDict [(''name'', PStr (name p)), (''class_type'', PStr (ClassType_name (class_type p))),
            (''stats'', Stats_to_dict (stats p)),
            (''skills'', PList (map Skill_to_dict (skills p))),
            (''inventory'', PList (map Item_to_dict (inventory p))),
            (''equipment'', PDict (map (\<lambda>se. (fst se, Equipment_to_dict (snd se))) (equipment p))),
            (''status_effects'', PList (map StatusEffect_to_dict (status_effects p))),
            (''quests'', PList (map Quest_to_dict (quests p))),
            (''position'', pos_to_list (position p))]"

definition Player_from_dict :: "pyval \<Rightarrow> py_error + Player" where
  "Player_from_dict data =
     bind_r (subscript data ''stats'') (\<lambda>stats_data.
     bind_r (Stats_from_dict stats_data) (\<lambda>st.
     bind_r (bind_r (bind_r (py_get data ''equipment'' (PDict [])) py_items)
               (map_r (\<lambda>se. bind_r (Equipment_from_dict (snd se)) (\<lambda>e. Inr (fst se, e)))))
       (\<lambda>equipment_data.
     bind_r (bind_r (subscript data ''name'') as_str) (\<lambda>nm.
     bind_r (bind_r (subscript data ''class_type'') ClassType_of) (\<lambda>ct.
     bind_r (bind_r (bind_r (py_get data ''skills'' (PList [])) py_iter)
               (map_r Skill_from_dict)) (\<lambda>sk.
     bind_r (bind_r (bind_r (py_get data ''inventory'' (PList [])) py_iter)
               (map_r Item_from_dict)) (\<lambda>inv.
     bind_r (bind_r (bind_r (py_get data ''status_effects'' (PList [])) py_iter)
               (map_r StatusEffect_from_dict)) (\<lambda>se.
     bind_r (bind_r (bind_r (py_get data ''quests'' (PList [])) py_iter)
               (map_r Quest_from_dict)) (\<lambda>qs.
     bind_r (bind_r (bind_r (subscript data ''position'') (\<lambda>v. py_index v 0)) to_int) (\<lambda>x.
     bind_r (bind_r (bind_r (subscript data ''position'') (\<lambda>v. py_index v 1)) to_int) (\<lambda>y.
     Inr \<lparr>name = nm, class_type = ct, stats = st, skills = sk, inventory = inv,
          equipment = equipment_data, status_effects = se, quests = qs,
          position = (x, y)\<rparr>)))))))))))"

definition stock_to_dict :: "stock \<Rightarrow> pyval" where
  "stock_to_dict entry =
     (case entry of
        StockItem i \<Rightarrow> PDict [(''kind'', PStr ''item''), (''value'', Item_to_dict i)]
      | StockEquipment e \<Rightarrow>
          PDict [(''kind'', PStr ''equipment''), (''value'', Equipment_to_dict e)])"

definition stock_from_dict :: "pyval \<Rightarrow> py_error + stock" where
  "stock_from_dict entry =
     bind_r (py_get entry ''kind'' PNone) (\<lambda>kind.
       if kind = PStr ''equipment'' then
         bind_r (bind_r (subscript entry ''value'') Equipment_from_dict)
           (\<lambda>e. Inr (StockEquipment e))
       else
         bind_r (bind_r (subscript entry ''value'') Item_from_dict) (\<lambda>i. Inr (StockItem i)))"

text \<open>
  The key of a cell in the saved map, \<^verbatim>\<open>f"{x},{y}"\<close>; the dictionary comprehension that
  builds the saved map; and the loop of \<^verbatim>\<open>GameState.from_dict\<close> that reads it back
  (the location is decoded before the two halves of the key are).
\<close>

definition map_key :: "int \<times> int \<Rightarrow> string" where
  "map_key pos = str_of_int (fst pos) @ '','' @ str_of_int (snd pos)"

definition map_to_dict :: "((int \<times> int) \<times> Location) list \<Rightarrow> (string \<times> pyval) list" where
  "map_to_dict m =
     fold (\<lambda>cell acc. AList.update (map_key (fst cell)) (Location_to_dict (snd cell)) acc) m []"

definition map_entry_from_dict ::
  "string \<times> pyval \<Rightarrow> ((int \<times> int) \<times> Location) list \<Rightarrow> py_error + ((int \<times> int) \<times> Location) list"
where
  "map_entry_from_dict kv acc =
     (case split_on CHR '','' (fst kv) of
        [x_str, y_str] \<Rightarrow>
          bind_r (Location_from_dict (snd kv)) (\<lambda>l.
          bind_r (to_int (PStr x_str)) (\<lambda>x.
          bind_r (to_int (PStr y_str)) (\<lambda>y.
          Inr (AList.update (x, y) l acc))))
      | _ \<Rightarrow> Inl ValueError)"

fun map_from_items ::
  "(string \<times> pyval) list \<Rightarrow> ((int \<times> int) \<times> Location) list \<Rightarrow> py_error + ((int \<times> int) \<times> Location) list"
where
  "map_from_items [] acc = Inr acc"
| "map_from_items (kv # kvs) acc = bind_r (map_entry_from_dict kv acc) (map_from_items kvs)"

definition GameState_to_dict :: "GameState \<Rightarrow> pyval" where
  "GameState_to_dict gs =
     PDict [(''state'', PStr (State_name (gs_state gs))),
            (''player'', (case gs_player gs of Some p \<Rightarrow> Player_to_dict p | None \<Rightarrow> PNone)),
            (''game_map'', PDict (map_to_dict (gs_game_map gs))),
            (''discovered'', PList (map pos_to_list (gs_discovered gs))),
            (''day'', PInt (gs_day gs)), (''turn_count'', PInt (gs_turn_count gs)),
            (''quest_board'', PList (map Quest_to_dict (gs_quest_board gs))),
            (''shop_stock'', PList (map stock_to_dict (gs_shop_stock gs)))]"

definition GameState_from_dict :: "pyval \<Rightarrow> py_error + GameState" where
  "GameState_from_dict data =
     bind_r (bind_r (bind_r (py_get data ''game_map'' (PDict [])) py_items)
               (\<lambda>kvs. map_from_items kvs [])) (\<lambda>map_dict.
     bind_r (py_get data ''player'' PNone) (\<lambda>player_data.
     bind_r (if truthy player_data then
               bind_r (Player_from_dict player_data) (\<lambda>p. Inr (Some p))
             else Inr None) (\<lambda>pl.
     bind_r (bind_r (bind_r (py_get data ''quest_board'' (PList [])) py_iter)
               (map_r Quest_from_dict)) (\<lambda>qb.
     bind_r (bind_r (bind_r (py_get data ''shop_stock'' (PList [])) py_iter)
               (map_r stock_from_dict)) (\<lambda>st.
     bind_r (bind_r (subscript data ''state'') State_of) (\<lambda>sta.
     bind_r (bind_r (bind_r (py_get data ''discovered'' (PList [])) py_iter)
               (map_r pos_from_list)) (\<lambda>di.
     bind_r (bind_r (py_get data ''day'' (PInt 1)) to_int) (\<lambda>d.
     bind_r (bind_r (py_get data ''turn_count'' (PInt 0)) to_int) (\<lambda>tc.
     Inr \<lparr>gs_state = sta, gs_player = pl, gs_game_map = map_dict, gs_discovered = di,
          gs_day = d, gs_turn_count = tc, gs_quest_board = qb, gs_shop_stock = st\<rparr>)))))))))"

subsection \<open>Saving and loading\<close>

definition say :: "string \<Rightarrow> Game \<Rightarrow> Game" where
  "say msg g = g\<lparr>reports := reports g @ [msg]\<rparr>"

definition snapshot :: "Game \<Rightarrow> Player \<Rightarrow> GameState" where
  "snapshot g p =
     \<lparr>gs_state = state g, gs_player = Some p, gs_game_map = game_map g,
      gs_discovered = discovered g, gs_day = day g, gs_turn_count = turn_count g,
      gs_quest_board = quest_board g, gs_shop_stock = shop_stock g\<rparr>"

text \<open>
  \<^verbatim>\<open>save_game\<close> replaces the file by the document of the game. The model takes the
  directory and the file to be writable: the \<^verbatim>\<open>OSError\<close> of a failed \<^verbatim>\<open>mkdir\<close> or
  \<^verbatim>\<open>open("w")\<close> is not one of its outcomes.
\<close>

definition save_game :: "Game \<Rightarrow> Game" where
  "save_game g =
     (case player g of
        None \<Rightarrow> g
      | Some p \<Rightarrow> g\<lparr>save_file := Document (GameState_to_dict (snapshot g p))\<rparr>)"

text \<open>
  \<^verbatim>\<open>load_game\<close> wraps the opening and the parsing of the file in a \<^verbatim>\<open>try\<close> whose only
  handler is \<^verbatim>\<open>except json.JSONDecodeError\<close>: every other exception of \<^verbatim>\<open>open\<close> and
  \<^verbatim>\<open>json.load\<close> leaves the method, as do those of \<^verbatim>\<open>GameState.from_dict\<close>, which is
  called after the \<^verbatim>\<open>try\<close>. The fields of the game are assigned only once
  \<^verbatim>\<open>from_dict\<close> has returned.
\<close>

definition load_game :: "Game \<Rightarrow> py_error + bool \<times> Game" where
  "load_game g =
     (case save_file g of
        NoFile \<Rightarrow> Inr (False, g)
      | Unopenable \<Rightarrow> Inl OSError
      | NotUtf8 \<Rightarrow> Inl UnicodeDecodeError
      | TooDeep \<Rightarrow> Inl RecursionError
      | NotJson \<Rightarrow> Inr (False, say ''Archivo de guardado corrupto.'' g)
      | Document data \<Rightarrow>
          bind_r (GameState_from_dict data) (\<lambda>st.
            let g1 = g\<lparr>state := EXPLORATION, player := gs_player st,
                       game_map := gs_game_map st, discovered := gs_discovered st,
                       day := gs_day st, turn_count := gs_turn_count st,
                       quest_board := gs_quest_board st, shop_stock := gs_shop_stock st\<rparr>;
                g2 = (if quest_board g1 = [] then refresh_quest_board g1 else g1);
                g3 = (if shop_stock g2 = [] then build_shop_stock g2 else g2)
            in Inr (True, g3)))"

subsection \<open>Input\<close>

text \<open>
  \<^verbatim>\<open>safe_input\<close>: the next line of standard input, or \<^verbatim>\<open>None\<close> at its end. The
  characters of a line are code points below 256; on them \<^verbatim>\<open>str.isdigit\<close> holds of the
  ten decimal digits and of the superscripts \<^verbatim>\<open>U+00B2\<close>, \<^verbatim>\<open>U+00B3\<close>, \<^verbatim>\<open>U+00B9\<close> (which
  \<^verbatim>\<open>int\<close> rejects), \<^verbatim>\<open>str.strip\<close> removes the characters of \<^verbatim>\<open>str.isspace\<close> at both
  ends, and \<^verbatim>\<open>str.lower\<close> maps the capital letters of ASCII and Latin-1.
\<close>

definition safe_input :: "Game \<Rightarrow> string option \<times> Game" where
  "safe_input g =
     (case stdin g of [] \<Rightarrow> (None, g) | line # rest \<Rightarrow> (Some line, g\<lparr>stdin := rest\<rparr>))"

definition py_isdigit :: "string \<Rightarrow> bool" where
  "py_isdigit s \<longleftrightarrow>
     s \<noteq> [] \<and> list_all (\<lambda>c. is_digit c \<or> (of_char c :: nat) \<in> {178, 179, 185}) s"

definition is_space :: "char \<Rightarrow> bool" where
  "is_space c \<longleftrightarrow>
     (let n = (of_char c :: nat)
      in (9 \<le> n \<and> n \<le> 13) \<or> (28 \<le> n \<and> n \<le> 32) \<or> n = 133 \<or> n = 160)"

definition py_strip :: "string \<Rightarrow> string" where
  "py_strip s = rev (dropWhile is_space (rev (dropWhile is_space s)))"

definition lower_char :: "char \<Rightarrow> char" where
  "lower_char c =
     (let n = (of_char c :: nat)
      in if (65 \<le> n \<and> n \<le> 90) \<or> (192 \<le> n \<and> n \<le> 222 \<and> n \<noteq> 215) then char_of (n + 32)
         else c)"

definition py_lower :: "string \<Rightarrow> string" where
  "py_lower s = map lower_char s"

subsection \<open>Combat\<close>

text \<open>
  The methods below take \<^verbatim>\<open>player\<close> and \<^verbatim>\<open>enemy\<close> as arguments; \<^verbatim>\<open>handle_combat\<close> passes
  \<^verbatim>\<open>self.player\<close> and \<^verbatim>\<open>self.current_enemy\<close>, the same objects, so the model reads and
  writes the two fields of the game.
\<close>

definition determine_turn_order :: "Player \<Rightarrow> Enemy \<Rightarrow> string list" where
  "determine_turn_order p e =
     (if agi (stats p) \<ge> agi (enemy_stats e) then [''player'', ''enemy'']
      else [''enemy'', ''player''])"

definition choose_combat_action :: "Game \<Rightarrow> ActionType \<times> Game" where
  "choose_combat_action g =
     (case safe_input g of
        (choice, g') \<Rightarrow>
          (let key = (case choice of None \<Rightarrow> [] | Some s \<Rightarrow> s)
           in (if key = ''1'' then ATTACK
               else if key = ''2'' then SKILL
               else if key = ''3'' then ITEM
               else if key = ''4'' then DEFEND
               else if key = ''5'' then FLEE
               else ATTACK, g')))"

text \<open>
  The selection loops of \<^verbatim>\<open>select_player_skill\<close> and \<^verbatim>\<open>select_combat_item\<close>, over the
  lines of input that are left; they return the choice, the input left and the
  messages printed so far.
\<close>

fun select_skill_loop ::
  "Player \<Rightarrow> string list \<Rightarrow> string list \<Rightarrow> py_error + Skill option \<times> string list \<times> string list"
where
  "select_skill_loop p [] out = Inr (None, [], out)"
| "select_skill_loop p (choice # rest) out =
     (if choice = ''0'' then Inr (None, rest, out)
      else if py_isdigit choice then
        (case int_of_str choice of
           None \<Rightarrow> Inl ValueError
         | Some n \<Rightarrow>
             (let index = n - 1 in
              if 0 \<le> index \<and> index < int (length (skills p)) then
                (let skill = skills p ! nat index in
                 if mp (stats p) < mp_cost skill then
                   select_skill_loop p rest
                     (out @ [''No tienes MP suficiente para esa habilidad.''])
                 else Inr (Some skill, rest, out))
              else select_skill_loop p rest (out @ [''Seleccion invalida.''])))
      else select_skill_loop p rest (out @ [''Seleccion invalida.'']))"

definition select_player_skill :: "Game \<Rightarrow> py_error + Skill option \<times> Game" where
  "select_player_skill g =
     (case player g of
        None \<Rightarrow> Inl AssertionError
      | Some p \<Rightarrow>
          if skills p = [] then Inr (None, say ''No conoces habilidades todavia.'' g)
          else
            (case select_skill_loop p (stdin g) (reports g) of
               Inl err \<Rightarrow> Inl err
             | Inr (res, rest, out) \<Rightarrow> Inr (res, g\<lparr>stdin := rest, reports := out\<rparr>)))"

fun select_item_loop ::
  "Item list \<Rightarrow> string list \<Rightarrow> string list \<Rightarrow> py_error + Item option \<times> string list \<times> string list"
where
  "select_item_loop consumables [] out = Inr (None, [], out)"
| "select_item_loop consumables (choice # rest) out =
     (if choice = ''0'' then Inr (None, rest, out)
      else if py_isdigit choice then
        (case int_of_str choice of
           None \<Rightarrow> Inl ValueError
         | Some n \<Rightarrow>
             (let index = n - 1 in
              if 0 \<le> index \<and> index < int (length consumables) then
                Inr (Some (consumables ! nat index), rest, out)
              else select_item_loop consumables rest (out @ [''Seleccion invalida.''])))
      else select_item_loop consumables rest (out @ [''Seleccion invalida.'']))"

definition select_combat_item :: "Game \<Rightarrow> py_error + Item option \<times> Game" where
  "select_combat_item g =
     (case player g of
        None \<Rightarrow> Inl AssertionError
      | Some p \<Rightarrow>
          (let consumables = filter consumable (inventory p) in
           if consumables = [] then Inr (None, say ''No tienes objetos utilizables ahora.'' g)
           else
             (case select_item_loop consumables (stdin g) (reports g) of
                Inl err \<Rightarrow> Inl err
              | Inr (res, rest, out) \<Rightarrow> Inr (res, g\<lparr>stdin := rest, reports := out\<rparr>))))"

text \<open>
  \<^verbatim>\<open>use_item\<close> and \<^verbatim>\<open>use_item_enemy\<close>. The value of an effect enters the arithmetic as
  a number (\<^verbatim>\<open>TypeError\<close> otherwise); a direct damage that is a float would store a
  float as health, which the typed record cannot hold.
\<close>

definition num_value :: "pyval \<Rightarrow> rat option" where
  "num_value v =
     (case v of
        PInt n \<Rightarrow> Some (of_int n)
      | PFloat x \<Rightarrow> Some x
      | PBool b \<Rightarrow> Some (if b then 1 else 0)
      | _ \<Rightarrow> None)"

definition int_operand :: "pyval \<Rightarrow> py_error + int" where
  "int_operand v =
     (case v of
        PInt n \<Rightarrow> Inr n
      | PBool b \<Rightarrow> Inr (if b then 1 else 0)
      | PFloat x \<Rightarrow> Inl IllTyped
      | _ \<Rightarrow> Inl TypeError)"

definition use_item :: "Item \<Rightarrow> Game \<Rightarrow> py_error + Game" where
  "use_item item g =
     (case player g of
        None \<Rightarrow> Inl AssertionError
      | Some p \<Rightarrow>
          (case map_of (effect item) ''heal_percent'' of
             Some v \<Rightarrow>
               (case num_value v of
                  None \<Rightarrow> Inl TypeError
                | Some x \<Rightarrow>
                    Inr (g\<lparr>player :=
                      Some (heal (py_int (of_int (hp_max (stats p)) * x / 100)) p)\<rparr>))
           | None \<Rightarrow>
          (case map_of (effect item) ''mp_percent'' of
             Some v \<Rightarrow>
               (case num_value v of
                  None \<Rightarrow> Inl TypeError
                | Some x \<Rightarrow>
                    Inr (g\<lparr>player :=
                      Some (restore_mp (py_int (of_int (mp_max (stats p)) * x / 100)) p)\<rparr>))
           | None \<Rightarrow>
          (case map_of (effect item) ''cure'' of
             Some v \<Rightarrow>
               Inr (g\<lparr>player := Some (p\<lparr>status_effects :=
                 filter (\<lambda>s. PStr (StatusType_name (status s)) \<noteq> v) (status_effects p)\<rparr>)\<rparr>)
           | None \<Rightarrow>
          (case map_of (effect item) ''damage'' of
             Some v \<Rightarrow>
               (case current_enemy g of
                  None \<Rightarrow> Inl (AttributeError ''stats'')
                | Some e \<Rightarrow>
                    bind_r (int_operand v) (\<lambda>d.
                      Inr (g\<lparr>current_enemy := Some (e\<lparr>enemy_stats := (enemy_stats e)
                        \<lparr>hp := clamp (hp (enemy_stats e) - d) 0 (hp_max (enemy_stats e))\<rparr>\<rparr>)\<rparr>)))
           | None \<Rightarrow> Inr g)))))"

definition use_item_enemy :: "Item \<Rightarrow> Enemy \<Rightarrow> py_error + Enemy" where
  "use_item_enemy item e =
     (let s = enemy_stats e in
      case map_of (effect item) ''heal_percent'' of
        Some v \<Rightarrow>
          (case num_value v of
             None \<Rightarrow> Inl TypeError
           | Some x \<Rightarrow>
               Inr (e\<lparr>enemy_stats := s\<lparr>hp :=
                 clamp (hp s + py_int (of_int (hp_max s) * x / 100)) 0 (hp_max s)\<rparr>\<rparr>))
      | None \<Rightarrow>
          (case map_of (effect item) ''mp_percent'' of
             Some v \<Rightarrow>
               (case num_value v of
                  None \<Rightarrow> Inl TypeError
                | Some x \<Rightarrow>
                    Inr (e\<lparr>enemy_stats := s\<lparr>mp :=
                      clamp (mp s + py_int (of_int (mp_max s) * x / 100)) 0 (mp_max s)\<rparr>\<rparr>))
           | None \<Rightarrow> Inr e))"

fun apply_status :: "StatusEffect list \<Rightarrow> StatusEffect \<Rightarrow> StatusEffect list" where
  "apply_status [] eff = [eff]"
| "apply_status (existing # rest) eff =
     (if status existing = status eff then
        existing\<lparr>duration := max (duration existing) (duration eff),
                 potency := max (potency existing) (potency eff)\<rparr> # rest
      else existing # apply_status rest eff)"

definition stunned :: "StatusEffect list \<Rightarrow> bool" where
  "stunned effects \<longleftrightarrow> list_ex (\<lambda>eff. status eff = STUN) effects"

definition status_of_skill :: "Skill \<Rightarrow> StatusEffect option" where
  "status_of_skill skill =
     (case skill_status skill of
        None \<Rightarrow> None
      | Some (st, po, du) \<Rightarrow> Some \<lparr>status = st, potency = po, duration = du\<rparr>)"

definition hit_enemy :: "int \<Rightarrow> Enemy \<Rightarrow> Enemy" where
  "hit_enemy damage e =
     e\<lparr>enemy_stats := (enemy_stats e)
       \<lparr>hp := clamp (hp (enemy_stats e) - damage) 0 (hp_max (enemy_stats e))\<rparr>\<rparr>"

definition resolve_player_action :: "ActionType \<Rightarrow> Game \<Rightarrow> py_error + Game" where
  "resolve_player_action action g =
     (case (player g, current_enemy g) of
        (Some p, Some e) \<Rightarrow>
          if stunned (status_effects p) then Inr g
          else
            (case action of
               ATTACK \<Rightarrow>
                 (case calc_damage (stats p) (enemy_stats e) None (rng g) of
                    (damage, r) \<Rightarrow>
                      Inr (g\<lparr>rng := r, current_enemy := Some (hit_enemy damage e)\<rparr>))
             | SKILL \<Rightarrow>
                 bind_r (select_player_skill g) (\<lambda>(choice, g1).
                   case choice of
                     None \<Rightarrow> Inr g1
                   | Some skill \<Rightarrow>
                       (let p1 = p\<lparr>stats := (stats p)\<lparr>mp := mp (stats p) - mp_cost skill\<rparr>\<rparr>
                        in case calc_damage (stats p1) (enemy_stats e) (Some skill) (rng g1) of
                             (damage, r) \<Rightarrow>
                               (let e1 = hit_enemy damage e;
                                    e2 = (case status_of_skill skill of
                                            None \<Rightarrow> e1
                                          | Some eff \<Rightarrow>
                                              e1\<lparr>enemy_status_effects :=
                                                apply_status (enemy_status_effects e1) eff\<rparr>)
                                in Inr (g1\<lparr>rng := r, player := Some p1,
                                          current_enemy := Some e2\<rparr>))))
             | ITEM \<Rightarrow>
                 bind_r (select_combat_item g) (\<lambda>(choice, g1).
                   case choice of
                     None \<Rightarrow> Inr g1
                   | Some item \<Rightarrow>
                       bind_r (use_item item g1) (\<lambda>g2.
                         if consumable item then
                           (case player g2 of
                              None \<Rightarrow> Inl AssertionError
                            | Some p2 \<Rightarrow>
                                Inr (g2\<lparr>player :=
                                  Some (p2\<lparr>inventory := remove1 item (inventory p2)\<rparr>)\<rparr>))
                         else Inr g2))
             | DEFEND \<Rightarrow> Inr (g\<lparr>player_guard_active := True\<rparr>)
             | FLEE \<Rightarrow> Inr g)
      | _ \<Rightarrow> Inl AssertionError)"

text \<open>
  \<^verbatim>\<open>choose_enemy_skill\<close>. The skills that carry a status the player does not have yet
  are collected in a \<^verbatim>\<open>set\<close>; \<^verbatim>\<open>Skill\<close> is a dataclass with \<^verbatim>\<open>eq\<close> and without
  \<^verbatim>\<open>frozen\<close>, so it has no hash, and adding the first such skill to the set raises
  \<^verbatim>\<open>TypeError\<close>. The set is therefore empty whenever the method gets past it.
  \<open>first_max\<close> is \<^verbatim>\<open>max(available, key=lambda s: s.base_power)\<close>: the first skill of
  the greatest power.
\<close>

fun first_max :: "Skill \<Rightarrow> Skill list \<Rightarrow> Skill" where
  "first_max best [] = best"
| "first_max best (s # rest) = first_max (if base_power s > base_power best then s else best) rest"

definition choose_enemy_skill :: "Enemy \<Rightarrow> Player \<Rightarrow> rng \<Rightarrow> py_error + Skill option \<times> rng" where
  "choose_enemy_skill e p r =
     (let available = filter (\<lambda>skill. mp (enemy_stats e) \<ge> mp_cost skill) (enemy_skills e) in
      case available of
        [] \<Rightarrow> Inr (None, r)
      | first # others \<Rightarrow>
          if list_ex (\<lambda>skill.
               case skill_status skill of
                 None \<Rightarrow> False
               | Some (st, po, du) \<Rightarrow> \<not> list_ex (\<lambda>eff. status eff = st) (status_effects p))
               available
          then Inl TypeError
          else if of_int (hp (enemy_stats e)) < of_int (hp_max (enemy_stats e)) * (1 / 2 :: rat)
          then Inr (Some (first_max first others), r)
          else (case rng_choice available r of (skill, r') \<Rightarrow> Inr (Some skill, r')))"

text \<open>The reduction of a hit by the guard: \<^verbatim>\<open>max(1, int(damage * 0.6))\<close>.\<close>

definition guarded :: "bool \<Rightarrow> int \<Rightarrow> int" where
  "guarded guard damage = (if guard then max 1 (py_int (of_int damage * (6 / 10))) else damage)"

definition resolve_enemy_action :: "Game \<Rightarrow> py_error + Game" where
  "resolve_enemy_action g =
     (case (current_enemy g, player g) of
        (Some e, Some p) \<Rightarrow>
          if stunned (enemy_status_effects e) then Inr g
          else
            (case (if of_int (hp (enemy_stats e)) < of_int (hp_max (enemy_stats e)) * (35 / 100 :: rat)
                   then find (\<lambda>item. item_name item = ''Pocion'') (drops e) else None) of
               Some potion \<Rightarrow>
                 bind_r (use_item_enemy potion e) (\<lambda>e1.
                   Inr (g\<lparr>current_enemy := Some (e1\<lparr>drops := remove1 potion (drops e1)\<rparr>)\<rparr>))
             | None \<Rightarrow>
                 bind_r (choose_enemy_skill e p (rng g)) (\<lambda>(choice, r0).
                   let skill = (case choice of
                                  Some sk \<Rightarrow> if mp (enemy_stats e) < mp_cost sk then None else Some sk
                                | None \<Rightarrow> None)
                   in case skill of
                        Some sk \<Rightarrow>
                          (let e1 = e\<lparr>enemy_stats := (enemy_stats e)
                                      \<lparr>mp := mp (enemy_stats e) - mp_cost sk\<rparr>\<rparr>
                           in case calc_damage (enemy_stats e1) (stats p) (Some sk) r0 of
                                (damage, r) \<Rightarrow>
                                  (let p1 = apply_damage (guarded (player_guard_active g) damage) p;
                                       p2 = (case status_of_skill sk of
                                               None \<Rightarrow> p1
                                             | Some eff \<Rightarrow>
                                                 p1\<lparr>status_effects :=
                                                   apply_status (status_effects p1) eff\<rparr>)
                                   in Inr (g\<lparr>rng := r, current_enemy := Some e1,
                                             player := Some p2,
                                             player_guard_active := False\<rparr>)))
                      | None \<Rightarrow>
                          (case calc_damage (enemy_stats e) (stats p) None r0 of
                             (damage, r) \<Rightarrow>
                               Inr (g\<lparr>rng := r,
                                      player := Some (apply_damage
                                        (guarded (player_guard_active g) damage) p),
                                      player_guard_active := False\<rparr>))))
      | _ \<Rightarrow> Inl AssertionError)"

text \<open>
  The status ticks at the end of a round. \<^verbatim>\<open>process_status_end_of_round\<close> walks a
  copy of the list while \<^verbatim>\<open>apply_status_effect\<close> lowers the duration of the effect in
  the list itself and removes it (\<^verbatim>\<open>list.remove\<close>: the first equal element) when the
  duration is used up. \<open>tick_loop seen todo\<close> holds the list as \<open>seen @ todo\<close>, the
  effects already visited and those still to visit.
\<close>

definition tick_health :: "StatusEffect \<Rightarrow> Stats \<Rightarrow> Stats" where
  "tick_health eff s =
     (let amount = max 1 (potency eff) in
      if status eff = POISON \<or> status eff = BURN then
        s\<lparr>hp := clamp (hp s - amount) 0 (hp_max s)\<rparr>
      else if status eff = REGEN then s\<lparr>hp := clamp (hp s + amount) 0 (hp_max s)\<rparr>
      else s)"

fun tick_loop ::
  "StatusEffect list \<Rightarrow> StatusEffect list \<Rightarrow> Stats \<Rightarrow> StatusEffect list \<times> Stats"
where
  "tick_loop seen [] s = (seen, s)"
| "tick_loop seen (eff # todo) s =
     (let s1 = tick_health eff s;
          eff1 = eff\<lparr>duration := duration eff - 1\<rparr>
      in if duration eff1 \<le> 0 then
           (if eff1 \<in> set seen then tick_loop (remove1 eff1 seen @ [eff1]) todo s1
            else tick_loop seen todo s1)
         else tick_loop (seen @ [eff1]) todo s1)"

definition process_status_end_of_round :: "Game \<Rightarrow> py_error + Game" where
  "process_status_end_of_round g =
     (case (player g, current_enemy g) of
        (Some p, Some e) \<Rightarrow>
          (case tick_loop [] (status_effects p) (stats p) of
             (pe, ps) \<Rightarrow>
               (case tick_loop [] (enemy_status_effects e) (enemy_stats e) of
                  (ee, es) \<Rightarrow>
                    Inr (g\<lparr>player := Some (p\<lparr>status_effects := pe, stats := ps\<rparr>),
                           current_enemy :=
                             Some (e\<lparr>enemy_status_effects := ee, enemy_stats := es\<rparr>)\<rparr>)))
      | _ \<Rightarrow> Inl AssertionError)"

subsection \<open>Levels, victory and the combat loop\<close>

definition exp_to_next :: "Stats \<Rightarrow> int" where
  "exp_to_next s = py_int (of_int (100 * lvl s) * (135 / 100))"

definition increase_stats_on_level :: "Stats \<Rightarrow> Stats" where
  "increase_stats_on_level s =
     (let s1 = s\<lparr>hp_max := hp_max s + (10 + lvl s), mp_max := mp_max s + 5, str := str s + 2,
                 int' := int' s + 2, agi := agi s + 1, def' := def' s + 2\<rparr>;
          s2 = s1\<lparr>hp := min (hp_max s1) (hp s1 + 10)\<rparr>
      in s2\<lparr>mp := min (mp_max s2) (mp s2 + 5)\<rparr>)"

lemma exp_to_next_positive: "1 \<le> lvl s \<Longrightarrow> 1 \<le> exp_to_next s"
proof -
  assume "1 \<le> lvl s"
  then have "(1::rat) \<le> of_int (lvl s)" by simp
  then have "(1::rat) \<le> of_int (100 * lvl s) * (135 / 100)" by simp
  then show ?thesis by (simp add: exp_to_next_def py_int_def le_floor_iff)
qed

text \<open>
  The loop of \<^verbatim>\<open>gain_exp\<close>. It ends for every statistics block: while the level is
  below 1 each pass raises it, and from level 1 on each pass takes a positive
  threshold off an experience that is at least the threshold.
\<close>

function level_loop :: "Stats \<Rightarrow> int list \<Rightarrow> Stats \<times> int list" where
  "level_loop s leveled =
     (if exp' s \<ge> exp_to_next s then
        (let s1 = s\<lparr>exp' := exp' s - exp_to_next s\<rparr>;
             s2 = s1\<lparr>lvl := lvl s1 + 1\<rparr>
         in level_loop (increase_stats_on_level s2) (leveled @ [lvl s2]))
      else (s, leveled))"
  by pat_completeness auto
termination
proof (relation "measures [\<lambda>(s, leveled). nat (1 - lvl s), \<lambda>(s, leveled). nat (exp' s)]",
    goal_cases)
  case 1
  show ?case by simp
next
  case (2 s leveled s1 s2)
  show ?case
  proof (cases "1 \<le> lvl s")
    case True
    from exp_to_next_positive [OF True] 2 True show ?thesis
      by (simp add: increase_stats_on_level_def Let_def)
  next
    case False
    with 2 show ?thesis
      by (simp add: increase_stats_on_level_def Let_def)
  qed
qed

declare level_loop.simps [simp del]

definition gain_exp :: "int \<Rightarrow> Stats \<Rightarrow> Stats \<times> int list" where
  "gain_exp amount s = level_loop (s\<lparr>exp' := exp' s + amount\<rparr>) []"

definition unlock_step :: "int \<times> Skill \<Rightarrow> Player \<Rightarrow> Player" where
  "unlock_step entry p =
     (if lvl (stats p) \<ge> fst entry \<and> skill_name (snd entry) \<notin> set (map skill_name (skills p))
      then p\<lparr>skills := skills p @ [snd entry]\<rparr>
      else p)"

definition auto_unlock_skills :: "Player \<Rightarrow> Player" where
  "auto_unlock_skills p = fold unlock_step (CLASS_SKILLS (class_type p)) p"

definition apply_quest_rewards :: "Quest \<Rightarrow> Player \<Rightarrow> Player" where
  "apply_quest_rewards quest p =
     (case gain_exp (reward_exp quest) (stats p) of
        (s1, leveled) \<Rightarrow>
          (let p1 = p\<lparr>stats := s1\<lparr>gold := gold s1 + reward_gold quest\<rparr>\<rparr>;
               p2 = (case reward_item quest of
                       Some item \<Rightarrow> p1\<lparr>inventory := inventory p1 @ [item]\<rparr>
                     | None \<Rightarrow> p1)
           in if leveled \<noteq> [] then auto_unlock_skills p2 else p2))"

text \<open>The two loops of \<^verbatim>\<open>combat_victory\<close>: over the drops and over the player's quests.\<close>

fun roll_drops :: "Item list \<Rightarrow> Player \<Rightarrow> rng \<Rightarrow> Player \<times> rng" where
  "roll_drops [] p r = (p, r)"
| "roll_drops (loot # rest) p r =
     (case roll_chance r (45 / 100) of
        (hit, r') \<Rightarrow>
          roll_drops rest (if hit then p\<lparr>inventory := inventory p @ [loot]\<rparr> else p) r')"

definition quest_progress_step :: "string \<Rightarrow> nat \<Rightarrow> Game \<Rightarrow> Game" where
  "quest_progress_step killed i g =
     (case player g of
        None \<Rightarrow> g
      | Some p \<Rightarrow>
          (let quest = quests p ! i in
           if objective_type quest = ''kill'' \<and> target quest = killed then
             (let q1 = quest\<lparr>progress := progress quest + 1\<rparr> in
              if progress q1 \<ge> required q1 \<and> \<not> completed q1 then
                (let q2 = q1\<lparr>completed := True\<rparr>;
                     p1 = p\<lparr>quests := (quests p)[i := q2]\<rparr>
                 in save_game (g\<lparr>player := Some (apply_quest_rewards q2 p1)\<rparr>))
              else g\<lparr>player := Some (p\<lparr>quests := (quests p)[i := q1]\<rparr>)\<rparr>)
           else g))"

definition combat_victory :: "Game \<Rightarrow> py_error + Game" where
  "combat_victory g =
     (case (player g, current_enemy g) of
        (Some p, Some e) \<Rightarrow>
          (let gained_exp = 20 + lvl (enemy_stats e) * 10;
               s1 = (stats p)\<lparr>gold := gold (stats p) + gold (enemy_stats e)\<rparr>
           in case gain_exp gained_exp s1 of
                (s2, leveled) \<Rightarrow>
                  (let p2 = p\<lparr>stats := s2\<rparr>;
                       g2 = (if leveled \<noteq> [] \<and> \<not> testing g then
                               save_game (g\<lparr>player := Some (auto_unlock_skills p2)\<rparr>)
                             else g\<lparr>player := Some p2\<rparr>)
                   in case roll_drops (drops e) (the (player g2)) (rng g2) of
                        (p3, r) \<Rightarrow>
                          Inr (fold (quest_progress_step (enemy_name e))
                                 [0..<length (quests p3)]
                                 (g2\<lparr>player := Some p3, rng := r\<rparr>))))
      | _ \<Rightarrow> Inl AssertionError)"

text \<open>
  One round of \<^verbatim>\<open>handle_combat\<close>: \<open>combat_actors\<close> is the loop over the turn order,
  which stops as soon as the side that was just hit has no health left; the round
  returns whether the player got away.
\<close>

definition enemy_down :: "Game \<Rightarrow> bool" where
  "enemy_down g = (case current_enemy g of Some e \<Rightarrow> hp (enemy_stats e) \<le> 0 | None \<Rightarrow> True)"

definition player_down :: "Game \<Rightarrow> bool" where
  "player_down g = (case player g of Some p \<Rightarrow> hp (stats p) \<le> 0 | None \<Rightarrow> True)"

fun combat_actors :: "ActionType \<Rightarrow> string list \<Rightarrow> Game \<Rightarrow> py_error + Game" where
  "combat_actors action [] g = Inr g"
| "combat_actors action (actor # rest) g =
     (if actor = ''player'' then
        bind_r (resolve_player_action action g)
          (\<lambda>g1. if enemy_down g1 then Inr g1 else combat_actors action rest g1)
      else
        bind_r (resolve_enemy_action g)
          (\<lambda>g1. if player_down g1 then Inr g1 else combat_actors action rest g1))"

definition combat_round :: "Game \<Rightarrow> py_error + bool \<times> Game" where
  "combat_round g =
     (case (player g, current_enemy g) of
        (Some p, Some e) \<Rightarrow>
          (let turn_order = determine_turn_order p e in
           case choose_combat_action g of
             (action, g1) \<Rightarrow>
               (case (if action = FLEE then roll_chance (rng g1) (1 / 2) else (False, rng g1)) of
                  (escaped, r) \<Rightarrow>
                    if escaped then
                      Inr (True, g1\<lparr>rng := r, current_enemy := None, state := EXPLORATION\<rparr>)
                    else
                      bind_r (combat_actors action turn_order
                                (if action = FLEE then say ''No consigues escapar.'' (g1\<lparr>rng := r\<rparr>)
                                 else g1\<lparr>rng := r\<rparr>)) (\<lambda>g2.
                      bind_r (process_status_end_of_round g2) (\<lambda>g3. Inr (False, g3)))))
      | _ \<Rightarrow> Inl AssertionError)"

text \<open>
  The \<^verbatim>\<open>while\<close> loop of \<^verbatim>\<open>handle_combat\<close> runs as long as both sides have health
  left; nothing in the source bounds the number of rounds, so the model leaves open
  whether it returns.
\<close>

partial_function (option) combat_loop :: "Game \<Rightarrow> (py_error + Game) option" where
  "combat_loop g =
     (if \<not> player_down g \<and> \<not> enemy_down g then
        (case combat_round g of
           Inl err \<Rightarrow> Some (Inl err)
         | Inr (escaped, g1) \<Rightarrow> if escaped then Some (Inr g1) else combat_loop g1)
      else if player_down g then Some (Inr (g\<lparr>state := GAME_OVER\<rparr>))
      else
        (case combat_victory g of
           Inl err \<Rightarrow> Some (Inl err)
         | Inr g1 \<Rightarrow> Some (Inr (g1\<lparr>current_enemy := None, state := EXPLORATION\<rparr>))))"

definition handle_combat :: "Game \<Rightarrow> (py_error + Game) option" where
  "handle_combat g =
     (case player g of
        None \<Rightarrow> Some (Inl AssertionError)
      | Some p \<Rightarrow>
          (case current_enemy g of
             None \<Rightarrow>
               Some (Inr ((say ''No hay enemigo que enfrentar.'' g)\<lparr>state := EXPLORATION\<rparr>))
           | Some e \<Rightarrow> combat_loop (g\<lparr>player_guard_active := False\<rparr>)))"

subsection \<open>Creating the player\<close>

definition create_default_quest :: Quest where
  "create_default_quest =
     \<lparr>quest_name = ''Derrota 2 Slimes'',
      quest_description = ''Elimina a 2 Slimes cercanos a la ciudad'',
      objective_type = ''kill'', target = ''Slime'', required = 2, reward_exp = 40,
      reward_gold = 20, reward_item = None, progress = 0, completed = False\<rparr>"

definition create_player :: "string \<Rightarrow> ClassType \<Rightarrow> Player" where
  "create_player nm ct =
     (let base_stats = BASE_STATS ct;
          s1 = base_stats\<lparr>hp := hp_max base_stats\<rparr>;
          s2 = s1\<lparr>mp := mp_max s1\<rparr>
      in \<lparr>name = nm, class_type = ct, stats = s2,
          skills = map snd (filter (\<lambda>entry. fst entry = 1) (CLASS_SKILLS ct)),
          inventory = [\<lparr>item_name = ''Pocion'', item_description = ''Recupera 35% HP'',
            effect = [(''heal_percent'', PInt 35)], price = 0, consumable = True\<rparr>],
          equipment = [], status_effects = [], quests = [create_default_quest],
          position = (0, 0)\<rparr>)"

subsection \<open>Exploration\<close>

text \<open>
  \<^verbatim>\<open>render_map\<close> and \<^verbatim>\<open>describe_current_location\<close> only print, but they subscript the
  map: what the model keeps of them is the \<^verbatim>\<open>KeyError\<close> of a missing cell, the first
  one in the order of the rows.
\<close>

definition render_map :: "bool \<Rightarrow> Game \<Rightarrow> py_error + Game" where
  "render_map full g =
     (case player g of
        None \<Rightarrow> Inl AssertionError
      | Some p \<Rightarrow>
          (case find (\<lambda>pos. (full \<or> pos \<in> set (discovered g)) \<and> map_of (game_map g) pos = None)
                  (grid_cells map_size) of
             Some pos \<Rightarrow> Inl (KeyError (repr_pos pos))
           | None \<Rightarrow> Inr g))"

definition current_location :: "Game \<Rightarrow> py_error + Location" where
  "current_location g =
     (case player g of
        None \<Rightarrow> Inl AssertionError
      | Some p \<Rightarrow>
          (case map_of (game_map g) (position p) of
             None \<Rightarrow> Inl (KeyError (repr_pos (position p)))
           | Some location \<Rightarrow> Inr location))"

definition describe_current_location :: "Game \<Rightarrow> py_error + Game" where
  "describe_current_location g = bind_r (current_location g) (\<lambda>location. Inr g)"

definition generate_enemy :: "TileType \<Rightarrow> rng \<Rightarrow> Enemy \<times> rng" where
  "generate_enemy tile r =
     (if tile = CAVE then
        (case rng_random r of
           (roll, r1) \<Rightarrow>
             if roll < 4 / 10 then (enemy_goblin, r1)
             else if roll < 75 / 100 then (enemy_salamander, r1)
             else (case roll_chance r1 (15 / 100) of
                     (boss, r2) \<Rightarrow> (if boss then enemy_cave_boss else enemy_salamander, r2)))
      else if tile = FOREST then
        (case rng_random r of
           (roll, r1) \<Rightarrow>
             if roll < 45 / 100 then (enemy_slime, r1)
             else if roll < 75 / 100 then (enemy_wolf, r1)
             else (enemy_bandit, r1))
      else if tile = RUINS then
        (case rng_random r of
           (roll, r1) \<Rightarrow>
             if roll < 1 / 2 then (enemy_skeleton, r1)
             else if roll < 85 / 100 then (enemy_bandit, r1)
             else (enemy_cave_boss, r1))
      else if tile = LAKE then
        (case rng_random r of
           (roll, r1) \<Rightarrow>
             if roll < 55 / 100 then (enemy_slime, r1)
             else if roll < 85 / 100 then (enemy_spirit, r1)
             else (enemy_wolf, r1))
      else (enemy_goblin, r))"

definition trigger_zone_event :: "Location \<Rightarrow> Game \<Rightarrow> py_error + Game" where
  "trigger_zone_event location g =
     (case player g of
        None \<Rightarrow> Inl AssertionError
      | Some p \<Rightarrow>
          if tile_type location = FOREST then
            Inr (g\<lparr>player := Some (p\<lparr>inventory := inventory p @
              [\<lparr>item_name = ''Hierba curativa'',
                item_description = ''Ingrediente que restaura algo de salud.'',
                effect = [(''heal_percent'', PInt 15)], price = 4, consumable = True\<rparr>]\<rparr>)\<rparr>)
          else if tile_type location = CAVE then
            Inr (g\<lparr>player := Some (p\<lparr>inventory := inventory p @
              [\<lparr>item_name = ''Bomba'', item_description = ''Inflige dano explosivo al enemigo.'',
                effect = [(''damage'', PInt 30)], price = 18, consumable = True\<rparr>]\<rparr>)\<rparr>)
          else if tile_type location = RUINS then
            (case rng_randint 12 24 (rng g) of
               (gold_found, r) \<Rightarrow>
                 Inr (g\<lparr>rng := r,
                        player := Some (p\<lparr>stats := (stats p)\<lparr>gold := gold (stats p) + gold_found\<rparr>\<rparr>)\<rparr>))
          else if tile_type location = LAKE then
            Inr (g\<lparr>player :=
              Some (heal (py_int (of_int (hp_max (stats p)) * (15 / 100))) p)\<rparr>)
          else Inr g)"

definition try_encounter :: "Game \<Rightarrow> py_error + Game" where
  "try_encounter g =
     bind_r (current_location g) (\<lambda>location.
       let g1 = advance_time 1 g in
       if tile_type location = TOWN then
         Inr (say ''Dentro de la ciudad no hay amenazas inmediatas.'' g1)
       else
         (case roll_chance (rng g1) (danger location) of
            (found, r1) \<Rightarrow>
              if found then
                (case generate_enemy (tile_type location) r1 of
                   (enemy, r2) \<Rightarrow>
                     Inr (g1\<lparr>rng := r2, state := COMBAT, current_enemy := Some enemy\<rparr>))
              else
                (case roll_chance r1 (1 / 4) of
                   (event, r2) \<Rightarrow>
                     if event then trigger_zone_event location (g1\<lparr>rng := r2\<rparr>)
                     else Inr (g1\<lparr>rng := r2\<rparr>))))"

definition visit_inn :: "Game \<Rightarrow> py_error + Game" where
  "visit_inn g =
     (case player g of
        None \<Rightarrow> Inl AssertionError
      | Some p \<Rightarrow>
          if gold (stats p) < 15 then
            Inr (say ''La posada cuesta 15 de oro. No tienes suficiente oro.'' g)
          else
            (let s1 = (stats p)\<lparr>gold := gold (stats p) - 15\<rparr>;
                 s2 = s1\<lparr>hp := hp_max s1\<rparr>;
                 s3 = s2\<lparr>mp := mp_max s2\<rparr>
             in Inr (advance_time 2
                       (g\<lparr>player := Some (p\<lparr>stats := s3, status_effects := []\<rparr>)\<rparr>))))"

definition make_camp :: "Game \<Rightarrow> py_error + Game" where
  "make_camp g =
     bind_r (current_location g) (\<lambda>location.
       case player g of
         None \<Rightarrow> Inl AssertionError
       | Some p \<Rightarrow>
           (let healed = max 1 (py_int (of_int (hp_max (stats p)) * (25 / 100)));
                mana = max 1 (py_int (of_int (mp_max (stats p)) * (2 / 10)));
                p1 = restore_mp mana (heal healed p);
                cleansed = filter (\<lambda>eff. status eff = POISON \<or> status eff = BURN)
                             (status_effects p1);
                p2 = p1\<lparr>status_effects := fold remove1 cleansed (status_effects p1)\<rparr>;
                threat = max (1 / 10) (danger location - 15 / 100);
                g1 = advance_time 2 (g\<lparr>player := Some p2\<rparr>)
            in case roll_chance (rng g1) threat of
                 (ambush, r1) \<Rightarrow>
                   if ambush then
                     (case generate_enemy (tile_type location) r1 of
                        (enemy, r2) \<Rightarrow>
                          Inr (g1\<lparr>rng := r2, current_enemy := Some enemy, state := COMBAT\<rparr>))
                   else Inr (g1\<lparr>rng := r1\<rparr>)))"

definition handle_exploration :: "Game \<Rightarrow> py_error + Game" where
  "handle_exploration g =
     (case player g of
        None \<Rightarrow> Inl AssertionError
      | Some p \<Rightarrow>
          bind_r (render_map False g) (\<lambda>ga.
          bind_r (describe_current_location ga) (\<lambda>gb.
          bind_r (current_location gb) (\<lambda>location.
            let in_town = (tile_type location = TOWN) in
            case safe_input gb of
              (None, g0) \<Rightarrow> Inr (save_game (g0\<lparr>state := GAME_OVER\<rparr>))
            | (Some raw_choice, g0) \<Rightarrow>
                (let choice = py_strip raw_choice;
                     lowered = py_lower choice
                 in if choice = ''E'' \<or> lowered \<in> set [''explorar'', ''exp'', ''buscar'']
                    then try_encounter g0
                    else if lowered \<in> set [''n'', ''s'', ''e'', ''o'', ''norte'', ''sur'', ''este'',
                                           ''oeste'']
                    then move_player [hd lowered] g0
                    else if lowered = ''m'' then
                      bind_r (render_map True g0) describe_current_location
                    else if lowered = ''q'' then Inr (g0\<lparr>state := QUESTS\<rparr>)
                    else if lowered = ''i'' then Inr (g0\<lparr>state := INVENTORY\<rparr>)
                    else if lowered = ''c'' then Inr (g0\<lparr>state := CHARACTER\<rparr>)
                    else if lowered = ''p'' \<and> in_town then visit_inn g0
                    else if lowered = ''r'' \<and> \<not> in_town then make_camp g0
                    else if lowered = ''t'' then
                      (if in_town \<or> testing g0 then Inr (g0\<lparr>state := SHOP\<rparr>)
                       else Inr (say ''No hay ninguna tienda aqui.'' g0))
                    else if lowered = ''s'' then Inr (save_game g0)
                    else if lowered = ''x'' then Inr (save_game (g0\<lparr>state := MAIN_MENU\<rparr>))
                    else Inr (say ''Comando desconocido'' g0))))))"

subsection \<open>Main menu\<close>

text \<open>
  \<^verbatim>\<open>choose_class\<close> asks until it gets the number of a class. At the end of the input
  \<^verbatim>\<open>safe_input\<close> keeps returning \<^verbatim>\<open>None\<close> and the loop never ends: the model has no
  value for it.
\<close>

partial_function (option) choose_class_loop ::
  "string list \<Rightarrow> string list \<Rightarrow> ((py_error + ClassType) \<times> string list \<times> string list) option"
where
  "choose_class_loop inp out =
     (case inp of
        [] \<Rightarrow> choose_class_loop [] (out @ [''Seleccion invalida''])
      | choice # rest \<Rightarrow>
          if choice \<noteq> [] \<and> py_isdigit choice then
            (case int_of_str choice of
               None \<Rightarrow> Some (Inl ValueError, rest, out)
             | Some n \<Rightarrow>
                 if 1 \<le> n \<and> n \<le> 3 then
                   Some (Inr ([WARRIOR, MAGE, ROGUE] ! nat (n - 1)), rest, out)
                 else choose_class_loop rest (out @ [''Seleccion invalida'']))
          else choose_class_loop rest (out @ [''Seleccion invalida'']))"

definition start_new_game :: "Game \<Rightarrow> (py_error + Game) option" where
  "start_new_game g =
     (case safe_input g of
        (answer, g1) \<Rightarrow>
          (let nm = (case answer of
                       None \<Rightarrow> ''Aventurero''
                     | Some s \<Rightarrow> if s = [] then ''Aventurero'' else s)
           in case choose_class_loop (stdin g1) (reports g1) of
                None \<Rightarrow> None
              | Some (Inl err, rest, out) \<Rightarrow> Some (Inl err)
              | Some (Inr class_choice, rest, out) \<Rightarrow>
                  Some (Inr (g1\<lparr>stdin := rest, reports := out,
                    player := Some ((create_player nm class_choice)
                      \<lparr>position := start_position g1\<rparr>),
                    state := EXPLORATION\<rparr>))))"

definition handle_main_menu :: "Game \<Rightarrow> (py_error + Game) option" where
  "handle_main_menu g =
     (case safe_input g of
        (None, g0) \<Rightarrow> Some (Inr (g0\<lparr>state := GAME_OVER\<rparr>))
      | (Some choice, g0) \<Rightarrow>
          if choice = ''3'' then Some (Inr (g0\<lparr>state := GAME_OVER\<rparr>))
          else if choice = ''1'' then start_new_game g0
          else if choice = ''2'' then
            (case load_game g0 of
               Inl err \<Rightarrow> Some (Inl err)
             | Inr (loaded, g1) \<Rightarrow>
                 Some (Inr (if loaded then g1\<lparr>state := EXPLORATION\<rparr>
                            else say ''No se pudo cargar la partida.'' g1)))
          else Some (Inr (say ''Opcion invalida'' g0)))"

subsection \<open>Shop, inventory, character sheet, quests and loading\<close>

definition stock_price :: "stock \<Rightarrow> int" where
  "stock_price entry = (case entry of StockEquipment e \<Rightarrow> eq_price e | StockItem i \<Rightarrow> price i)"

definition handle_shop :: "Game \<Rightarrow> py_error + Game" where
  "handle_shop g =
     (case player g of
        None \<Rightarrow> Inl AssertionError
      | Some p \<Rightarrow>
          if shop_stock g = [] then
            Inr ((say ''El escaparate esta vacio por ahora.'' g)\<lparr>state := EXPLORATION\<rparr>)
          else
            (case safe_input g of
               (None, g0) \<Rightarrow> Inr (g0\<lparr>state := EXPLORATION\<rparr>)
             | (Some choice, g0) \<Rightarrow>
                 if choice = ''0'' then Inr (g0\<lparr>state := EXPLORATION\<rparr>)
                 else if py_isdigit choice then
                   (case int_of_str choice of
                      None \<Rightarrow> Inl ValueError
                    | Some n \<Rightarrow>
                        if 1 \<le> n \<and> n \<le> int (length (shop_stock g0)) then
                          (let index = nat (n - 1);
                               template = shop_stock g0 ! index
                           in if gold (stats p) < stock_price template then
                                Inr (say ''No tienes suficiente oro.'' g0)
                              else
                                (let p1 = p\<lparr>stats := (stats p)
                                       \<lparr>gold := gold (stats p) - stock_price template\<rparr>\<rparr>
                                 in case template of
                                      StockEquipment purchased \<Rightarrow>
                                        bind_r (equip purchased p1) (\<lambda>(p2, previous).
                                          Inr (save_game (g0\<lparr>player := Some p2,
                                            shop_stock := take index (shop_stock g0) @
                                              drop (Suc index) (shop_stock g0)\<rparr>)))
                                    | StockItem purchased \<Rightarrow>
                                        Inr (save_game (g0\<lparr>player :=
                                          Some (p1\<lparr>inventory := inventory p1 @ [purchased]\<rparr>)\<rparr>))))
                        else Inr (say ''Opcion no valida.'' g0))
                 else Inr (say ''Opcion no valida.'' g0)))"

text \<open>
  The inventory of a player holds items only (\<^verbatim>\<open>List[Item]\<close>: the shop equips a bought
  piece at once and nothing puts an \<^verbatim>\<open>Equipment\<close> there), so \<^verbatim>\<open>equip_from_inventory\<close>
  finds no piece to offer.
\<close>

definition equip_from_inventory :: "Game \<Rightarrow> py_error + Game" where
  "equip_from_inventory g =
     (case player g of
        None \<Rightarrow> Inl AssertionError
      | Some p \<Rightarrow> Inr (say ''No tienes equipo para equipar.'' g))"

definition use_from_inventory :: "Game \<Rightarrow> py_error + Game" where
  "use_from_inventory g =
     (case player g of
        None \<Rightarrow> Inl AssertionError
      | Some p \<Rightarrow>
          if inventory p = [] then Inr (say ''Inventario vacio.'' g)
          else
            (case safe_input g of
               (None, g0) \<Rightarrow> Inr g0
             | (Some choice, g0) \<Rightarrow>
                 if choice \<noteq> [] \<and> py_isdigit choice then
                   (case int_of_str choice of
                      None \<Rightarrow> Inl ValueError
                    | Some n \<Rightarrow>
                        if 1 \<le> n \<and> n \<le> int (length (inventory p)) then
                          (let index = nat (n - 1);
                               item = inventory p ! index
                           in bind_r (use_item item g0) (\<lambda>g1.
                                if consumable item then
                                  (case player g1 of
                                     None \<Rightarrow> Inl AssertionError
                                   | Some p1 \<Rightarrow>
                                       Inr (g1\<lparr>player := Some (p1\<lparr>inventory :=
                                         take index (inventory p1) @
                                         drop (Suc index) (inventory p1)\<rparr>)\<rparr>))
                                else Inr g1))
                        else Inr g0)
                 else Inr g0))"

definition handle_inventory :: "Game \<Rightarrow> py_error + Game" where
  "handle_inventory g =
     (case player g of
        None \<Rightarrow> Inl AssertionError
      | Some p \<Rightarrow>
          (case safe_input g of
             (None, g0) \<Rightarrow> Inr (g0\<lparr>state := EXPLORATION\<rparr>)
           | (Some choice, g0) \<Rightarrow>
               if choice = ''0'' then Inr (g0\<lparr>state := EXPLORATION\<rparr>)
               else if py_lower choice = ''e'' then equip_from_inventory g0
               else if py_lower choice = ''u'' then use_from_inventory g0
               else Inr (say ''Opcion invalida.'' g0)))"

definition handle_character :: "Game \<Rightarrow> py_error + Game" where
  "handle_character g =
     (case player g of
        None \<Rightarrow> Inl AssertionError
      | Some p \<Rightarrow> (case safe_input g of (answer, g0) \<Rightarrow> Inr (g0\<lparr>state := EXPLORATION\<rparr>)))"

text \<open>
  \<^verbatim>\<open>handle_quests\<close> is a loop over the lines of input: it leaves at \<^verbatim>\<open>0\<close> or at the end
  of the input. Accepting a quest saves the game before the quest is taken off the
  board.
\<close>

definition accept_quest :: "nat \<Rightarrow> Game \<Rightarrow> py_error + Game" where
  "accept_quest index g =
     (case player g of
        None \<Rightarrow> Inl AssertionError
      | Some p \<Rightarrow>
          (let template = quest_board g ! index in
           if list_ex (\<lambda>q. quest_name q = quest_name template \<and> \<not> completed q) (quests p) then
             Inr (say ''Ya tienes esta mision activa.'' g)
           else
             (let new_quest = \<lparr>quest_name = quest_name template,
                    quest_description = quest_description template,
                    objective_type = objective_type template, target = target template,
                    required = required template, reward_exp = reward_exp template,
                    reward_gold = reward_gold template, reward_item = reward_item template,
                    progress = 0, completed = False\<rparr>;
                  g1 = save_game (g\<lparr>player := Some (p\<lparr>quests := quests p @ [new_quest]\<rparr>)\<rparr>)
              in Inr (g1\<lparr>quest_board := take index (quest_board g1) @
                          drop (Suc index) (quest_board g1)\<rparr>))))"

fun quests_loop :: "string list \<Rightarrow> Game \<Rightarrow> py_error + Game" where
  "quests_loop [] g = bind_r (current_location g) (\<lambda>location. Inr (g\<lparr>stdin := []\<rparr>))"
| "quests_loop (choice # rest) g =
     bind_r (current_location g) (\<lambda>location.
       let g0 = g\<lparr>stdin := rest\<rparr> in
       if choice = ''0'' then Inr g0
       else if tile_type location = TOWN \<and> py_lower choice = ''r'' then
         quests_loop rest (refresh_quest_board (advance_time 3 g0))
       else if tile_type location = TOWN \<and> py_isdigit choice then
         (case int_of_str choice of
            None \<Rightarrow> Inl ValueError
          | Some n \<Rightarrow>
              (let index = n - 1 in
               if 0 \<le> index \<and> index < int (length (quest_board g0)) then
                 bind_r (accept_quest (nat index) g0) (quests_loop rest)
               else quests_loop rest (say ''Seleccion invalida.'' g0)))
       else
         quests_loop rest
           (say ''Debes estar en la ciudad para aceptar nuevas misiones.'' g0))"

definition handle_quests :: "Game \<Rightarrow> py_error + Game" where
  "handle_quests g =
     (case player g of
        None \<Rightarrow> Inl AssertionError
      | Some p \<Rightarrow> bind_r (quests_loop (stdin g) g) (\<lambda>g1. Inr (g1\<lparr>state := EXPLORATION\<rparr>)))"

definition handle_saveload :: "Game \<Rightarrow> py_error + Game" where
  "handle_saveload g =
     bind_r (load_game g) (\<lambda>(loaded, g1).
       if loaded then Inr (g1\<lparr>state := EXPLORATION\<rparr>)
       else Inr ((say ''No se pudo cargar.'' g1)\<lparr>state := MAIN_MENU\<rparr>))"

subsection \<open>The state machine\<close>

text \<open>
  One pass of the loop of \<^verbatim>\<open>run\<close>: the handler of the current state. \<open>None\<close> is a
  handler that does not return, \<open>Inl\<close> an exception that leaves it (\<^verbatim>\<open>run\<close> catches
  \<^verbatim>\<open>EOFError\<close> and \<^verbatim>\<open>KeyboardInterrupt\<close> only, which \<^verbatim>\<open>safe_input\<close> has already turned
  into \<^verbatim>\<open>None\<close>).
\<close>

definition step :: "Game \<Rightarrow> (py_error + Game) option" where
  "step g =
     (case state g of
        MAIN_MENU \<Rightarrow> handle_main_menu g
      | EXPLORATION \<Rightarrow> Some (handle_exploration g)
      | COMBAT \<Rightarrow> handle_combat g
      | SHOP \<Rightarrow> Some (handle_shop g)
      | INVENTORY \<Rightarrow> Some (handle_inventory g)
      | CHARACTER \<Rightarrow> Some (handle_character g)
      | QUESTS \<Rightarrow> Some (handle_quests g)
      | SAVELOAD \<Rightarrow> Some (handle_saveload g)
      | GAME_OVER \<Rightarrow> Some (Inr g))"

partial_function (option) run :: "Game \<Rightarrow> (py_error + Game) option" where
  "run g =
     (if state g \<noteq> GAME_OVER then
        (case step g of
           None \<Rightarrow> None
         | Some (Inl err) \<Rightarrow> Some (Inl err)
         | Some (Inr g1) \<Rightarrow> run g1)
      else Some (Inr g))"

section \<open>Properties\<close>

subsection \<open>Health and mana stay within their bounds\<close>

lemma clamp_bounds: "lo \<le> hi \<Longrightarrow> lo \<le> clamp v lo hi \<and> clamp v lo hi \<le> hi"
  by (simp add: clamp_def)

lemma mutate_stats_ok: "stats_ok (stats p) \<Longrightarrow> stats_ok (stats (mutate p m))"
  by (cases m) (auto simp: stats_ok_def apply_damage_def heal_def restore_mp_def clamp_def)

text \<open>
  Claim C1. Starting from a stats block within its bounds, after every operation of
  every sequence of damage, heal and mana-restore mutations (of any amount, negative
  ones included) \<open>0 \<le> hp \<le> hp_max\<close> and \<open>0 \<le> mp \<le> mp_max\<close> hold.
\<close>

theorem mutations_keep_stats_in_bounds:
  assumes "stats_ok (stats p)"
  shows "list_all (\<lambda>q. stats_ok (stats q)) (mutation_trace p ms)"
  using assms
proof (induction ms arbitrary: p)
  case Nil
  show ?case by simp
next
  case (Cons m ms)
  from Cons.prems have "stats_ok (stats (mutate p m))"
    by (rule mutate_stats_ok)
  with Cons.IH show ?case by simp
qed

text \<open>
  The level-1 mage of \<^verbatim>\<open>create_player\<close> (statistics of \<^verbatim>\<open>BASE_STATS\<close>), hit for more
  than its health, healed, drained of more mana than it has, healed beyond its maximum
  and "damaged" by a negative amount: the health and mana after each step are
  \<open>(0, 25), (7, 25), (7, 0), (40, 0), (40, 0)\<close>.
\<close>

theorem mutations_keep_stats_in_bounds_witness:
  "stats_ok \<lparr>lvl = 1, exp' = 0, hp = 40, hp_max = 40, mp = 25, mp_max = 25, str = 5,
       int' = 12, agi = 6, def' = 6, gold = 30\<rparr> \<and>
   list_all (\<lambda>q. stats_ok (stats q))
     (mutation_trace
       \<lparr>name = ''TestMage'', class_type = MAGE,
        stats = \<lparr>lvl = 1, exp' = 0, hp = 40, hp_max = 40, mp = 25, mp_max = 25, str = 5,
          int' = 12, agi = 6, def' = 6, gold = 30\<rparr>,
        skills = [], inventory = [], equipment = [], status_effects = [], quests = [],
        position = (4, 4)\<rparr>
       [Damage 100, Heal 7, RestoreMp (- 30), Heal 1000, Damage (- 5)])"
proof -
  have ok: "stats_ok \<lparr>lvl = 1, exp' = 0, hp = 40, hp_max = 40, mp = 25, mp_max = 25,
      str = 5, int' = 12, agi = 6, def' = 6, gold = 30\<rparr>"
    by (simp add: stats_ok_def)
  then have "stats_ok (stats \<lparr>name = ''TestMage'', class_type = MAGE,
        stats = \<lparr>lvl = 1, exp' = 0, hp = 40, hp_max = 40, mp = 25, mp_max = 25, str = 5,
          int' = 12, agi = 6, def' = 6, gold = 30\<rparr>,
        skills = [], inventory = [], equipment = [], status_effects = [], quests = [],
        position = (4, 4)\<rparr>)"
    by simp
  from ok mutations_keep_stats_in_bounds [OF this] show ?thesis
    by (rule conjI)
qed

subsection \<open>The damage formula never returns less than 1\<close>

lemma py_int_ge_one: "1 \<le> x \<Longrightarrow> 1 \<le> py_int x"
  by (simp add: py_int_def le_floor_iff)

lemma crit_keeps_positive: "1 \<le> d \<Longrightarrow> 1 \<le> py_int (of_int d * 3 / 2)"
proof -
  assume "1 \<le> d"
  then have "(1::rat) \<le> of_int d" by simp
  then have "(1::rat) \<le> of_int d * 3 / 2" by simp
  then show ?thesis by (rule py_int_ge_one)
qed

text \<open>
  Claim C3. For all statistics of attacker and defender (any sign, any size), with or
  without a skill and for every sequence of random draws, \<^verbatim>\<open>calc_damage\<close> returns at
  least 1: the mitigation is subtracted under \<open>max 1\<close>, a critical hit multiplies a value
  that is already at least 1 by 1.5 and truncates, and a block halves under \<open>max 1\<close>
  again.
\<close>

theorem calc_damage_at_least_one: "1 \<le> fst (calc_damage attacker defender skill r)"
  by (simp add: calc_damage_def Let_def crit_keeps_positive split: prod.splits)

subsection \<open>Equipping and unequipping\<close>

lemma bonus_Nil [simp]: "bonus k [] = 0" by (simp add: bonus_def)
lemma bonus_Cons [simp]: "bonus k ((k', v) # b) = (if k' = k then v else 0) + bonus k b"
  by (simp add: bonus_def)
lemma bonus_append [simp]: "bonus k (a @ b) = bonus k a + bonus k b"
  by (simp add: bonus_def)
lemma bonus_negated [simp]: "bonus k (negated b) = - bonus k b"
  by (induction b) (auto simp: negated_def)

lemma shifted_Nil [simp]: "shifted [] s = s"
  by (simp add: shifted_def)

lemma stat_key_cases:
  "k \<in> set stat_keys \<Longrightarrow>
   k = ''lvl'' \<or> k = ''exp'' \<or> k = ''hp'' \<or> k = ''hp_max'' \<or> k = ''mp'' \<or> k = ''mp_max'' \<or>
   k = ''str'' \<or> k = ''int_'' \<or> k = ''agi'' \<or> k = ''def_'' \<or> k = ''gold''"
  by (simp add: stat_keys_def)

lemma shifted_step:
  assumes "k \<in> set stat_keys"
  shows "\<exists>c. getattr s k = Some c \<and> shifted b (setattr s k (c + v)) = shifted ((k, v) # b) s"
  using stat_key_cases [OF assms]
  by (elim disjE) (simp_all add: getattr_def setattr_def shifted_def)

lemma add_deltas_shifted:
  "set (map fst b) \<subseteq> set stat_keys \<Longrightarrow> add_deltas b s = Inr (shifted b s)"
proof (induction b arbitrary: s)
  case Nil
  show ?case by simp
next
  case (Cons kv b)
  obtain k v where kv: "kv = (k, v)" by (cases kv)
  from Cons.prems kv have k: "k \<in> set stat_keys" and rest: "set (map fst b) \<subseteq> set stat_keys"
    by auto
  from shifted_step[OF k] obtain c where c: "getattr s k = Some c"
    and step: "shifted b (setattr s k (c + v)) = shifted ((k, v) # b) s" by blast
  from Cons.IH[OF rest] kv c step show ?case by simp
qed


lemma clamp_hp_mp_id: "stats_ok s \<Longrightarrow> clamp_hp_mp s = s"
  by (simp add: stats_ok_def clamp_hp_mp_def clamp_def Let_def)

lemma unclamped_clamp [simp]: "unclamped (clamp_hp_mp s) = unclamped s"
  by (simp add: unclamped_def clamp_hp_mp_def Let_def)

lemma keys_negated [simp]: "map fst (negated b) = map fst b"
  by (induction b) (simp_all add: negated_def split: prod.splits)

lemma shifted_negated [simp]: "shifted (negated b) (shifted b s) = s"
  by (simp add: shifted_def)

lemma shifted_append: "shifted (a @ b) s = shifted b (shifted a s)"
  by (simp add: shifted_def)

lemma unclamped_shifted: "unclamped (shifted b s) = unclamped (shifted b (unclamped s))"
  by (simp add: shifted_def unclamped_def)

lemma shifted_cong:
  "(\<And>k. bonus k a = bonus k b) \<Longrightarrow> shifted a s = shifted b s"
  by (simp add: shifted_def)

lemma apply_delta_valid:
  "set (map fst b) \<subseteq> set stat_keys \<Longrightarrow> apply_delta b s = Inr (clamp_hp_mp (shifted b s))"
  by (simp add: apply_delta_def add_deltas_shifted)

lemma equip_then_unequip_restores:
  assumes empty: "map_of (equipment p) (slot e) = None"
    and keys: "valid_bonus_keys e"
    and ok0: "stats_ok (stats p)"
    and ok1: "stats_ok (shifted (stat_bonuses e) (stats p))"
  shows "\<exists>p1. equip e p = Inr (p1, None) \<and> unequip (slot e) p1 = Inr (p, Some e)"
proof -
  let ?b = "stat_bonuses e"
  let ?p1 = "p\<lparr>equipment := AList.update (slot e) e (equipment p),
                stats := shifted ?b (stats p)\<rparr>"
  from keys have k: "set (map fst ?b) \<subseteq> set stat_keys"
    by (simp add: valid_bonus_keys_def)
  have e1: "equip e p = Inr (?p1, None)"
    using empty ok1 by (simp add: equip_def apply_delta_valid [OF k] clamp_hp_mp_id)
  from empty have notin: "slot e \<notin> fst ` set (equipment p)"
    by (simp add: map_of_eq_None_iff)
  have del: "AList.delete (slot e) (AList.update (slot e) e (equipment p)) = equipment p"
    using notin by (simp add: delete_update_same)
  have look: "map_of (AList.update (slot e) e (equipment p)) (slot e) = Some e"
    by (simp add: update_conv')
  from k have k': "set (map fst (negated ?b)) \<subseteq> set stat_keys" by simp
  have "unequip (slot e) ?p1 = Inr (p, Some e)"
    using ok0 by (simp add: unequip_def look del apply_delta_valid [OF k'] clamp_hp_mp_id)
  with e1 show ?thesis by blast
qed


lemma unclamped_shifted_cong:
  "unclamped s = unclamped t \<Longrightarrow> unclamped (shifted b s) = unclamped (shifted b t)"
  by (cases s; cases t) (simp add: unclamped_def shifted_def)

lemma unclamped_apply:
  "unclamped (clamp_hp_mp (shifted b s)) = unclamped (shifted b (unclamped s))"
  using unclamped_shifted [of b s] by simp

lemma bonus_equipped_update:
  "bonus k (equipped_bonuses (AList.update sl e al)) =
   bonus k (equipped_bonuses al)
     - (case map_of al sl of None \<Rightarrow> 0 | Some prev \<Rightarrow> bonus k (stat_bonuses prev))
     + bonus k (stat_bonuses e)"
  by (induction al) (auto simp: equipped_bonuses_def)

lemma bonus_equipped_delete:
  "distinct (map fst al) \<Longrightarrow>
   bonus k (equipped_bonuses (AList.delete sl al)) =
   bonus k (equipped_bonuses al)
     - (case map_of al sl of None \<Rightarrow> 0 | Some prev \<Rightarrow> bonus k (stat_bonuses prev))"
proof (induction al)
  case Nil
  show ?case by (simp add: equipped_bonuses_def)
next
  case (Cons a al)
  obtain sl' e' where a: "a = (sl', e')" by (cases a)
  show ?case
  proof (cases "sl' = sl")
    case True
    with Cons.prems a have "sl \<notin> fst ` set al" by auto
    then have "AList.delete sl al = al" by simp
    with True a show ?thesis by (simp add: equipped_bonuses_def)
  next
    case False
    with Cons a show ?thesis by (simp add: equipped_bonuses_def)
  qed
qed

lemma valid_keys_lookup:
  "list_all (\<lambda>se. valid_bonus_keys (snd se)) al \<Longrightarrow> map_of al sl = Some e \<Longrightarrow>
   valid_bonus_keys e"
  by (induction al) (auto split: if_splits)

lemma list_all_update:
  "list_all P al \<Longrightarrow> P (k, v) \<Longrightarrow> list_all P (AList.update k v al)"
  by (induction al) auto

lemma list_all_delete: "list_all P al \<Longrightarrow> list_all P (AList.delete k al)"
  by (induction al) auto

lemma equip_keeps_inv:
  assumes inv: "equip_inv s0 p" and keys: "valid_bonus_keys e"
  shows "\<exists>p' prev. equip e p = Inr (p', prev) \<and> equip_inv s0 p'"
proof -
  let ?al = "equipment p" and ?b = "stat_bonuses e"
  from keys have k: "set (map fst ?b) \<subseteq> set stat_keys"
    by (simp add: valid_bonus_keys_def)
  from inv have d: "distinct (map fst ?al)"
    and v: "list_all (\<lambda>se. valid_bonus_keys (snd se)) ?al"
    and u: "unclamped (stats p) = unclamped (shifted (equipped_bonuses ?al) s0)"
    by (simp_all add: equip_inv_def)
  have d': "distinct (map fst (AList.update (slot e) e ?al))"
    using d by (rule distinct_update)
  have v': "list_all (\<lambda>se. valid_bonus_keys (snd se)) (AList.update (slot e) e ?al)"
    using v keys by (simp add: list_all_update)
  show ?thesis
  proof (cases "map_of ?al (slot e)")
    case None
    let ?s2 = "clamp_hp_mp (shifted ?b (stats p))"
    have eq: "equip e p = Inr (p\<lparr>equipment := AList.update (slot e) e ?al, stats := ?s2\<rparr>, None)"
      using None by (simp add: equip_def apply_delta_valid [OF k])
    have "unclamped ?s2 = unclamped (shifted ?b (shifted (equipped_bonuses ?al) s0))"
      using unclamped_shifted_cong [OF u, of ?b] unclamped_shifted [of ?b "stats p"] by simp
    also have "shifted ?b (shifted (equipped_bonuses ?al) s0) =
        shifted (equipped_bonuses (AList.update (slot e) e ?al)) s0"
      using None by (simp add: shifted_def bonus_equipped_update)
    finally show ?thesis using eq d' v' by (simp add: equip_inv_def)
  next
    case (Some prev)
    let ?n = "negated (stat_bonuses prev)"
    from valid_keys_lookup [OF v Some] have "valid_bonus_keys prev" .
    then have kp: "set (map fst ?n) \<subseteq> set stat_keys"
      by (simp add: valid_bonus_keys_def)
    let ?s1 = "clamp_hp_mp (shifted ?n (stats p))"
    let ?s2 = "clamp_hp_mp (shifted ?b ?s1)"
    have eq: "equip e p =
        Inr (p\<lparr>equipment := AList.update (slot e) e ?al, stats := ?s2\<rparr>, Some prev)"
      using Some by (simp add: equip_def apply_delta_valid [OF k] apply_delta_valid [OF kp])
    have "unclamped ?s1 = unclamped (shifted ?n (shifted (equipped_bonuses ?al) s0))"
      using unclamped_shifted_cong [OF u, of ?n] unclamped_shifted [of ?n "stats p"] by simp
    then have "unclamped ?s2 =
        unclamped (shifted ?b (shifted ?n (shifted (equipped_bonuses ?al) s0)))"
      using unclamped_shifted_cong [of ?s1 _ ?b] unclamped_shifted [of ?b ?s1] by simp
    also have "shifted ?b (shifted ?n (shifted (equipped_bonuses ?al) s0)) =
        shifted (equipped_bonuses (AList.update (slot e) e ?al)) s0"
      using Some by (simp add: shifted_def bonus_equipped_update)
    finally show ?thesis using eq d' v' by (simp add: equip_inv_def)
  qed
qed

lemma unequip_keeps_inv:
  assumes inv: "equip_inv s0 p"
  shows "\<exists>p' out. unequip sl p = Inr (p', out) \<and> equip_inv s0 p'"
proof -
  let ?al = "equipment p"
  from inv have d: "distinct (map fst ?al)"
    and v: "list_all (\<lambda>se. valid_bonus_keys (snd se)) ?al"
    and u: "unclamped (stats p) = unclamped (shifted (equipped_bonuses ?al) s0)"
    by (simp_all add: equip_inv_def)
  show ?thesis
  proof (cases "map_of ?al sl")
    case None
    then have "unequip sl p = Inr (p, None)" by (simp add: unequip_def)
    with inv show ?thesis by blast
  next
    case (Some e)
    let ?n = "negated (stat_bonuses e)"
    from valid_keys_lookup [OF v Some] have "valid_bonus_keys e" .
    then have kp: "set (map fst ?n) \<subseteq> set stat_keys"
      by (simp add: valid_bonus_keys_def)
    let ?s1 = "clamp_hp_mp (shifted ?n (stats p))"
    have eq: "unequip sl p = Inr (p\<lparr>equipment := AList.delete sl ?al, stats := ?s1\<rparr>, Some e)"
      using Some by (simp add: unequip_def apply_delta_valid [OF kp])
    have d': "distinct (map fst (AList.delete sl ?al))"
      using d by (rule distinct_delete)
    have v': "list_all (\<lambda>se. valid_bonus_keys (snd se)) (AList.delete sl ?al)"
      using v by (rule list_all_delete)
    have "unclamped ?s1 = unclamped (shifted ?n (shifted (equipped_bonuses ?al) s0))"
      using unclamped_shifted_cong [OF u, of ?n] unclamped_shifted [of ?n "stats p"] by simp
    also have "shifted ?n (shifted (equipped_bonuses ?al) s0) =
        shifted (equipped_bonuses (AList.delete sl ?al)) s0"
      using Some by (simp add: shifted_def bonus_equipped_delete [OF d])
    finally show ?thesis using eq d' v' by (simp add: equip_inv_def)
  qed
qed

lemma run_equip_ops_inv:
  "equip_inv s0 p \<Longrightarrow> list_all op_valid ops \<Longrightarrow>
   \<exists>q. run_equip_ops p ops = Inr q \<and> equip_inv s0 q"
proof (induction ops arbitrary: p)
  case Nil
  then show ?case by simp
next
  case (Cons a ops)
  show ?case
  proof (cases a)
    case (Equip e)
    with Cons.prems have "valid_bonus_keys e" by simp
    from equip_keeps_inv [OF Cons.prems(1) this]
    obtain p' prev where "equip e p = Inr (p', prev)" and "equip_inv s0 p'" by blast
    with Cons.IH [of p'] Cons.prems(2) Equip show ?thesis by simp
  next
    case (Unequip sl)
    from unequip_keeps_inv [OF Cons.prems(1), of sl]
    obtain p' out where "unequip sl p = Inr (p', out)" and "equip_inv s0 p'" by blast
    with Cons.IH [of p'] Cons.prems(2) Unequip show ?thesis by simp
  qed
qed

text \<open>
  Three pieces of the shop's catalogue (\<^verbatim>\<open>build_shop_stock\<close>) and the level-1 warrior of
  \<^verbatim>\<open>BASE_STATS\<close>, for the examples below.
\<close>

definition espada_de_bronce :: Equipment where
  "espada_de_bronce = \<lparr>eq_name = ''Espada de Bronce'',
     eq_description = ''Espada equilibrada para guerreros'', slot = ''weapon'',
     stat_bonuses = [(''str'', 3)], eq_price = 22\<rparr>"

definition baston_robusto :: Equipment where
  "baston_robusto = \<lparr>eq_name = ''Baston Robusto'',
     eq_description = ''Aumenta el poder magico'', slot = ''weapon'',
     stat_bonuses = [(''int_'', 3)], eq_price = 20\<rparr>"

definition amuleto_de_mana :: Equipment where
  "amuleto_de_mana = \<lparr>eq_name = ''Amuleto de Mana'',
     eq_description = ''Aumenta tu reserva de magia'', slot = ''accessory'',
     stat_bonuses = [(''mp_max'', 6)], eq_price = 26\<rparr>"

definition sample_warrior :: Player where
  "sample_warrior = \<lparr>name = ''Comprador'', class_type = WARRIOR,
     stats = \<lparr>lvl = 1, exp' = 0, hp = 50, hp_max = 50, mp = 15, mp_max = 15, str = 10,
       int' = 5, agi = 7, def' = 8, gold = 30\<rparr>,
     skills = [], inventory = [], equipment = [], status_effects = [], quests = [],
     position = (4, 4)\<rparr>"

text \<open>
  Claim C7 as stated fails when the slot is occupied: \<^verbatim>\<open>equip\<close> takes the previous
  item's bonuses off and drops the item, so unequipping the new item afterwards leaves
  the statistics without either bonus. The warrior carrying the bronze sword
  (strength \<open>10 + 3\<close>) equips the staff into the same slot and unequips it: strength is
  10, not the 13 it was before the staff was equipped.
\<close>

theorem equip_unequip_counterexample:
  "(case equip espada_de_bronce sample_warrior of
      Inl err \<Rightarrow> False
    | Inr (p, prev0) \<Rightarrow>
        (case equip baston_robusto p of
           Inl err \<Rightarrow> False
         | Inr (p1, prev1) \<Rightarrow>
             (case unequip (slot baston_robusto) p1 of
                Inl err \<Rightarrow> False
              | Inr (p2, out) \<Rightarrow>
                  prev1 = Some espada_de_bronce \<and> str (stats p) = 13 \<and>
                  str (stats p2) = 10 \<and> stats p2 \<noteq> stats p)))"
  by (simp add: equip_def unequip_def apply_delta_def clamp_hp_mp_def clamp_def negated_def
      getattr_def setattr_def espada_de_bronce_def baston_robusto_def sample_warrior_def
      Let_def)

text \<open>
  Claim C7, amended. (1) Equipping a piece into an empty slot and unequipping that slot
  at once gives back the player exactly as it was (every statistic, current health and
  mana included, and the equipment), provided the bonus keys name fields of the
  statistics and the clamp of health and mana is idle: health and mana are within
  \<open>[0, maximum]\<close> before the equip and with the bonuses added. (2) After any sequence of
  equip and unequip operations on a player that starts without equipment, every
  statistic other than current health and mana is the starting value plus the sum of
  the bonuses of the pieces equipped at the end; health and mana are clamped to
  \<open>[0, maximum]\<close> after every operation instead.
\<close>

theorem equip_unequip_amended:
  "(map_of (equipment p) (slot e) = None \<and> valid_bonus_keys e \<and> stats_ok (stats p) \<and>
    stats_ok (shifted (stat_bonuses e) (stats p))
      \<longrightarrow> (\<exists>p1. equip e p = Inr (p1, None) \<and> unequip (slot e) p1 = Inr (p, Some e))) \<and>
   (equipment p0 = [] \<and> list_all op_valid ops
      \<longrightarrow> (\<exists>q. run_equip_ops p0 ops = Inr q \<and>
             unclamped (stats q) =
               unclamped (shifted (equipped_bonuses (equipment q)) (stats p0))))"
proof (intro conjI impI)
  assume "map_of (equipment p) (slot e) = None \<and> valid_bonus_keys e \<and> stats_ok (stats p) \<and>
    stats_ok (shifted (stat_bonuses e) (stats p))"
  then show "\<exists>p1. equip e p = Inr (p1, None) \<and> unequip (slot e) p1 = Inr (p, Some e)"
    by (simp add: equip_then_unequip_restores)
next
  assume a: "equipment p0 = [] \<and> list_all op_valid ops"
  then have "equip_inv (stats p0) p0"
    by (simp add: equip_inv_def equipped_bonuses_def)
  with a obtain q where "run_equip_ops p0 ops = Inr q" and "equip_inv (stats p0) q"
    using run_equip_ops_inv by blast
  then show "\<exists>q. run_equip_ops p0 ops = Inr q \<and>
      unclamped (stats q) = unclamped (shifted (equipped_bonuses (equipment q)) (stats p0))"
    by (simp add: equip_inv_def)
qed

text \<open>
  The warrior equips the mana amulet (its accessory slot is empty) and takes it off
  again; and the warrior goes through: sword, staff (same slot), amulet, amulet off.
\<close>

theorem equip_unequip_amended_witness:
  "(map_of (equipment sample_warrior) (slot amuleto_de_mana) = None \<and>
    valid_bonus_keys amuleto_de_mana \<and> stats_ok (stats sample_warrior) \<and>
    stats_ok (shifted (stat_bonuses amuleto_de_mana) (stats sample_warrior))) \<and>
   (\<exists>p1. equip amuleto_de_mana sample_warrior = Inr (p1, None) \<and>
      unequip (slot amuleto_de_mana) p1 = Inr (sample_warrior, Some amuleto_de_mana)) \<and>
   (equipment sample_warrior = [] \<and>
    list_all op_valid [Equip espada_de_bronce, Equip baston_robusto, Equip amuleto_de_mana,
      Unequip ''accessory'']) \<and>
   (\<exists>q. run_equip_ops sample_warrior [Equip espada_de_bronce, Equip baston_robusto,
        Equip amuleto_de_mana, Unequip ''accessory''] = Inr q \<and>
      unclamped (stats q) =
        unclamped (shifted (equipped_bonuses (equipment q)) (stats sample_warrior)))"
proof -
  have h1: "map_of (equipment sample_warrior) (slot amuleto_de_mana) = None \<and>
    valid_bonus_keys amuleto_de_mana \<and> stats_ok (stats sample_warrior) \<and>
    stats_ok (shifted (stat_bonuses amuleto_de_mana) (stats sample_warrior))"
    by (simp add: sample_warrior_def amuleto_de_mana_def valid_bonus_keys_def stat_keys_def
        stats_ok_def shifted_def)
  have h2: "equipment sample_warrior = [] \<and>
    list_all op_valid [Equip espada_de_bronce, Equip baston_robusto, Equip amuleto_de_mana,
      Unequip ''accessory'']"
    by (simp add: sample_warrior_def espada_de_bronce_def baston_robusto_def
        amuleto_de_mana_def valid_bonus_keys_def stat_keys_def)
  note inst = equip_unequip_amended [of sample_warrior amuleto_de_mana sample_warrior
      "[Equip espada_de_bronce, Equip baston_robusto, Equip amuleto_de_mana,
        Unequip ''accessory'']"]
  from inst h1 have c1: "\<exists>p1. equip amuleto_de_mana sample_warrior = Inr (p1, None) \<and>
      unequip (slot amuleto_de_mana) p1 = Inr (sample_warrior, Some amuleto_de_mana)"
    by blast
  from inst h2 have c2: "\<exists>q. run_equip_ops sample_warrior [Equip espada_de_bronce,
        Equip baston_robusto, Equip amuleto_de_mana, Unequip ''accessory''] = Inr q \<and>
      unclamped (stats q) =
        unclamped (shifted (equipped_bonuses (equipment q)) (stats sample_warrior))"
    by blast
  from h1 c1 h2 c2 show ?thesis by blast
qed

subsection \<open>The day counter\<close>

text \<open>
  Rebuilding the quest board and the shop's stock writes the board, the stock and the
  generator only.
\<close>

lemma refresh_quest_board_frame [simp]:
  "day (refresh_quest_board g) = day g" "turn_count (refresh_quest_board g) = turn_count g"
  "player (refresh_quest_board g) = player g" "game_map (refresh_quest_board g) = game_map g"
  "discovered (refresh_quest_board g) = discovered g" "state (refresh_quest_board g) = state g"
  "testing (refresh_quest_board g) = testing g"
  "start_position (refresh_quest_board g) = start_position g"
  "current_enemy (refresh_quest_board g) = current_enemy g"
  "player_guard_active (refresh_quest_board g) = player_guard_active g"
  "shop_stock (refresh_quest_board g) = shop_stock g"
  "save_file (refresh_quest_board g) = save_file g" "stdin (refresh_quest_board g) = stdin g"
  "reports (refresh_quest_board g) = reports g"
  by (simp_all add: refresh_quest_board_def Let_def split: prod.splits)

lemma build_shop_stock_frame [simp]:
  "day (build_shop_stock g) = day g" "turn_count (build_shop_stock g) = turn_count g"
  "player (build_shop_stock g) = player g" "game_map (build_shop_stock g) = game_map g"
  "discovered (build_shop_stock g) = discovered g" "state (build_shop_stock g) = state g"
  "testing (build_shop_stock g) = testing g"
  "start_position (build_shop_stock g) = start_position g"
  "current_enemy (build_shop_stock g) = current_enemy g"
  "player_guard_active (build_shop_stock g) = player_guard_active g"
  "quest_board (build_shop_stock g) = quest_board g"
  "save_file (build_shop_stock g) = save_file g" "stdin (build_shop_stock g) = stdin g"
  "reports (build_shop_stock g) = reports g"
  by (simp_all add: build_shop_stock_def Let_def split: prod.splits)

lemma advance_time_frame [simp]:
  "player (advance_time n g) = player g" "game_map (advance_time n g) = game_map g"
  "discovered (advance_time n g) = discovered g" "state (advance_time n g) = state g"
  "testing (advance_time n g) = testing g"
  "start_position (advance_time n g) = start_position g"
  "current_enemy (advance_time n g) = current_enemy g"
  "player_guard_active (advance_time n g) = player_guard_active g"
  "save_file (advance_time n g) = save_file g" "stdin (advance_time n g) = stdin g"
  "reports (advance_time n g) = reports g"
  by (simp_all add: advance_time_def Let_def)

lemma advance_time_counters:
  "turn_count (advance_time n g) = turn_count g + n"
  "day (advance_time n g) = (if (turn_count g + n) mod 6 = 0 then day g + 1 else day g)"
  by (simp_all add: advance_time_def Let_def)

lemma advance_time_rollover:
  "(turn_count g + n) mod 6 = 0 \<Longrightarrow>
   advance_time n g =
     build_shop_stock (refresh_quest_board (g\<lparr>turn_count := turn_count g + n, day := day g + 1\<rparr>))"
  by (simp add: advance_time_def Let_def)

text \<open>
  Claim C6 fails on the code. \<^verbatim>\<open>advance_time\<close> adds the steps to the turn counter
  and starts a new day only if the counter is then a multiple of 6, so an advance of
  2 or 3 turns that jumps over a multiple of 6 starts no day. From day 1, turn 0: five
  moves (1 turn each) and a rest at the inn (2 turns) give turn 7 on day 1, where one
  period of 6 turns is complete and the claim wants day 2. The message of the quest
  menu, which calls refreshing the board (3 turns) "half a day", says what was meant.
\<close>

theorem advance_time_misses_rollover:
  "turn_count (advance_all [1, 1, 1, 1, 1, 2] (g\<lparr>day := 1, turn_count := 0\<rparr>)) = 7 \<and>
   day (advance_all [1, 1, 1, 1, 1, 2] (g\<lparr>day := 1, turn_count := 0\<rparr>)) = 1"
  by (simp add: advance_time_counters)

subsection \<open>Movement stays on the grid\<close>

lemma in_grid_cells: "pos \<in> set (grid_cells n) \<longleftrightarrow> 0 \<le> fst pos \<and> fst pos \<le> n - 1 \<and> 0 \<le> snd pos \<and> snd pos \<le> n - 1"
  by (cases pos) (auto simp: grid_cells_def image_iff)

lemma on_grid_cells: "on_grid pos \<longleftrightarrow> pos \<in> set (grid_cells map_size)"
  by (simp add: on_grid_def in_grid_cells)

lemma covers_gridD: "covers_grid m \<Longrightarrow> on_grid pos \<Longrightarrow> \<exists>l. map_of m pos = Some l"
proof -
  assume "covers_grid m" and "on_grid pos"
  then have "pos \<in> fst ` set m" by (auto simp: covers_grid_def on_grid_cells)
  then have "map_of m pos \<noteq> None" by (simp add: map_of_eq_None_iff)
  then show ?thesis by blast
qed

lemma mark_discovered_keys:
  "mark_discovered pos m = Inr m' \<Longrightarrow> fst ` set m' = fst ` set m"
proof -
  assume a: "mark_discovered pos m = Inr m'"
  then obtain l where l: "map_of m pos = Some l"
    and m': "m' = AList.update pos (l\<lparr>loc_discovered := True\<rparr>) m"
    by (auto simp: mark_discovered_def split: option.splits)
  from l have "pos \<in> fst ` set m"
    by (metis map_of_eq_None_iff option.distinct(1))
  with m' show ?thesis by (simp add: dom_update insert_absorb)
qed

lemma clamp_step_on_grid:
  "0 \<le> v \<Longrightarrow> v \<le> map_size - 1 \<Longrightarrow>
   0 \<le> clamp (v + d) 0 (map_size - 1) \<and> clamp (v + d) 0 (map_size - 1) \<le> map_size - 1"
  by (simp add: clamp_def map_size_def)

lemma fold_init_cell_keys:
  "fst ` set (game_map (fold (init_cell c) cells g)) = set cells \<union> fst ` set (game_map g)"
  by (induction cells arbitrary: g) (auto simp: init_cell_def Let_def dom_update)

lemma fold_init_cell_frame:
  "start_position (fold (init_cell c) cells g) = start_position g"
  "player (fold (init_cell c) cells g) = player g"
  by (induction cells arbitrary: g) (simp_all add: init_cell_def Let_def)

lemma init_map_covers:
  assumes "on_grid (start_position g)"
  shows "\<exists>g'. init_map g = Inr g' \<and> covers_grid (game_map g') \<and> player g' = player g
     \<and> start_position g' = start_position g"
proof -
  let ?g1 = "fold (init_cell (map_size div 2)) (grid_cells map_size) g"
  have keys: "fst ` set (game_map ?g1) = set (grid_cells map_size) \<union> fst ` set (game_map g)"
    by (rule fold_init_cell_keys)
  then have cov: "covers_grid (game_map ?g1)" by (simp add: covers_grid_def)
  have sp: "start_position ?g1 = start_position g" by (rule fold_init_cell_frame)
  with assms have "on_grid (start_position ?g1)" by simp
  from covers_gridD [OF cov this] obtain l where l: "map_of (game_map ?g1) (start_position ?g1) = Some l"
    by blast
  show ?thesis
  proof (cases "start_position ?g1 \<in> set (discovered ?g1)")
    case True
    then have "init_map g = Inr ?g1" by (simp add: init_map_def Let_def)
    with cov sp show ?thesis by (simp add: fold_init_cell_frame)
  next
    case False
    let ?m = "AList.update (start_position ?g1) (l\<lparr>loc_discovered := True\<rparr>) (game_map ?g1)"
    from False l have "init_map g = Inr (?g1\<lparr>discovered := discovered ?g1 @ [start_position ?g1], game_map := ?m\<rparr>)"
      by (simp add: init_map_def Let_def mark_discovered_def)
    moreover have "covers_grid ?m" using cov by (auto simp: covers_grid_def dom_update)
    ultimately show ?thesis using sp by (simp add: fold_init_cell_frame)
  qed
qed

lemma new_game_covers:
  "\<exists>g. new_game tst r file inp = Inr g \<and> covers_grid (game_map g) \<and> player g = None \<and>
     start_position g = (4, 4)"
proof -
  let ?g0 = "\<lparr>testing = tst, rng = r, state = MAIN_MENU, player = None, game_map = [],
         discovered = [], start_position = (map_size div 2, map_size div 2),
         current_enemy = None, player_guard_active = False, day = 1, turn_count = 0,
         quest_board = [], shop_stock = [], save_file = file, stdin = inp, reports = []\<rparr>"
  have "on_grid (start_position ?g0)" by (simp add: on_grid_def map_size_def)
  from init_map_covers [OF this] obtain g' where "init_map ?g0 = Inr g'"
    and "covers_grid (game_map g')" and "player g' = None" and "start_position g' = (4, 4)"
    by (auto simp: map_size_def)
  then show ?thesis by (simp add: new_game_def)
qed

text \<open>
  Claim C9. From a position on the grid, on a map that has every cell of the grid (as
  the one \<^verbatim>\<open>_init_map\<close> builds: \<open>new_game_covers\<close>), each of the four moves returns
  without an exception, the new position is on the grid and is a cell of the map, and
  the map still has every cell. The new position is the old one with the coordinate of
  the direction moved by one and held at the edge: at \<open>y = 0\<close> a move north gives
  \<open>max 0 (- 1) = 0\<close>, the same coordinate, and likewise at the other three edges.
\<close>

theorem move_player_stays_on_grid:
  assumes pl: "player g = Some p" and pos: "on_grid (position p)"
    and cov: "covers_grid (game_map g)"
    and dir: "direction = ''n'' \<or> direction = ''s'' \<or> direction = ''e'' \<or> direction = ''o''"
  shows "\<exists>g' p'. move_player direction g = Inr g' \<and> player g' = Some p' \<and>
      on_grid (position p') \<and> covers_grid (game_map g') \<and>
      map_of (game_map g') (position p') \<noteq> None \<and>
      position p' =
        (if direction = ''n'' then (fst (position p), max 0 (snd (position p) - 1))
         else if direction = ''s'' then (fst (position p), min (map_size - 1) (snd (position p) + 1))
         else if direction = ''e'' then (min (map_size - 1) (fst (position p) + 1), snd (position p))
         else (max 0 (fst (position p) - 1), snd (position p)))"
proof -
  let ?x0 = "fst (position p)" and ?y0 = "snd (position p)"
  define y where "y = (if direction = ''n'' then clamp (?y0 - 1) 0 (map_size - 1)
      else if direction = ''s'' then clamp (?y0 + 1) 0 (map_size - 1) else ?y0)"
  define x where "x = (if direction = ''n'' \<or> direction = ''s'' then ?x0
      else if direction = ''e'' then clamp (?x0 + 1) 0 (map_size - 1)
      else if direction = ''o'' then clamp (?x0 - 1) 0 (map_size - 1) else ?x0)"
  define g1 where "g1 = g\<lparr>player := Some (p\<lparr>position := (x, y)\<rparr>)\<rparr>"
  from pos have b: "0 \<le> ?x0" "?x0 \<le> map_size - 1" "0 \<le> ?y0" "?y0 \<le> map_size - 1"
    by (simp_all add: on_grid_def)
  have og: "on_grid (x, y)"
    using b clamp_step_on_grid [of ?x0 1] clamp_step_on_grid [of ?x0 "-1"]
      clamp_step_on_grid [of ?y0 1] clamp_step_on_grid [of ?y0 "-1"]
    by (simp add: on_grid_def x_def y_def)
  from covers_gridD [OF cov og] obtain l where l: "map_of (game_map g) (x, y) = Some l" by blast
  have formula: "(x, y) =
        (if direction = ''n'' then (?x0, max 0 (?y0 - 1))
         else if direction = ''s'' then (?x0, min (map_size - 1) (?y0 + 1))
         else if direction = ''e'' then (min (map_size - 1) (?x0 + 1), ?y0)
         else (max 0 (?x0 - 1), ?y0))"
    using dir b by (auto simp: x_def y_def clamp_def map_size_def)
  show ?thesis
  proof (cases "(x, y) \<in> set (discovered g)")
    case True
    have "move_player direction g = Inr (advance_time 1 g1)"
      using pl True l by (simp add: move_player_def Let_def x_def y_def g1_def)
    moreover have "player (advance_time 1 g1) = Some (p\<lparr>position := (x, y)\<rparr>)"
      by (simp add: g1_def)
    moreover have "game_map (advance_time 1 g1) = game_map g"
      by (simp add: g1_def)
    ultimately show ?thesis using og cov l formula by simp
  next
    case False
    let ?m = "AList.update (x, y) (l\<lparr>loc_discovered := True\<rparr>) (game_map g)"
    let ?g2 = "g1\<lparr>discovered := discovered g1 @ [(x, y)], game_map := ?m\<rparr>"
    have md: "mark_discovered (x, y) (game_map g) = Inr ?m"
      using l by (simp add: mark_discovered_def)
    have look: "map_of ?m (x, y) = Some (l\<lparr>loc_discovered := True\<rparr>)"
      by (simp add: update_conv')
    have "move_player direction g = Inr (advance_time 1 ?g2)"
      using pl False md look by (simp add: move_player_def Let_def x_def y_def g1_def)
    moreover have "player (advance_time 1 ?g2) = Some (p\<lparr>position := (x, y)\<rparr>)"
      by (simp add: g1_def)
    moreover have "game_map (advance_time 1 ?g2) = ?m"
      by (simp add: g1_def)
    moreover have "covers_grid ?m"
      using cov by (auto simp: covers_grid_def dom_update)
    ultimately show ?thesis using og look formula by simp
  qed
qed

text \<open>
  On the map of a new game: the warrior at the centre \<open>(4, 4)\<close> moves north to
  \<open>(4, 3)\<close>, and the warrior in the corner \<open>(0, 0)\<close> moves west and stays at \<open>(0, 0)\<close>.
\<close>

theorem move_player_stays_on_grid_witness:
  "\<exists>g. new_game True (\<lambda>n. 0) NoFile [] = Inr g \<and>
     on_grid (position sample_warrior) \<and> covers_grid (game_map g) \<and>
     (\<exists>g' p'. move_player ''n'' (g\<lparr>player := Some sample_warrior\<rparr>) = Inr g' \<and>
        player g' = Some p' \<and> on_grid (position p') \<and> covers_grid (game_map g') \<and>
        map_of (game_map g') (position p') \<noteq> None \<and> position p' = (4, 3)) \<and>
     (\<exists>g' p'. move_player ''o'' (g\<lparr>player := Some (sample_warrior\<lparr>position := (0, 0)\<rparr>)\<rparr>) = Inr g' \<and>
        player g' = Some p' \<and> on_grid (position p') \<and> covers_grid (game_map g') \<and>
        map_of (game_map g') (position p') \<noteq> None \<and> position p' = (0, 0))"
proof -
  from new_game_covers [of True "\<lambda>n. 0" NoFile "[]"]
  obtain g where g: "new_game True (\<lambda>n. 0) NoFile [] = Inr g" and cov: "covers_grid (game_map g)"
    by blast
  have og: "on_grid (position sample_warrior)"
    by (simp add: sample_warrior_def on_grid_def map_size_def)
  have og0: "on_grid (position (sample_warrior\<lparr>position := (0, 0)\<rparr>))"
    by (simp add: on_grid_def map_size_def)
  have n: "\<exists>g' p'. move_player ''n'' (g\<lparr>player := Some sample_warrior\<rparr>) = Inr g' \<and>
        player g' = Some p' \<and> on_grid (position p') \<and> covers_grid (game_map g') \<and>
        map_of (game_map g') (position p') \<noteq> None \<and> position p' = (4, 3)"
    using move_player_stays_on_grid [of "g\<lparr>player := Some sample_warrior\<rparr>" sample_warrior "''n''"]
      og cov by (simp add: sample_warrior_def)
  have w: "\<exists>g' p'. move_player ''o'' (g\<lparr>player := Some (sample_warrior\<lparr>position := (0, 0)\<rparr>)\<rparr>) = Inr g' \<and>
        player g' = Some p' \<and> on_grid (position p') \<and> covers_grid (game_map g') \<and>
        map_of (game_map g') (position p') \<noteq> None \<and> position p' = (0, 0)"
    using move_player_stays_on_grid [of "g\<lparr>player := Some (sample_warrior\<lparr>position := (0, 0)\<rparr>)\<rparr>"
        "sample_warrior\<lparr>position := (0, 0)\<rparr>" "''o''"] og0 cov by simp
  from g og cov n w show ?thesis by blast
qed

subsection \<open>Loading a game\<close>

lemma bind_r_simps [simp]: "bind_r (Inr x) f = f x" "bind_r (Inl err) f = Inl err"
  by (simp_all add: bind_r_def)

text \<open>
  The two failures that \<^verbatim>\<open>load_game\<close> handles. When the save file is missing, or its
  text is decoded and \<^verbatim>\<open>json.load\<close> rejects it with \<^verbatim>\<open>JSONDecodeError\<close>, then \<^verbatim>\<open>load_game\<close>
  returns \<^verbatim>\<open>False\<close> and the game is the one it was called on: no field of the game has
  changed (in the second case the message "Archivo de guardado corrupto." has been
  printed).
\<close>

lemma load_game_failure_changes_nothing:
  "load_game (g\<lparr>save_file := NoFile\<rparr>) = Inr (False, g\<lparr>save_file := NoFile\<rparr>) \<and>
   load_game (g\<lparr>save_file := NotJson\<rparr>) =
     Inr (False, g\<lparr>save_file := NotJson,
                    reports := reports g @ [''Archivo de guardado corrupto.'']\<rparr>)"
  by (simp add: load_game_def say_def)

text \<open>
  Claim C10 fails on the code. The claim is about every save file whose contents fail
  to parse; \<^verbatim>\<open>load_game\<close> returns \<^verbatim>\<open>False\<close> only for those that fail with
  \<^verbatim>\<open>JSONDecodeError\<close>. A file whose bytes are not valid UTF-8, for instance the single
  byte \<^verbatim>\<open>0xFF\<close>, exists and opens, and fails inside \<^verbatim>\<open>json.load\<close> when the text is read:
  the \<^verbatim>\<open>UnicodeDecodeError\<close> is not a \<^verbatim>\<open>JSONDecodeError\<close>, so it passes the handler and
  leaves \<^verbatim>\<open>load_game\<close>, which returns nothing. No caller catches it either: chosen
  from the main menu (\<^verbatim>\<open>2\<close>), the load ends \<^verbatim>\<open>run\<close> with the exception.
\<close>

theorem load_game_undecodable_file:
  "load_game (g\<lparr>save_file := NotUtf8\<rparr>) = Inl UnicodeDecodeError \<and>
   run (g\<lparr>state := MAIN_MENU, save_file := NotUtf8, stdin := ''2'' # rest\<rparr>) =
     Some (Inl UnicodeDecodeError)"
proof
  show "load_game (g\<lparr>save_file := NotUtf8\<rparr>) = Inl UnicodeDecodeError"
    by (simp add: load_game_def)
  have "step (g\<lparr>state := MAIN_MENU, save_file := NotUtf8, stdin := ''2'' # rest\<rparr>) =
      Some (Inl UnicodeDecodeError)"
    by (simp add: step_def handle_main_menu_def safe_input_def load_game_def)
  then show "run (g\<lparr>state := MAIN_MENU, save_file := NotUtf8, stdin := ''2'' # rest\<rparr>) =
      Some (Inl UnicodeDecodeError)"
    by (subst run.simps) simp
qed

text \<open>
  Claim C8 fails on the code. \<^verbatim>\<open>load_game\<close> catches \<^verbatim>\<open>json.JSONDecodeError\<close> only. A
  file whose text is JSON but not a saved game, here the empty object \<^verbatim>\<open>{}\<close>, gets past
  \<^verbatim>\<open>json.load\<close>; \<^verbatim>\<open>GameState.from_dict\<close> then raises \<^verbatim>\<open>KeyError: 'state'\<close>, which neither
  \<^verbatim>\<open>load_game\<close> nor its callers catch (\<^verbatim>\<open>Game.run\<close> catches \<^verbatim>\<open>EOFError\<close> and
  \<^verbatim>\<open>KeyboardInterrupt\<close>), so the process ends with the exception.
\<close>

theorem load_game_unhandled_error:
  "load_game (g\<lparr>save_file := Document (PDict [])\<rparr>) = Inl (KeyError ''state'')"
  by (simp add: load_game_def GameState_from_dict_def py_get_def py_items_def py_iter_def
      truthy_def subscript_def)

subsection \<open>The saved document is read back as it was written\<close>

lemma map_r_map:
  "(\<And>x. x \<in> set xs \<Longrightarrow> f (g x) = Inr x) \<Longrightarrow> map_r f (map g xs) = Inr xs"
  by (induction xs) simp_all

lemma StatusType_roundtrip [simp]: "StatusType_of (PStr (StatusType_name s)) = Inr s"
  by (cases s) (simp_all add: StatusType_of_def member_by_name_def)

lemma ClassType_roundtrip [simp]: "ClassType_of (PStr (ClassType_name c)) = Inr c"
  by (cases c) (simp_all add: ClassType_of_def member_by_name_def)

lemma TileType_roundtrip [simp]: "TileType_of (PStr (TileType_name t)) = Inr t"
  by (cases t) (simp_all add: TileType_of_def member_by_name_def)

lemma State_roundtrip [simp]: "State_of (PStr (State_name s)) = Inr s"
  by (cases s) (simp_all add: State_of_def member_by_name_def)

lemma StatusEffect_roundtrip [simp]: "StatusEffect_from_dict (StatusEffect_to_dict e) = Inr e"
  by (simp add: StatusEffect_from_dict_def StatusEffect_to_dict_def subscript_def as_int_def)

lemma Skill_roundtrip [simp]: "Skill_from_dict (Skill_to_dict s) = Inr s"
  by (cases "skill_status s")
    (simp_all add: Skill_from_dict_def Skill_to_dict_def subscript_def py_get_def to_int_def
      as_str_def to_str_def truthy_def split: prod.splits)

lemma Item_roundtrip [simp]: "Item_from_dict (Item_to_dict i) = Inr i"
  by (simp add: Item_from_dict_def Item_to_dict_def subscript_def py_get_def to_int_def
      as_str_def to_dict_copy_def truthy_def)

lemma bonuses_roundtrip:
  "map_r (\<lambda>kv. bind_r (as_int (snd kv)) (\<lambda>n. Inr (fst kv, n)))
     (map (\<lambda>kv. (fst kv, PInt (snd kv))) b) = Inr b"
  by (rule map_r_map) (simp add: as_int_def)

lemma Equipment_roundtrip [simp]: "Equipment_from_dict (Equipment_to_dict e) = Inr e"
  by (simp add: Equipment_from_dict_def Equipment_to_dict_def subscript_def to_int_def
      as_str_def to_dict_copy_def bonuses_roundtrip)

lemma Quest_roundtrip [simp]: "Quest_from_dict (Quest_to_dict q) = Inr q"
proof (cases "reward_item q")
  case None
  then show ?thesis
    by (simp add: Quest_from_dict_def Quest_to_dict_def subscript_def py_get_def to_int_def
        as_str_def truthy_def)
next
  case (Some i)
  have "truthy (Item_to_dict i)" by (simp add: truthy_def Item_to_dict_def)
  with Some show ?thesis
    by (simp add: Quest_from_dict_def Quest_to_dict_def subscript_def py_get_def to_int_def
        as_str_def) (simp add: truthy_def)
qed

lemma features_roundtrip: "map_r as_str (map PStr fs) = Inr fs"
  by (rule map_r_map) (simp add: as_str_def)

lemma Location_roundtrip [simp]: "Location_from_dict (Location_to_dict l) = Inr l"
  by (simp add: Location_from_dict_def Location_to_dict_def subscript_def py_get_def
      to_int_def to_str_def to_float_def truthy_def py_index_def py_iter_def pos_to_list_def
      features_roundtrip)

lemma Stats_roundtrip [simp]: "Stats_from_dict (Stats_to_dict s) = Inr s"
  by (simp add: Stats_from_dict_def Stats_to_dict_def subscript_def has_key_def to_int_def)

lemma pos_roundtrip [simp]: "pos_from_list (pos_to_list pos) = Inr pos"
  by (simp add: pos_from_list_def pos_to_list_def py_index_def to_int_def)

lemma equipment_roundtrip:
  "map_r (\<lambda>se. bind_r (Equipment_from_dict (snd se)) (\<lambda>e. Inr (fst se, e)))
     (map (\<lambda>se. (fst se, Equipment_to_dict (snd se))) eqs) = Inr eqs"
  by (rule map_r_map) simp

lemma Player_roundtrip [simp]: "Player_from_dict (Player_to_dict p) = Inr p"
  by (simp add: Player_from_dict_def Player_to_dict_def subscript_def py_get_def py_items_def
      py_iter_def as_str_def to_int_def py_index_def pos_to_list_def map_r_map
      equipment_roundtrip)

lemma stock_roundtrip [simp]: "stock_from_dict (stock_to_dict s) = Inr s"
  by (cases s) (simp_all add: stock_from_dict_def stock_to_dict_def py_get_def subscript_def)

lemma digit_value_digit_char: "d < 10 \<Longrightarrow> digit_value (digit_char d) = d"
  by (simp add: digit_value_def digit_char_def)
lemma is_digit_digit_char: "d < 10 \<Longrightarrow> is_digit (digit_char d)"
  by (simp add: is_digit_def digit_char_def)

lemma digits_of_all: "list_all is_digit (digits_of n)"
proof (induction n rule: digits_of.induct)
  case (1 n)
  show ?case
  proof (cases "n < 10")
    case True
    then show ?thesis by (subst digits_of.simps) (simp add: is_digit_digit_char)
  next
    case False
    with "1.IH" show ?thesis by (subst digits_of.simps) (simp add: is_digit_digit_char)
  qed
qed

lemma digits_of_nonempty: "digits_of n \<noteq> []"
  by (subst digits_of.simps) simp

lemma nat_of_digits_snoc: "nat_of_digits (ds @ [c]) = 10 * nat_of_digits ds + digit_value c"
  by (simp add: nat_of_digits_def)

lemma nat_of_digits_of: "nat_of_digits (digits_of n) = n"
proof (induction n rule: digits_of.induct)
  case (1 n)
  show ?case
  proof (cases "n < 10")
    case True
    then show ?thesis
      by (subst digits_of.simps) (simp add: nat_of_digits_def digit_value_digit_char)
  next
    case False
    with "1.IH" show ?thesis
      by (subst digits_of.simps) (simp add: nat_of_digits_snoc digit_value_digit_char)
  qed
qed

lemma hd_digits_of: "hd (digits_of n) \<noteq> CHR ''-'' \<and> hd (digits_of n) \<noteq> CHR ''+''"
proof (induction n rule: digits_of.induct)
  case (1 n)
  show ?case
  proof (cases "n < 10")
    case True
    then have "is_digit (digit_char n)" by (rule is_digit_digit_char)
    then have "digit_char n \<noteq> CHR ''-'' \<and> digit_char n \<noteq> CHR ''+''"
      by (auto simp: is_digit_def)
    with True show ?thesis by (subst digits_of.simps, subst (2) digits_of.simps) simp
  next
    case False
    with "1.IH" digits_of_nonempty [of "n div 10"] show ?thesis
      by (subst digits_of.simps, subst (2) digits_of.simps) simp
  qed
qed

lemma int_of_str_of_int: "int_of_str (str_of_int i) = Some i"
proof (cases "i < 0")
  case True
  then show ?thesis
    by (simp add: int_of_str_def str_of_int_def digits_of_all digits_of_nonempty nat_of_digits_of)
next
  case False
  obtain c ds where cd: "digits_of (nat i) = c # ds"
    using digits_of_nonempty [of "nat i"] by (cases "digits_of (nat i)") auto
  with hd_digits_of [of "nat i"] have "c \<noteq> CHR ''-''" "c \<noteq> CHR ''+''" by auto
  moreover have "list_all is_digit (c # ds)" using digits_of_all [of "nat i"] cd by simp
  moreover have "nat_of_digits (c # ds) = nat i" using nat_of_digits_of [of "nat i"] cd by simp
  ultimately show ?thesis using False cd
    by (simp add: int_of_str_def str_of_int_def)
qed

lemma split_on_no_sep: "c \<notin> set a \<Longrightarrow> split_on c a = [a]"
  by (induction a) auto

lemma split_on_append: "c \<notin> set a \<Longrightarrow> split_on c (a @ c # b) = a # split_on c b"
  by (induction a) auto

lemma comma_not_digit: "list_all is_digit ds \<Longrightarrow> CHR '','' \<notin> set ds"
  by (induction ds) (auto simp: is_digit_def)

lemma comma_not_in_str_of_int: "CHR '','' \<notin> set (str_of_int i)"
  using comma_not_digit [OF digits_of_all] by (simp add: str_of_int_def)


lemma split_map_key:
  "split_on CHR '','' (map_key pos) = [str_of_int (fst pos), str_of_int (snd pos)]"
  by (simp add: map_key_def split_on_append comma_not_in_str_of_int split_on_no_sep)

lemma map_key_inj: "map_key p = map_key q \<Longrightarrow> p = q"
proof -
  assume eq: "map_key p = map_key q"
  then have "split_on CHR '','' (map_key p) = split_on CHR '','' (map_key q)" by simp
  then have "str_of_int (fst p) = str_of_int (fst q)" "str_of_int (snd p) = str_of_int (snd q)"
    by (simp_all add: split_map_key)
  then have "int_of_str (str_of_int (fst p)) = int_of_str (str_of_int (fst q))"
    "int_of_str (str_of_int (snd p)) = int_of_str (str_of_int (snd q))" by simp_all
  then show "p = q" by (simp add: int_of_str_of_int prod_eq_iff)
qed

lemma update_fresh: "k \<notin> fst ` set al \<Longrightarrow> AList.update k v al = al @ [(k, v)]"
  by (induction al) auto

lemma fold_update_fresh:
  assumes "distinct (map fst kvs)" and "fst ` set kvs \<inter> fst ` set acc = {}"
  shows "fold (\<lambda>kv a. AList.update (fst kv) (snd kv) a) kvs acc = acc @ kvs"
  using assms
proof (induction kvs arbitrary: acc)
  case Nil
  show ?case by simp
next
  case (Cons kv kvs)
  from Cons.prems have fresh: "fst kv \<notin> fst ` set acc" by auto
  then have u: "AList.update (fst kv) (snd kv) acc = acc @ [kv]"
    by (simp add: update_fresh)
  from Cons.prems have "distinct (map fst kvs)"
    and "fst ` set kvs \<inter> fst ` set (acc @ [kv]) = {}" by auto
  from Cons.IH [OF this] u show ?case by simp
qed

lemma map_to_dict_distinct:
  assumes "distinct (map fst m)"
  shows "map_to_dict m = map (\<lambda>cell. (map_key (fst cell), Location_to_dict (snd cell))) m"
proof -
  let ?kvs = "map (\<lambda>cell. (map_key (fst cell), Location_to_dict (snd cell))) m"
  have "map_to_dict m = fold (\<lambda>kv a. AList.update (fst kv) (snd kv) a) ?kvs []"
    by (simp add: map_to_dict_def fold_map comp_def)
  moreover have "distinct (map fst ?kvs)"
    using assms by (simp add: comp_def distinct_map inj_on_def map_key_inj)
  ultimately show ?thesis by (simp add: fold_update_fresh)
qed

lemma map_entry_roundtrip:
  "map_entry_from_dict (map_key pos, Location_to_dict l) acc = Inr (AList.update pos l acc)"
  by (simp add: map_entry_from_dict_def split_map_key to_int_def int_of_str_of_int)

lemma map_from_items_roundtrip:
  assumes "distinct (map fst m)" and "fst ` set m \<inter> fst ` set acc = {}"
  shows "map_from_items (map (\<lambda>cell. (map_key (fst cell), Location_to_dict (snd cell))) m) acc
    = Inr (acc @ m)"
  using assms
proof (induction m arbitrary: acc)
  case Nil
  show ?case by simp
next
  case (Cons cell m)
  from Cons.prems have fresh: "fst cell \<notin> fst ` set acc" by auto
  then have u: "AList.update (fst cell) (snd cell) acc = acc @ [cell]"
    by (simp add: update_fresh)
  from Cons.prems have "distinct (map fst m)"
    and "fst ` set m \<inter> fst ` set (acc @ [cell]) = {}" by auto
  from Cons.IH [OF this] u show ?case by (simp add: map_entry_roundtrip)
qed

lemma game_map_roundtrip:
  "distinct (map fst m) \<Longrightarrow> map_from_items (map_to_dict m) [] = Inr m"
  using map_from_items_roundtrip [of m "[]"] by (simp add: map_to_dict_distinct)

text \<open>
  Claim C2. For every game state (with or without a player; any map, a Python
  dictionary, so its keys are distinct; any discovered list, counters, quest board
  and shop stock), \<^verbatim>\<open>GameState.from_dict\<close> of \<^verbatim>\<open>GameState.to_dict\<close> returns without an
  exception and gives the same state: all fields are equal, those the claim lists
  (player statistics, position, inventory, discovered list, day and turn counters,
  quest board and shop stock) among them.
\<close>

theorem GameState_roundtrip:
  assumes "distinct (map fst (gs_game_map gs))"
  shows "GameState_from_dict (GameState_to_dict gs) = Inr gs"
proof (cases "gs_player gs")
  case None
  with assms show ?thesis
    by (simp add: GameState_from_dict_def GameState_to_dict_def subscript_def py_get_def
        py_items_def py_iter_def to_int_def truthy_def map_r_map game_map_roundtrip)
next
  case (Some p)
  have "truthy (Player_to_dict p)" by (simp add: truthy_def Player_to_dict_def)
  with Some assms show ?thesis
    by (simp add: GameState_from_dict_def GameState_to_dict_def subscript_def py_get_def
        py_items_def py_iter_def to_int_def map_r_map game_map_roundtrip)
qed

text \<open>
  A state with a player who carries a potion, wears the bronze sword and is poisoned,
  a map of two cells, a quest offer with an item as reward and a shop of two entries.
\<close>

definition sample_state :: GameState where
  "sample_state =
     \<lparr>gs_state = EXPLORATION,
      gs_player = Some (sample_warrior
        \<lparr>skills := [\<lparr>skill_name = ''Piro'', skill_description = ''Chispa ardiente'',
                     mp_cost = 3, base_power = 12, scaling = ''int'',
                     skill_status = Some (BURN, 3, 2)\<rparr>],
         inventory := [\<lparr>item_name = ''Pocion'', item_description = ''Recupera 35% HP'',
                        effect = [(''heal_percent'', PInt 35)], price = 0, consumable = True\<rparr>],
         equipment := [(''weapon'', espada_de_bronce)],
         status_effects := [\<lparr>status = POISON, potency = 3, duration = 2\<rparr>],
         position := (4, 3)\<rparr>),
      gs_game_map =
        [((4, 4), \<lparr>loc_position = (4, 4), tile_type = TOWN, loc_discovered = True,
                   zone = ''Plaza de Eteria'', loc_description = ''El corazon comercial'',
                   danger = 0, features = [''Posada'', ''Mercado'']\<rparr>),
         ((4, - 3), \<lparr>loc_position = (4, - 3), tile_type = FOREST, loc_discovered = False,
                   zone = ''Bosque Brumoso'', loc_description = ''Arboles retorcidos'',
                   danger = 2 / 5, features = []\<rparr>)],
      gs_discovered = [(4, 4), (4, 3)], gs_day = 2, gs_turn_count = 7,
      gs_quest_board =
        [\<lparr>quest_name = ''Control de Slimes'', quest_description = ''Elimina slimes'',
          objective_type = ''kill'', target = ''Slime'', required = 3, reward_exp = 62,
          reward_gold = 38,
          reward_item = Some \<lparr>item_name = ''Pocion'', item_description = ''Un extra del gremio.'',
            effect = [(''heal_percent'', PInt 45)], price = 0, consumable = True\<rparr>,
          progress = 1, completed = False\<rparr>],
      gs_shop_stock =
        [StockEquipment baston_robusto,
         StockItem \<lparr>item_name = ''Antidoto'', item_description = ''Cura veneno.'',
           effect = [(''cure'', PStr ''POISON'')], price = 9, consumable = True\<rparr>]\<rparr>"

theorem GameState_roundtrip_witness:
  "distinct (map fst (gs_game_map sample_state)) \<and>
   GameState_from_dict (GameState_to_dict sample_state) = Inr sample_state"
proof -
  have d: "distinct (map fst (gs_game_map sample_state))"
    by (simp add: sample_state_def)
  from d GameState_roundtrip [OF d] show ?thesis by (rule conjI)
qed

text \<open>
  What \<^verbatim>\<open>load_game\<close> makes of the document that \<^verbatim>\<open>save_game\<close> wrote: the saved fields,
  but the state is set to exploration, and an empty quest board or shop is built anew
  rather than restored.
\<close>

lemma load_after_save:
  assumes "player g = Some p" and "distinct (map fst (game_map g))"
    and "quest_board g \<noteq> []" and "shop_stock g \<noteq> []"
  shows "load_game (save_game g) = Inr (True, (save_game g)\<lparr>state := EXPLORATION\<rparr>)"
proof -
  have "distinct (map fst (gs_game_map (snapshot g p)))"
    using assms(2) by (simp add: snapshot_def)
  then have "GameState_from_dict (GameState_to_dict (snapshot g p)) = Inr (snapshot g p)"
    by (rule GameState_roundtrip)
  with assms show ?thesis
    by (simp add: load_game_def save_game_def snapshot_def Let_def)
qed

lemma load_after_save_empty_board:
  assumes "player g = Some p" and "distinct (map fst (game_map g))"
    and "quest_board g = []" and "shop_stock g \<noteq> []"
  shows "load_game (save_game g) =
    Inr (True, refresh_quest_board ((save_game g)\<lparr>state := EXPLORATION\<rparr>))"
proof -
  have "distinct (map fst (gs_game_map (snapshot g p)))"
    using assms(2) by (simp add: snapshot_def)
  then have rt: "GameState_from_dict (GameState_to_dict (snapshot g p)) = Inr (snapshot g p)"
    by (rule GameState_roundtrip)
  show ?thesis
    using assms rt by (cases g) (simp add: load_game_def save_game_def snapshot_def Let_def)
qed

subsection \<open>The guard of Defend lasts until the enemy attacks\<close>

text \<open>
  The enemy's turn ends early when the enemy is stunned or when it is low on health
  and drinks a potion of its drops; otherwise it attacks.
\<close>

definition enemy_attacks :: "Enemy \<Rightarrow> bool" where
  "enemy_attacks e \<longleftrightarrow>
     \<not> stunned (enemy_status_effects e) \<and>
     \<not> (of_int (hp (enemy_stats e)) < of_int (hp_max (enemy_stats e)) * (35 / 100 :: rat) \<and>
        list_ex (\<lambda>item. item_name item = ''Pocion'') (drops e))"

text \<open>
  A mage of level 1 (agility 6) against a goblin (agility 7), with a generator that
  always returns \<open>1/2\<close>: the goblin acts first and its blow deals 11.
\<close>

definition duel :: "string list \<Rightarrow> Game" where
  "duel inp =
     \<lparr>testing = True, rng = (\<lambda>n. 1 / 2), state = COMBAT,
      player = Some (create_player ''Lia'' MAGE), game_map = [], discovered = [],
      start_position = (4, 4), current_enemy = Some enemy_goblin,
      player_guard_active = False, day = 1, turn_count = 0, quest_board = [],
      shop_stock = [], save_file = NoFile, stdin = inp, reports = []\<rparr>"

definition dazed_goblin :: Enemy where
  "dazed_goblin =
     enemy_goblin\<lparr>enemy_status_effects := [\<lparr>status = STUN, potency = 0, duration = 1\<rparr>]\<rparr>"

lemma hit_positive: "calc_damage a d sk r = (damage, r') \<Longrightarrow> 1 \<le> damage"
  by (auto simp add: calc_damage_def Let_def crit_keeps_positive split: prod.splits if_splits)

lemma defend_sets_guard:
  "player g = Some p \<Longrightarrow> current_enemy g = Some e \<Longrightarrow> \<not> stunned (status_effects p) \<Longrightarrow>
   resolve_player_action DEFEND g = Inr (g\<lparr>player_guard_active := True\<rparr>)"
  by (simp add: resolve_player_action_def)

lemma round_end_keeps_guard:
  "process_status_end_of_round g = Inr g' \<Longrightarrow> player_guard_active g' = player_guard_active g"
  by (auto simp: process_status_end_of_round_def split: option.splits prod.splits)

lemma find_potion: "list_ex P xs \<Longrightarrow> \<exists>x. find P xs = Some x"
  by (induction xs) auto

lemma no_potion: "\<not> list_ex P xs \<Longrightarrow> find P xs = None"
  by (induction xs) auto

lemma idle_enemy_keeps_guard:
  assumes "player g = Some p" "current_enemy g = Some e" "\<not> enemy_attacks e"
    "resolve_enemy_action g = Inr g'"
  shows "player_guard_active g' = player_guard_active g"
proof (cases "stunned (enemy_status_effects e)")
  case True
  with assms show ?thesis by (simp add: resolve_enemy_action_def)
next
  case False
  with assms(3) have low: "of_int (hp (enemy_stats e)) < of_int (hp_max (enemy_stats e)) * (35 / 100 :: rat)"
    and ex: "list_ex (\<lambda>item. item_name item = ''Pocion'') (drops e)"
    by (simp_all add: enemy_attacks_def)
  from find_potion [OF ex] obtain potion where
    "find (\<lambda>item. item_name item = ''Pocion'') (drops e) = Some potion" by blast
  with assms False low show ?thesis
    by (auto simp: resolve_enemy_action_def bind_r_def split: sum.splits)
qed

text \<open>
  When the enemy attacks, its turn either raises the same exception with and without
  the guard, or rolls one damage, at least 1, takes it (reduced if the guard is up)
  off the player's health and leaves the guard down.
\<close>

lemma enemy_attack_form:
  assumes pl: "player g = Some p" and en: "current_enemy g = Some e" and att: "enemy_attacks e"
  shows "(\<exists>err. \<forall>b. resolve_enemy_action (g\<lparr>player_guard_active := b\<rparr>) = Inl err) \<or>
    (\<exists>damage. 1 \<le> damage \<and>
       (\<forall>b. \<exists>g' p'. resolve_enemy_action (g\<lparr>player_guard_active := b\<rparr>) = Inr g' \<and>
          \<not> player_guard_active g' \<and> player g' = Some p' \<and>
          stats p' = stats (apply_damage (guarded b damage) p)))"
proof -
  from att have ns: "\<not> stunned (enemy_status_effects e)" by (simp add: enemy_attacks_def)
  from att have np: "(if of_int (hp (enemy_stats e)) < of_int (hp_max (enemy_stats e)) * (35 / 100 :: rat)
       then find (\<lambda>item. item_name item = ''Pocion'') (drops e) else None) = None"
    by (auto simp: enemy_attacks_def no_potion)
  show ?thesis
  proof (cases "choose_enemy_skill e p (rng g)")
    case (Inl err)
    with pl en ns np show ?thesis
      by (simp add: resolve_enemy_action_def)
  next
    case (Inr res)
    obtain choice r0 where res: "res = (choice, r0)" by (cases res)
    define skill where "skill = (case choice of
        Some sk \<Rightarrow> if mp (enemy_stats e) < mp_cost sk then None else Some sk | None \<Rightarrow> None)"
    show ?thesis
    proof (cases skill)
      case None
      obtain damage r where cd: "calc_damage (enemy_stats e) (stats p) None r0 = (damage, r)"
        by (cases "calc_damage (enemy_stats e) (stats p) None r0")
      from hit_positive [OF cd] have "1 \<le> damage" .
      moreover have "\<forall>b. \<exists>g' p'. resolve_enemy_action (g\<lparr>player_guard_active := b\<rparr>) = Inr g' \<and>
          \<not> player_guard_active g' \<and> player g' = Some p' \<and>
          stats p' = stats (apply_damage (guarded b damage) p)"
        using pl en ns np Inr res None cd
        by (simp add: resolve_enemy_action_def skill_def [symmetric])
      ultimately show ?thesis by blast
    next
      case (Some sk)
      define e1 where "e1 = e\<lparr>enemy_stats := (enemy_stats e)\<lparr>mp := mp (enemy_stats e) - mp_cost sk\<rparr>\<rparr>"
      obtain damage r where cd: "calc_damage (enemy_stats e1) (stats p) (Some sk) r0 = (damage, r)"
        by (cases "calc_damage (enemy_stats e1) (stats p) (Some sk) r0")
      from hit_positive [OF cd] have "1 \<le> damage" .
      moreover have "\<forall>b. \<exists>g' p'. resolve_enemy_action (g\<lparr>player_guard_active := b\<rparr>) = Inr g' \<and>
          \<not> player_guard_active g' \<and> player g' = Some p' \<and>
          stats p' = stats (apply_damage (guarded b damage) p)"
        using pl en ns np Inr res Some cd
        by (simp add: resolve_enemy_action_def skill_def [symmetric] Let_def e1_def apply_damage_def
            split: option.splits)
      ultimately show ?thesis by blast
    qed
  qed
qed

lemma guard_le: "1 \<le> d \<Longrightarrow> 1 \<le> guarded b d \<and> guarded b d \<le> d"
proof -
  assume d: "1 \<le> d"
  have "py_int (of_int d * (6 / 10)) \<le> d"
  proof -
    have "(of_int d :: rat) * (6 / 10) \<le> of_int d" using d by simp
    moreover have "0 \<le> (of_int d :: rat) * (6 / 10)" using d by simp
    ultimately show ?thesis by (simp add: py_int_def floor_le_iff)
  qed
  with d show ?thesis by (simp add: guarded_def)
qed

lemma guarded_hit:
  assumes pl: "player g = Some p" and en: "current_enemy g = Some e" and att: "enemy_attacks e"
    and hp: "hp (stats p) \<le> hp_max (stats p)"
    and u: "resolve_enemy_action (g\<lparr>player_guard_active := False\<rparr>) = Inr u"
    and alive: "\<not> player_down u"
  shows "\<exists>v pu pv. resolve_enemy_action (g\<lparr>player_guard_active := True\<rparr>) = Inr v \<and>
      player u = Some pu \<and> player v = Some pv \<and>
      hp (stats pv) =
        hp (stats p) - max 1 (py_int (of_int (hp (stats p) - hp (stats pu)) * (6 / 10))) \<and>
      \<not> player_guard_active v \<and> \<not> player_guard_active u"
proof -
  from enemy_attack_form [OF pl en att] u
  obtain damage where d: "1 \<le> damage"
    and form: "\<forall>b. \<exists>g' p'. resolve_enemy_action (g\<lparr>player_guard_active := b\<rparr>) = Inr g' \<and>
          \<not> player_guard_active g' \<and> player g' = Some p' \<and>
          stats p' = stats (apply_damage (guarded b damage) p)"
    by auto
  from form [rule_format, of False] u obtain pu where
    pu: "player u = Some pu" "stats pu = stats (apply_damage damage p)" and fu: "\<not> player_guard_active u"
    by (auto simp: guarded_def)
  from form [rule_format, of True] obtain v pv where
    v: "resolve_enemy_action (g\<lparr>player_guard_active := True\<rparr>) = Inr v"
    and pv: "player v = Some pv" "stats pv = stats (apply_damage (guarded True damage) p)"
    and fv: "\<not> player_guard_active v"
    by blast
  from alive pu have pos: "0 < hp (stats pu)" by (simp add: player_down_def)
  with pu(2) d hp have loss: "hp (stats pu) = hp (stats p) - damage"
    by (simp add: apply_damage_def clamp_def split: if_splits)
  from guard_le [OF d, of True] have g1: "1 \<le> guarded True damage" "guarded True damage \<le> damage"
    by simp_all
  from pv(2) g1 loss pos hp have "hp (stats pv) = hp (stats p) - guarded True damage"
    by (simp add: apply_damage_def clamp_def)
  with loss have "hp (stats pv) =
      hp (stats p) - max 1 (py_int (of_int (hp (stats p) - hp (stats pu)) * (6 / 10)))"
    by (simp add: guarded_def)
  with v pu(1) pv(1) fv fu show ?thesis by blast
qed

text \<open>
  Claim C5, as the spec states it, does not hold of the code. The goblin is faster
  than the mage and strikes first (the mage goes from 40 to 29); the mage then
  defends, which raises the guard, and nothing at the end of the round lowers it. The
  guard is still up when the second round begins, and it is there that it is
  consumed: the goblin's blow of 11 becomes \<open>max 1 (int (11 * 0.6)) = 6\<close> and the mage
  goes from 29 to 23.
\<close>

theorem guard_survives_round:
  "(case combat_round (duel [''4'', ''1'']) of
      Inl err \<Rightarrow> False
    | Inr (escaped, g1) \<Rightarrow>
        \<not> escaped \<and> player_guard_active g1 \<and> \<not> player_down g1 \<and> \<not> enemy_down g1 \<and>
        map_option (\<lambda>p. hp (stats p)) (player g1) = Some 29 \<and>
        (case combat_round g1 of
           Inl err \<Rightarrow> False
         | Inr (escaped', g2) \<Rightarrow>
             \<not> escaped' \<and> \<not> player_guard_active g2 \<and>
             map_option (\<lambda>p. hp (stats p)) (player g2) = Some 23))"
  by code_simp

text \<open>
  Claim C5, amended to what the code does. During a combat, with the player and the
  enemy in place:
  \<^item> Defend, chosen by a player who is not stunned, raises the guard and changes nothing
    else;
  \<^item> the ticks at the end of the round leave the guard as it is;
  \<^item> an enemy turn that does not attack (the enemy is stunned, or drinks a potion)
    leaves the guard as it is;
  \<^item> an enemy turn that attacks lowers the guard: if without the guard the attack
    returns and leaves the player alive after a loss of \<open>d\<close> health, then with the guard
    up the same attack returns too, takes \<open>max 1 (int (d * 0.6))\<close> instead and leaves the
    guard down.

  So the guard is one-shot, consumed by the enemy's next attack, in whichever round
  that attack comes; \<^verbatim>\<open>handle_combat\<close> lowers it when a combat starts.
\<close>

theorem guard_lasts_until_enemy_attacks:
  assumes pl: "player g = Some p" and en: "current_enemy g = Some e"
  shows "(\<not> stunned (status_effects p) \<longrightarrow>
        resolve_player_action DEFEND g = Inr (g\<lparr>player_guard_active := True\<rparr>)) \<and>
    (\<forall>g'. process_status_end_of_round g = Inr g' \<longrightarrow>
        player_guard_active g' = player_guard_active g) \<and>
    (\<forall>g'. \<not> enemy_attacks e \<and> resolve_enemy_action g = Inr g' \<longrightarrow>
        player_guard_active g' = player_guard_active g) \<and>
    (\<forall>u. enemy_attacks e \<and> hp (stats p) \<le> hp_max (stats p) \<and>
        resolve_enemy_action (g\<lparr>player_guard_active := False\<rparr>) = Inr u \<and> \<not> player_down u \<longrightarrow>
        (\<exists>v pu pv. resolve_enemy_action (g\<lparr>player_guard_active := True\<rparr>) = Inr v \<and>
           player u = Some pu \<and> player v = Some pv \<and>
           hp (stats pv) =
             hp (stats p) - max 1 (py_int (of_int (hp (stats p) - hp (stats pu)) * (6 / 10))) \<and>
           \<not> player_guard_active v \<and> \<not> player_guard_active u))"
  using defend_sets_guard [OF pl en] round_end_keeps_guard [of g]
    idle_enemy_keeps_guard [OF pl en] guarded_hit [OF pl en]
  by blast

text \<open>
  In the duel: the mage raises the guard; the goblin's attack takes 11 without the
  guard (40 to 29) and 6 with it (40 to 34), and lowers it; a stunned goblin leaves a
  raised guard up, and so does the end of the round.
\<close>

theorem guard_lasts_until_enemy_attacks_witness:
  "resolve_player_action DEFEND (duel []) = Inr ((duel [])\<lparr>player_guard_active := True\<rparr>) \<and>
   (\<exists>u v pu pv.
      resolve_enemy_action ((duel [])\<lparr>player_guard_active := False\<rparr>) = Inr u \<and>
      resolve_enemy_action ((duel [])\<lparr>player_guard_active := True\<rparr>) = Inr v \<and>
      player u = Some pu \<and> player v = Some pv \<and> hp (stats pu) = 29 \<and> hp (stats pv) = 34 \<and>
      \<not> player_guard_active v) \<and>
   (\<exists>g'. resolve_enemy_action
            ((duel [])\<lparr>current_enemy := Some dazed_goblin, player_guard_active := True\<rparr>) = Inr g' \<and>
      player_guard_active g') \<and>
   (\<exists>g'. process_status_end_of_round ((duel [])\<lparr>player_guard_active := True\<rparr>) = Inr g' \<and>
      player_guard_active g')"
proof -
  let ?p = "create_player ''Lia'' MAGE"
  let ?g = "duel []"
  let ?s = "(duel [])\<lparr>current_enemy := Some dazed_goblin, player_guard_active := True\<rparr>"
  let ?t = "(duel [])\<lparr>player_guard_active := True\<rparr>"
  have pl: "player ?g = Some ?p" and en: "current_enemy ?g = Some enemy_goblin"
    by (simp_all add: duel_def)
  have pls: "player ?s = Some ?p" and ens: "current_enemy ?s = Some dazed_goblin"
    by (simp_all add: duel_def)
  have plt: "player ?t = Some ?p" and ent: "current_enemy ?t = Some enemy_goblin"
    by (simp_all add: duel_def)
  have awake: "\<not> stunned (status_effects ?p)" by code_simp
  have att: "enemy_attacks enemy_goblin" by code_simp
  have idle: "\<not> enemy_attacks dazed_goblin" by code_simp
  have sound: "hp (stats ?p) \<le> hp_max (stats ?p)" and full: "hp (stats ?p) = 40" by code_simp+
  have "case resolve_enemy_action (?g\<lparr>player_guard_active := False\<rparr>) of
      Inl err \<Rightarrow> False
    | Inr u \<Rightarrow> \<not> player_down u \<and> map_option (\<lambda>p. hp (stats p)) (player u) = Some 29"
    by code_simp
  then obtain u where u: "resolve_enemy_action (?g\<lparr>player_guard_active := False\<rparr>) = Inr u"
    "\<not> player_down u" "map_option (\<lambda>p. hp (stats p)) (player u) = Some 29"
    by (cases "resolve_enemy_action (?g\<lparr>player_guard_active := False\<rparr>)") simp_all
  have "case resolve_enemy_action ?s of Inl err \<Rightarrow> False | Inr g' \<Rightarrow> True"
    by code_simp
  then obtain s' where s': "resolve_enemy_action ?s = Inr s'"
    by (cases "resolve_enemy_action ?s") simp_all
  have "case process_status_end_of_round ?t of Inl err \<Rightarrow> False | Inr g' \<Rightarrow> True"
    by code_simp
  then obtain t' where t': "process_status_end_of_round ?t = Inr t'"
    by (cases "process_status_end_of_round ?t") simp_all
  note main = guard_lasts_until_enemy_attacks [OF pl en]
  from main awake have first: "resolve_player_action DEFEND ?g = Inr ?t" by blast
  from main att sound u(1,2) obtain v pu pv where
    v: "resolve_enemy_action ?t = Inr v" "player u = Some pu" "player v = Some pv"
      "hp (stats pv) =
         hp (stats ?p) - max 1 (py_int (of_int (hp (stats ?p) - hp (stats pu)) * (6 / 10)))"
      "\<not> player_guard_active v"
    by blast
  from u(3) v(2) have lost: "hp (stats pu) = 29" by simp
  have reduced: "max 1 (py_int (of_int (40 - 29) * (6 / 10))) = 6" by code_simp
  from v(4) full lost have kept: "hp (stats pv) = 34" by (simp only: reduced)
  from guard_lasts_until_enemy_attacks [OF pls ens] idle s'
  have third: "player_guard_active s'" by (simp add: duel_def)
  from guard_lasts_until_enemy_attacks [OF plt ent] t'
  have fourth: "player_guard_active t'" by (simp add: duel_def)
  from first u(1) v(1,2,3,5) lost kept s' third t' fourth show ?thesis by blast
qed

end
